theory Spec2Isabelle
  imports Main "HOL-Library.Sublist" "HOL-Library.Word"
begin

chapter \<open>The model\<close>

section \<open>Strings and decimal numerals\<close>

text \<open>
  Strings of the TypeScript source are modelled as \<^typ>\<open>string\<close> (lists of characters).
  The source's strings are sequences of UTF-16 code units; the string operations modelled
  here (concatenation, \<open>endsWith\<close>, \<open>includes\<close>, replacement of newline runs, matching of
  ASCII patterns) only compare code units for equality, so the element type makes no
  difference to them. \<open>endsWith\<close> is \<^const>\<open>suffix\<close>, \<open>startsWith\<close> is \<^const>\<open>prefix\<close>
  and \<open>includes\<close> is \<^const>\<open>sublist\<close> (a contiguous part).
\<close>

definition nl :: char where
  "nl = CHR 0x0A"

text \<open>The regular expression class \<^verbatim>\<open>\d\<close> (without the unicode flag): \<^verbatim>\<open>[0-9]\<close>.\<close>

definition is_digit :: "char \<Rightarrow> bool" where
  "is_digit c = (c \<in> set ''0123456789'')"

definition digit_val :: "char \<Rightarrow> int" where
  "digit_val c = int (of_char c) - 48"

text \<open>
  \<^verbatim>\<open>parseInt(s, 10)\<close> on a string of decimal digits: the number written. (The source
  rounds a number of more than fifteen digits; a buffer has fewer bytes than that, so
  such a number is beyond the last byte either way and no answer depends on the rounding.)
\<close>

definition parseInt :: "string \<Rightarrow> int" where
  "parseInt s = foldl (\<lambda>acc c. 10 * acc + digit_val c) 0 s"

text \<open>
  The decimal text of an integer, as a template literal or \<open>toString()\<close> prints it
  (status codes, error codes and byte offsets are integers far below the range where
  the source's number type loses precision).
\<close>

definition digit_char :: "nat \<Rightarrow> char" where
  "digit_char d = ''0123456789'' ! d"

function show_nat :: "nat \<Rightarrow> string" where
  "show_nat n = (if n < 10 then [digit_char n] else show_nat (n div 10) @ [digit_char (n mod 10)])"
  by pat_completeness auto
termination
  by (relation "measure id") auto

definition show_int :: "int \<Rightarrow> string" where
  "show_int i = (if i < 0 then ''-'' @ show_nat (nat (- i)) else show_nat (nat i))"

text \<open>\<open>parts.join(sep)\<close>.\<close>

fun join :: "string \<Rightarrow> string list \<Rightarrow> string" where
  "join sep [] = []"
| "join sep [x] = x"
| "join sep (x # y # ys) = x @ sep @ join sep (y # ys)"

text \<open>
  \<open>toLowerCase()\<close> on the letters A to Z. The source's function also changes letters
  outside ASCII, but none of those becomes one of the letters of the word looked for
  below, so the search among the lower-cased text is the same.
\<close>

definition to_lower :: "char \<Rightarrow> char" where
  "to_lower c =
     (case map_of (zip ''ABCDEFGHIJKLMNOPQRSTUVWXYZ'' ''abcdefghijklmnopqrstuvwxyz'') c of
        Some l \<Rightarrow> l
      | None \<Rightarrow> c)"

definition toLowerCase :: "string \<Rightarrow> string" where
  "toLowerCase s = map to_lower s"

text \<open>The value of \<open>a || d\<close> for an optional string: an absent or empty string is falsy.\<close>

definition str_or :: "string option \<Rightarrow> string \<Rightarrow> string" where
  "str_or a d = (case a of None \<Rightarrow> d | Some s \<Rightarrow> if s \<noteq> [] then s else d)"

section \<open>Caption formatting\<close>

text \<open>
  \<^verbatim>\<open>result.replace(/\n{3,}/g, '\n\n')\<close>: the scan goes left to right; at a position
  where three newlines start, the greedy quantifier takes the whole run and two newlines
  are written in its place, and the scan goes on after the run; anywhere else the
  character is copied and the scan moves one position on.
\<close>

function collapse_newlines :: "string \<Rightarrow> string" where
  "collapse_newlines (a # b # c # cs) =
     (if a = nl \<and> b = nl \<and> c = nl
      then nl # nl # collapse_newlines (dropWhile (\<lambda>x. x = nl) cs)
      else a # collapse_newlines (b # c # cs))"
| "collapse_newlines [a, b] = [a, b]"
| "collapse_newlines [a] = [a]"
| "collapse_newlines [] = []"
  by pat_completeness auto
termination
  by (relation "measure length")
     (auto simp: le_imp_less_Suc length_dropWhile_le less_Suc_eq_le le_SucI)

text \<open>\<^verbatim>\<open>prepareCaption(caption, hashSuffix)\<close>. A string is truthy when it is not empty.\<close>

definition prepareCaption :: "string \<Rightarrow> string \<Rightarrow> string" where
  "prepareCaption caption hashSuffix =
     (let result = (if hashSuffix \<noteq> [] \<and> \<not> suffix hashSuffix caption
                    then caption @ [nl] @ hashSuffix else caption)
      in collapse_newlines result)"

text \<open>The string has three newlines in a row somewhere (a recursive test, used in proofs).\<close>

fun has_triple_nl :: "string \<Rightarrow> bool" where
  "has_triple_nl (a # b # c # cs) =
     ((a = nl \<and> b = nl \<and> c = nl) \<or> has_triple_nl (b # c # cs))"
| "has_triple_nl cs = False"

section \<open>Effects: remote calls, sleeps and errors\<close>

text \<open>
  Every remote call, sleep and registry operation of a run is recorded, in order, in a
  list of events. A computation returns either the message of the error it throws
  (\<open>Inl\<close>) or its value (\<open>Inr\<close>), together with the events it caused.
\<close>

type_synonym byte = "8 word"
type_synonym buffer = "byte list"

datatype event =
    Sleep nat
  | CallPublish string
  | CallStatus string
  | CallTryCreateImage string
  | CallDownload string
  | CallConvertImage
  | CallUploadPhotoBuffer
  | CallGetPhotoImages string
  | CallCreateImageContainer string
  | CallUploadPhotoUrl string
  | CallCreateFeedPost string
  | CallGetPermalink string
  | CallConvertVideo
  | Register string
  | StartUploadVideo
  | CallCreateReel string
  | AwaitUploadVideo
  | CallDeleteVideo string
  | Close string

type_synonym 'a io = "(string + 'a) \<times> event list"

definition return_io :: "'a \<Rightarrow> 'a io" where
  "return_io x = (Inr x, [])"

definition throw_io :: "string \<Rightarrow> 'a io" where
  "throw_io e = (Inl e, [])"

text \<open>An awaited call of an external function: the event, then its outcome.\<close>

definition call :: "event \<Rightarrow> string + 'a \<Rightarrow> 'a io" where
  "call ev outcome = (outcome, [ev])"

text \<open>Sequencing: an error of the first part skips the rest.\<close>

definition bind_io :: "'a io \<Rightarrow> ('a \<Rightarrow> 'b io) \<Rightarrow> 'b io" where
  "bind_io m f =
     (case m of
        (Inl e, tr) \<Rightarrow> (Inl e, tr)
      | (Inr x, tr) \<Rightarrow> (case f x of (r, tr') \<Rightarrow> (r, tr @ tr')))"

text \<open>\<open>try { m } catch (error) { h error }\<close>.\<close>

definition try_catch :: "'a io \<Rightarrow> (string \<Rightarrow> 'a io) \<Rightarrow> 'a io" where
  "try_catch m h =
     (case m of
        (Inl e, tr) \<Rightarrow> (case h e of (r, tr') \<Rightarrow> (r, tr @ tr'))
      | (Inr x, tr) \<Rightarrow> (Inr x, tr))"

section \<open>Responses of the destination API\<close>

text \<open>
  The full response of a call made with \<open>ignoreHttpStatusErrors\<close> and
  \<open>returnFullResponse\<close>: the fields the orchestrator reads. \<open>body_json\<close> is the text
  \<open>JSON.stringify(resp.body)\<close> gives.
\<close>

record api_error =
  code :: "int option"
  error_subcode :: "int option"
  error_user_msg :: "string option"
  message :: "string option"

record full_response =
  statusCode :: int
  www_authenticate :: "string option"
  body_id :: "string option"
  body_error :: "api_error option"
  body_json :: string

text \<open>\<open>if (err.code) parts.push(`code ${err.code}`)\<close>: an absent or zero number is falsy.\<close>

definition num_part :: "string \<Rightarrow> int option \<Rightarrow> string list" where
  "num_part label n = (case n of None \<Rightarrow> [] | Some k \<Rightarrow> if k \<noteq> 0 then [label @ show_int k] else [])"

definition formatIgApiError :: "full_response \<Rightarrow> string" where
  "formatIgApiError resp =
     (case body_error resp of
        None \<Rightarrow> ''HTTP '' @ show_int (statusCode resp) @ '': '' @ body_json resp
      | Some err \<Rightarrow>
          (let parts = [''HTTP '' @ show_int (statusCode resp)]
                       @ num_part ''code '' (code err)
                       @ num_part ''subcode '' (error_subcode err);
               msg = str_or (error_user_msg err) (str_or (message err) [])
           in ''Instagram publish failed ('' @ join '', '' parts @ ''): '' @ msg))"

text \<open>
  \<open>resp.statusCode >= 200 && resp.statusCode < 300 && resp.body?.id\<close>: the id when the
  condition is truthy.
\<close>

definition success_id :: "full_response \<Rightarrow> string option" where
  "success_id resp =
     (if 200 \<le> statusCode resp \<and> statusCode resp < 300
      then (case body_id resp of None \<Rightarrow> None | Some i \<Rightarrow> if i \<noteq> [] then Some i else None)
      else None)"

section \<open>Bounded retry of the container publish\<close>

definition delays :: "nat list" where
  "delays = [1000, 2000, 3000, 4000, 5000]"

text \<open>
  \<open>publishIgContainer\<close> is the adapter's call: for the attempt number it gives the
  response, or the message of the error it throws (a failure of the transport).
  The loop of \<open>publishIgContainerWithRetry\<close>, from attempt number \<open>attempt\<close>.
\<close>

function publish_loop :: "(nat \<Rightarrow> string + full_response) \<Rightarrow> string \<Rightarrow> nat \<Rightarrow> string io" where
  "publish_loop publishIgContainer containerId attempt =
     (case publishIgContainer attempt of
        Inl e \<Rightarrow> (Inl e, [CallPublish containerId])
      | Inr resp \<Rightarrow>
          (case success_id resp of
             Some i \<Rightarrow> (Inr i, [CallPublish containerId])
           | None \<Rightarrow>
               if 400 \<le> statusCode resp \<and> statusCode resp < 500
               then (Inl (formatIgApiError resp), [CallPublish containerId])
               else if attempt \<ge> length delays
               then (Inl (formatIgApiError resp), [CallPublish containerId])
               else (case publish_loop publishIgContainer containerId (attempt + 1) of
                       (r, tr) \<Rightarrow> (r, CallPublish containerId # Sleep (delays ! attempt) # tr))))"
  by pat_completeness auto
termination
  by (relation "measure (\<lambda>(p, c, attempt). length delays - attempt)") auto

definition publishIgContainerWithRetry :: "(nat \<Rightarrow> string + full_response) \<Rightarrow> string \<Rightarrow> string io" where
  "publishIgContainerWithRetry publishIgContainer containerId =
     publish_loop publishIgContainer containerId 0"

text \<open>What a trace says: the sleeps in order, and the number of publish calls.\<close>

fun sleeps :: "event list \<Rightarrow> nat list" where
  "sleeps [] = []"
| "sleeps (Sleep d # es) = d # sleeps es"
| "sleeps (e # es) = sleeps es"

fun publish_calls :: "event list \<Rightarrow> nat" where
  "publish_calls [] = 0"
| "publish_calls (CallPublish c # es) = Suc (publish_calls es)"
| "publish_calls (e # es) = publish_calls es"

text \<open>A response after which the loop goes on: not a success and not a 4xx status.\<close>

definition transient :: "string + full_response \<Rightarrow> bool" where
  "transient r =
     (case r of
        Inl e \<Rightarrow> False
      | Inr resp \<Rightarrow> success_id resp = None \<and> \<not> (400 \<le> statusCode resp \<and> statusCode resp < 500))"

text \<open>
  The events of \<open>k\<close> attempts that were followed by a retry, the first of them with the
  number \<open>a\<close>: each is a publish call and the sleep that follows it.
\<close>

fun retry_events :: "string \<Rightarrow> nat \<Rightarrow> nat \<Rightarrow> event list" where
  "retry_events containerId a 0 = []"
| "retry_events containerId a (Suc k) =
     CallPublish containerId # Sleep (delays ! a) # retry_events containerId (Suc a) k"

text \<open>A response with a status from 200 to 299 whose body has no id (or an empty one).\<close>

definition ok_without_id :: "string + full_response \<Rightarrow> bool" where
  "ok_without_id r =
     (case r of
        Inl e \<Rightarrow> False
      | Inr resp \<Rightarrow> 200 \<le> statusCode resp \<and> statusCode resp < 300 \<and> str_or (body_id resp) [] = [])"

section \<open>Polling of the container status\<close>

datatype status_code = EXPIRED | ERROR | FINISHED | IN_PROGRESS | PUBLISHED

record ig_status =
  status_code :: status_code
  status :: "string option"

fun status_code_text :: "status_code \<Rightarrow> string" where
  "status_code_text EXPIRED = ''EXPIRED''"
| "status_code_text ERROR = ''ERROR''"
| "status_code_text FINISHED = ''FINISHED''"
| "status_code_text IN_PROGRESS = ''IN_PROGRESS''"
| "status_code_text PUBLISHED = ''PUBLISHED''"

definition maxPolls :: nat where
  "maxPolls = 30"

definition pollInterval :: nat where
  "pollInterval = 10000"

definition processing_failed :: "ig_status \<Rightarrow> string" where
  "processing_failed st =
     ''Instagram Reel processing failed: '' @ str_or (status st) (status_code_text (status_code st)) @ ''. '' @
     ''Ensure the video URL is publicly accessible and the video meets Instagram Reels '' @
     ''requirements (MP4 H.264, max 5 Mbps bitrate, max 90s, 9:16 aspect ratio recommended).''"

definition timed_out :: string where
  "timed_out = ''Instagram Reel processing timed out after 5 minutes of polling''"

text \<open>
  The loop of \<open>pollIgContainer\<close> from attempt number \<open>attempt\<close>. \<open>getIgContainerStatus\<close>
  gives, for the attempt number, the status read or the message of the error the call
  throws.
\<close>

function poll_loop :: "(nat \<Rightarrow> string + ig_status) \<Rightarrow> string \<Rightarrow> nat \<Rightarrow> unit io" where
  "poll_loop getIgContainerStatus containerId attempt =
     (if attempt < maxPolls
      then (case getIgContainerStatus attempt of
              Inl e \<Rightarrow> (Inl e, [Sleep pollInterval, CallStatus containerId])
            | Inr st \<Rightarrow>
                if status_code st = FINISHED
                then (Inr (), [Sleep pollInterval, CallStatus containerId])
                else if status_code st = ERROR \<or> status_code st = EXPIRED
                then (Inl (processing_failed st), [Sleep pollInterval, CallStatus containerId])
                else (case poll_loop getIgContainerStatus containerId (attempt + 1) of
                        (r, tr) \<Rightarrow> (r, Sleep pollInterval # CallStatus containerId # tr)))
      else (Inl timed_out, []))"
  by pat_completeness auto
termination
  by (relation "measure (\<lambda>(g, c, attempt). maxPolls - attempt)") auto

definition pollIgContainer :: "(nat \<Rightarrow> string + ig_status) \<Rightarrow> string \<Rightarrow> unit io" where
  "pollIgContainer getIgContainerStatus containerId = poll_loop getIgContainerStatus containerId 0"

text \<open>A poll after which the loop goes on: the status read is not terminal.\<close>

definition pending :: "string + ig_status \<Rightarrow> bool" where
  "pending r =
     (case r of
        Inl e \<Rightarrow> False
      | Inr st \<Rightarrow> status_code st = IN_PROGRESS \<or> status_code st = PUBLISHED)"

text \<open>One round of the loop, and \<open>n\<close> rounds.\<close>

definition poll_rounds :: "string \<Rightarrow> nat \<Rightarrow> event list" where
  "poll_rounds containerId n = concat (replicate n [Sleep pollInterval, CallStatus containerId])"

section \<open>The external collaborators\<close>

text \<open>
  The calls of the destination API adapter, the transcoder and the host are parameters
  of the model: each gives, for its arguments, the value returned or the message of the
  error thrown. Access tokens, account identifiers, the API version and the transcoding
  settings are handed through to these calls unchanged and are left out. The two calls
  made in a loop take the number of the attempt as well.
\<close>

record env =
  tryCreateIgImageContainer :: "string \<Rightarrow> string \<Rightarrow> string + full_response"
  downloadMedia :: "string \<Rightarrow> string + buffer"
  convertImage :: "buffer \<Rightarrow> string + buffer"
  uploadFbPhotoFromBuffer :: "buffer \<Rightarrow> string + string"
  getFbPhotoImages :: "string \<Rightarrow> string + string list"
  createIgImageContainer :: "string \<Rightarrow> string \<Rightarrow> string + string"
  publishIgContainer :: "string \<Rightarrow> nat \<Rightarrow> string + full_response"
  uploadFbPhotoFromUrl :: "string \<Rightarrow> string + string"
  createFbFeedPost :: "string \<Rightarrow> string \<Rightarrow> string + string"
  getIgPermalink :: "string \<Rightarrow> string + string"
  convertVideo :: "buffer \<Rightarrow> string + buffer"
  uploadFbVideoFromBuffer :: "buffer \<Rightarrow> string \<Rightarrow> string + string"
  createIgReelContainer :: "string \<Rightarrow> string \<Rightarrow> string + string"
  getIgContainerStatus :: "string \<Rightarrow> nat \<Rightarrow> string + ig_status"
  deleteFbVideo :: "string \<Rightarrow> string + unit"
  randomUUID :: string
  getInstanceBaseUrl :: string

record params =
  mediaUrl :: string
  facebookPageId :: string

record MetaPostResult =
  instagram_post_id :: string
  instagram_permalink :: string
  facebook_post_id :: string
  facebook_photo_id :: "string option"
  facebook_video_id :: "string option"

section \<open>The image flow\<close>

definition format_signature :: string where
  "format_signature = ''Only photo or video can be accepted''"

text \<open>The text \<open>errorText\<close> the signature is searched in, and the test itself.\<close>

definition errorText :: "full_response \<Rightarrow> string" where
  "errorText containerResp =
     (let wwwAuth = str_or (www_authenticate containerResp) [];
          bodyMsg = str_or (case body_error containerResp of None \<Rightarrow> None | Some err \<Rightarrow> message err) []
      in wwwAuth @ '' '' @ bodyMsg)"

definition isFormatError :: "full_response \<Rightarrow> bool" where
  "isFormatError containerResp = sublist format_signature (errorText containerResp)"

definition creation_failed :: "full_response \<Rightarrow> string" where
  "creation_failed containerResp =
     (let bodyMsg = str_or (case body_error containerResp of None \<Rightarrow> None | Some err \<Rightarrow> message err) []
      in ''Instagram container creation failed (HTTP '' @ show_int (statusCode containerResp) @ ''): '' @
         (if bodyMsg \<noteq> [] then bodyMsg else body_json containerResp))"

text \<open>
  Step 2 of \<open>handleImage\<close>, run when the signature was found: download, convert, upload
  as an unpublished photo, read the hosted address, create the container from it.
  The value is the pair \<open>(fbPhotoId, igContainerId)\<close>.
\<close>

definition convert_and_retry :: "env \<Rightarrow> params \<Rightarrow> string \<Rightarrow> (string option \<times> string) io" where
  "convert_and_retry env params caption =
     bind_io (call (CallDownload (mediaUrl params)) (downloadMedia env (mediaUrl params))) (\<lambda>imageBuffer.
     bind_io (call CallConvertImage (convertImage env imageBuffer)) (\<lambda>convertedBuffer.
     bind_io (call CallUploadPhotoBuffer (uploadFbPhotoFromBuffer env convertedBuffer)) (\<lambda>fbPhotoId.
     bind_io (call (CallGetPhotoImages fbPhotoId) (getFbPhotoImages env fbPhotoId)) (\<lambda>images.
     (case images of
        [] \<Rightarrow> throw_io ''Could not retrieve CDN URL for converted image from Facebook''
      | cdnUrl # rest \<Rightarrow>
          if cdnUrl = [] then throw_io ''Could not retrieve CDN URL for converted image from Facebook''
          else bind_io (call (CallCreateImageContainer cdnUrl) (createIgImageContainer env cdnUrl caption))
                 (\<lambda>retryContainer. return_io (Some fbPhotoId, retryContainer)))))))"

text \<open>Steps 1 and 2: the first attempt with the original address, and what follows it.\<close>

definition image_container :: "env \<Rightarrow> params \<Rightarrow> string \<Rightarrow> (string option \<times> string) io" where
  "image_container env params caption =
     bind_io (call (CallTryCreateImage (mediaUrl params))
                (tryCreateIgImageContainer env (mediaUrl params) caption)) (\<lambda>containerResp.
     (case success_id containerResp of
        Some i \<Rightarrow> return_io (None, i)
      | None \<Rightarrow>
          if \<not> isFormatError containerResp then throw_io (creation_failed containerResp)
          else convert_and_retry env params caption))"

definition handleImage :: "env \<Rightarrow> params \<Rightarrow> string \<Rightarrow> MetaPostResult io" where
  "handleImage env params caption =
     bind_io (image_container env params caption) (\<lambda>(fbPhotoId, igContainerId).
     bind_io (publishIgContainerWithRetry (publishIgContainer env igContainerId) igContainerId) (\<lambda>igPost.
     bind_io (if str_or fbPhotoId [] = []
              then call (CallUploadPhotoUrl (mediaUrl params)) (uploadFbPhotoFromUrl env (mediaUrl params))
              else return_io (str_or fbPhotoId [])) (\<lambda>fbPhotoId.
     bind_io (call (CallCreateFeedPost fbPhotoId) (createFbFeedPost env caption fbPhotoId)) (\<lambda>fbFeedPost.
     bind_io (call (CallGetPermalink igPost) (getIgPermalink env igPost)) (\<lambda>igPermalink.
     return_io \<lparr>instagram_post_id = igPost, instagram_permalink = igPermalink,
                facebook_post_id = fbFeedPost, facebook_photo_id = Some fbPhotoId,
                facebook_video_id = None\<rparr>)))))"

text \<open>The number of runs of the image transcoder a trace records.\<close>

definition transcoder_runs :: "event list \<Rightarrow> nat" where
  "transcoder_runs tr = length (filter (\<lambda>e. e = CallConvertImage) tr)"

text \<open>An event of the fallback cycle of the image flow: one of its five steps.\<close>

fun cycle_event :: "event \<Rightarrow> bool" where
  "cycle_event (CallDownload u) = True"
| "cycle_event CallConvertImage = True"
| "cycle_event CallUploadPhotoBuffer = True"
| "cycle_event (CallGetPhotoImages p) = True"
| "cycle_event (CallCreateImageContainer u) = True"
| "cycle_event e = False"

section \<open>The range-serving endpoint\<close>

record request =
  http_method :: string
  url :: string
  range_header :: "string option"

record response =
  res_code :: nat
  res_headers :: "(string \<times> string) list"
  res_body :: buffer

text \<open>
  The match of \<^verbatim>\<open>/^bytes=(\d+)-(\d*)$/\<close>: the two groups. After the prefix the first
  group takes every leading digit (the next character has to be the dash), and the
  second group is the rest, all digits, up to the end of the text.
\<close>

definition match_range :: "string \<Rightarrow> (string \<times> string) option" where
  "match_range header =
     (if prefix ''bytes='' header
      then (let rest = drop 6 header;
                m1 = takeWhile is_digit rest
            in (case dropWhile is_digit rest of
                  [] \<Rightarrow> None
                | c # m2 \<Rightarrow> if m1 \<noteq> [] \<and> c = CHR ''-'' \<and> list_all is_digit m2
                            then Some (m1, m2) else None))
      else None)"

definition parseRange :: "string \<Rightarrow> int \<Rightarrow> (int \<times> int) option" where
  "parseRange header totalLen =
     (case match_range header of
        None \<Rightarrow> None
      | Some (m1, m2) \<Rightarrow>
          (let start = parseInt m1;
               stop = (if m2 \<noteq> [] then parseInt m2 else totalLen - 1)
           in if start > stop \<or> start \<ge> totalLen then None
              else Some (start, min stop (totalLen - 1))))"

text \<open>\<open>buffer.subarray(a, b)\<close> for \<open>0 \<le> a\<close>: the bytes from index \<open>a\<close> up to, not including, \<open>b\<close>.\<close>

definition subarray :: "buffer \<Rightarrow> int \<Rightarrow> int \<Rightarrow> buffer" where
  "subarray buffer a b = drop (nat a) (take (nat b) buffer)"

definition serveBuffer :: "request \<Rightarrow> buffer \<Rightarrow> response" where
  "serveBuffer req buffer =
     (let totalLen = int (length buffer) in
      if http_method req = ''HEAD''
      then \<lparr>res_code = 200,
            res_headers = [(''Content-Type'', ''video/mp4''), (''Content-Length'', show_int totalLen),
                           (''Accept-Ranges'', ''bytes'')],
            res_body = []\<rparr>
      else if str_or (range_header req) [] \<noteq> []
      then (case parseRange (str_or (range_header req) []) totalLen of
              None \<Rightarrow> \<lparr>res_code = 416,
                        res_headers = [(''Content-Range'', ''bytes */'' @ show_int totalLen)],
                        res_body = []\<rparr>
            | Some (start, stop) \<Rightarrow>
                \<lparr>res_code = 206,
                 res_headers = [(''Content-Type'', ''video/mp4''),
                                (''Content-Range'', ''bytes '' @ show_int start @ ''-'' @ show_int stop @ ''/'' @ show_int totalLen),
                                (''Content-Length'', show_int (stop - start + 1)),
                                (''Accept-Ranges'', ''bytes'')],
                 res_body = subarray buffer start (stop + 1)\<rparr>)
      else \<lparr>res_code = 200,
            res_headers = [(''Content-Type'', ''video/mp4''), (''Content-Length'', show_int totalLen),
                           (''Accept-Ranges'', ''bytes'')],
            res_body = buffer\<rparr>)"

subsection \<open>The variant with a listener of its own\<close>

text \<open>The request handler of the server \<open>startTempVideoServer(buffer, baseUrl, port)\<close> creates.\<close>

definition dedicated_handler :: "string \<Rightarrow> buffer \<Rightarrow> request \<Rightarrow> response" where
  "dedicated_handler servePath buffer req =
     (let totalLen = int (length buffer) in
      if url req \<noteq> servePath \<or> (http_method req \<noteq> ''GET'' \<and> http_method req \<noteq> ''HEAD'')
      then \<lparr>res_code = 404, res_headers = [], res_body = []\<rparr>
      else if http_method req = ''HEAD''
      then \<lparr>res_code = 200,
            res_headers = [(''Content-Type'', ''video/mp4''), (''Content-Length'', show_int totalLen),
                           (''Accept-Ranges'', ''bytes''), (''Connection'', ''keep-alive'')],
            res_body = []\<rparr>
      else if str_or (range_header req) [] \<noteq> []
      then (case parseRange (str_or (range_header req) []) totalLen of
              None \<Rightarrow> \<lparr>res_code = 416,
                        res_headers = [(''Content-Range'', ''bytes */'' @ show_int totalLen)],
                        res_body = []\<rparr>
            | Some (start, stop) \<Rightarrow>
                (let chunkSize = stop - start + 1 in
                 \<lparr>res_code = 206,
                  res_headers = [(''Content-Type'', ''video/mp4''),
                                 (''Content-Range'', ''bytes '' @ show_int start @ ''-'' @ show_int stop @ ''/'' @ show_int totalLen),
                                 (''Content-Length'', show_int chunkSize),
                                 (''Accept-Ranges'', ''bytes''), (''Connection'', ''keep-alive'')],
                  res_body = subarray buffer start (stop + 1)\<rparr>))
      else \<lparr>res_code = 200,
            res_headers = [(''Content-Type'', ''video/mp4''), (''Content-Length'', show_int totalLen),
                           (''Accept-Ranges'', ''bytes''), (''Connection'', ''keep-alive'')],
            res_body = buffer\<rparr>)"

subsection \<open>The variant sharing the host's listener\<close>

text \<open>
  A listener for the \<open>request\<close> event of the host's server is either one of the host's
  own handlers (told apart by a number) or the wrapper \<open>installInterceptor\<close> puts in,
  which holds the handler it found first. The module's state: the listeners of the
  server \<open>findN8nServer\<close> finds (\<open>None\<close> when it finds no listening server), the flag
  \<open>interceptorInstalled\<close> and the map \<open>activeVideos\<close>.
\<close>

datatype handler = HostHandler nat | Interceptor handler

record server_state =
  n8n_listeners :: "handler list option"
  interceptorInstalled :: bool
  activeVideos :: "string \<Rightarrow> buffer option"

definition TMP_VIDEO_PREFIX :: string where
  "TMP_VIDEO_PREFIX = ''/tmp-video/''"

definition installInterceptor :: "handler list \<Rightarrow> server_state \<Rightarrow> string + server_state" where
  "installInterceptor listeners s =
     (if interceptorInstalled s then Inr s
      else (case listeners of
              [] \<Rightarrow> Inl ''No request handlers found on n8n HTTP server''
            | originalHandler # others \<Rightarrow>
                Inr (s\<lparr>n8n_listeners := Some [Interceptor originalHandler],
                       interceptorInstalled := True\<rparr>)))"

text \<open>\<^verbatim>\<open>baseUrl.replace(/\/+$/, '')\<close>: the address without its trailing slashes.\<close>

definition strip_slashes :: "string \<Rightarrow> string" where
  "strip_slashes baseUrl = rev (dropWhile (\<lambda>c. c = CHR ''/'') (rev baseUrl))"

text \<open>
  \<open>startTempVideoServer(buffer, baseUrl)\<close>, with the random identifier drawn as an
  argument. The value is the address and the file name \<open>close()\<close> removes.
\<close>

definition startTempVideoServer ::
  "string \<Rightarrow> buffer \<Rightarrow> string \<Rightarrow> server_state \<Rightarrow> (string + string \<times> string) \<times> server_state" where
  "startTempVideoServer uuid buffer baseUrl s =
     (case n8n_listeners s of
        None \<Rightarrow> (Inl ''Could not find n8n's HTTP server. Ensure the node is running inside n8n.'', s)
      | Some listeners \<Rightarrow>
          (case installInterceptor listeners s of
             Inl e \<Rightarrow> (Inl e, s)
           | Inr s1 \<Rightarrow>
               (let filename = uuid @ ''.mp4'';
                    s2 = s1\<lparr>activeVideos := (activeVideos s1)(filename \<mapsto> buffer)\<rparr>;
                    url = strip_slashes baseUrl @ TMP_VIDEO_PREFIX @ filename
                in (Inr (url, filename), s2))))"

definition close_server :: "string \<Rightarrow> server_state \<Rightarrow> server_state" where
  "close_server filename s = s\<lparr>activeVideos := (activeVideos s)(filename := None)\<rparr>"

text \<open>
  What a listener does with a request: it answers, or one of the host's handlers gets
  the request. Emitting the \<open>request\<close> event runs every listener in order.
\<close>

datatype outcome = Responded response | HandedTo nat request

fun run_handler :: "(string \<Rightarrow> buffer option) \<Rightarrow> handler \<Rightarrow> request \<Rightarrow> outcome" where
  "run_handler videos (HostHandler n) req = HandedTo n req"
| "run_handler videos (Interceptor originalHandler) req =
     (if prefix TMP_VIDEO_PREFIX (url req) \<and> (http_method req = ''GET'' \<or> http_method req = ''HEAD'')
      then (case videos (drop (length TMP_VIDEO_PREFIX) (url req)) of
              Some buffer \<Rightarrow> Responded (serveBuffer req buffer)
            | None \<Rightarrow> run_handler videos originalHandler req)
      else run_handler videos originalHandler req)"

definition dispatch :: "server_state \<Rightarrow> request \<Rightarrow> outcome list" where
  "dispatch s req =
     (case n8n_listeners s of
        None \<Rightarrow> []
      | Some listeners \<Rightarrow> map (\<lambda>h. run_handler (activeVideos s) h req) listeners)"

text \<open>A request for a video that is registered now, by GET or HEAD.\<close>

definition video_request :: "server_state \<Rightarrow> request \<Rightarrow> bool" where
  "video_request s req =
     ((http_method req = ''GET'' \<or> http_method req = ''HEAD'') \<and> prefix TMP_VIDEO_PREFIX (url req) \<and>
      activeVideos s (drop (length TMP_VIDEO_PREFIX) (url req)) \<noteq> None)"

text \<open>Any sequence of registrations and releases, run on the module's state.\<close>

datatype server_op = Start string buffer string | Release string

fun run_ops :: "server_op list \<Rightarrow> server_state \<Rightarrow> server_state" where
  "run_ops [] s = s"
| "run_ops (Start uuid buffer baseUrl # ops) s = run_ops ops (snd (startTempVideoServer uuid buffer baseUrl s))"
| "run_ops (Release filename # ops) s = run_ops ops (close_server filename s)"

section \<open>The video flow\<close>

definition is_carousel :: "string \<Rightarrow> bool" where
  "is_carousel msg = (sublist ''2207089'' msg \<or> sublist ''carousel'' (toLowerCase msg))"

definition reel_guidance :: "string \<Rightarrow> string" where
  "reel_guidance msg =
     ''Instagram rejected the video as a Reel. The video likely exceeds Instagram Reels '' @
     ''requirements (max 5 Mbps bitrate, H.264 High profile, max 90s duration). '' @
     ''Please re-encode the source video to a lower bitrate before posting. '' @
     ''(Original error: '' @ msg @ '')''"

text \<open>Steps 4 to 6, the body of the \<open>try\<close>: container, polling, publish.\<close>

definition ig_leg :: "env \<Rightarrow> string \<Rightarrow> string \<Rightarrow> string io" where
  "ig_leg env igVideoUrl caption =
     bind_io (call (CallCreateReel igVideoUrl) (createIgReelContainer env igVideoUrl caption)) (\<lambda>igContainer.
     bind_io (pollIgContainer (getIgContainerStatus env igContainer) igContainer) (\<lambda>u.
     publishIgContainerWithRetry (publishIgContainer env igContainer) igContainer))"

text \<open>
  The \<open>catch\<close> block. \<open>fbVideoPromise\<close> is the outcome of the upload started before the
  \<open>try\<close>; awaiting it gives that outcome whenever it is awaited.
\<close>

definition cleanup_fb_video :: "env \<Rightarrow> string + string \<Rightarrow> unit io" where
  "cleanup_fb_video env fbVideoPromise =
     try_catch
       (bind_io (call AwaitUploadVideo fbVideoPromise) (\<lambda>fbVideo.
        call (CallDeleteVideo fbVideo) (deleteFbVideo env fbVideo)))
       (\<lambda>e. return_io ())"

definition on_ig_failure :: "env \<Rightarrow> string + string \<Rightarrow> string \<Rightarrow> string io" where
  "on_ig_failure env fbVideoPromise msg =
     bind_io (cleanup_fb_video env fbVideoPromise) (\<lambda>u.
     if is_carousel msg then throw_io (reel_guidance msg) else throw_io msg)"

definition handleVideo :: "env \<Rightarrow> params \<Rightarrow> string \<Rightarrow> server_state \<Rightarrow> MetaPostResult io \<times> server_state" where
  "handleVideo env params caption s =
     (case bind_io (call (CallDownload (mediaUrl params)) (downloadMedia env (mediaUrl params)))
             (\<lambda>videoBuffer. call CallConvertVideo (convertVideo env videoBuffer)) of
        (Inl e, tr) \<Rightarrow> ((Inl e, tr), s)
      | (Inr convertedBuffer, tr) \<Rightarrow>
          (case startTempVideoServer (randomUUID env) convertedBuffer (getInstanceBaseUrl env) s of
             (Inl e, s1) \<Rightarrow> ((Inl e, tr), s1)
           | (Inr (igVideoUrl, filename), s1) \<Rightarrow>
               (let fbVideoPromise = uploadFbVideoFromBuffer env convertedBuffer caption;
                    guarded = try_catch (ig_leg env igVideoUrl caption) (on_ig_failure env fbVideoPromise);
                    s2 = close_server filename s1
                in (bind_io (fst guarded, tr @ [Register filename, StartUploadVideo] @ snd guarded @ [Close filename])
                      (\<lambda>igPost.
                    bind_io (call AwaitUploadVideo fbVideoPromise) (\<lambda>fbVideo.
                    bind_io (call (CallGetPermalink igPost) (getIgPermalink env igPost)) (\<lambda>igPermalink.
                    return_io \<lparr>instagram_post_id = igPost, instagram_permalink = igPermalink,
                               facebook_post_id = facebookPageId params @ ''_'' @ fbVideo,
                               facebook_photo_id = None, facebook_video_id = Some fbVideo\<rparr>))),
                    s2))))"

text \<open>An event of the two loops: a sleep, a publish call or a status call.\<close>

fun is_loop_event :: "event \<Rightarrow> bool" where
  "is_loop_event (Sleep d) = True"
| "is_loop_event (CallPublish c) = True"
| "is_loop_event (CallStatus c) = True"
| "is_loop_event e = False"

text \<open>The delete calls, the registrations and the releases a trace records.\<close>

definition delete_calls :: "event list \<Rightarrow> string list" where
  "delete_calls tr = concat (map (\<lambda>e. case e of CallDeleteVideo v \<Rightarrow> [v] | _ \<Rightarrow> []) tr)"

definition registrations :: "event list \<Rightarrow> string list" where
  "registrations tr = concat (map (\<lambda>e. case e of Register f \<Rightarrow> [f] | _ \<Rightarrow> []) tr)"

definition releases :: "event list \<Rightarrow> string list" where
  "releases tr = concat (map (\<lambda>e. case e of Close f \<Rightarrow> [f] | _ \<Rightarrow> []) tr)"

section \<open>Sample inputs\<close>

text \<open>A response with a status, possibly an id, no error object and the body \<open>{}\<close>.\<close>

definition plain_response :: "int \<Rightarrow> string option \<Rightarrow> full_response" where
  "plain_response st i =
     \<lparr>statusCode = st, www_authenticate = None, body_id = i, body_error = None, body_json = ''{}''\<rparr>"

text \<open>
  A server error with an error object, and an accepted response that has an error object
  and no id.
\<close>

definition not_ready_response :: full_response where
  "not_ready_response =
     \<lparr>statusCode = 500, www_authenticate = None, body_id = None,
      body_error = Some \<lparr>code = Some 2, error_subcode = Some 2207027, error_user_msg = None,
                         message = Some ''Media not ready''\<rparr>,
      body_json = ''{}''\<rparr>"

definition accepted_without_id :: full_response where
  "accepted_without_id =
     \<lparr>statusCode = 200, www_authenticate = None, body_id = None,
      body_error = Some \<lparr>code = Some 4, error_subcode = None, error_user_msg = Some ''Please retry'',
                         message = Some ''Application request limit reached''\<rparr>,
      body_json = ''{}''\<rparr>"

text \<open>
  The module's state in a fresh process whose server has the host's handlers with the
  given numbers as its listeners, and a request that is none of the endpoint's.
\<close>

definition host_state :: "nat list \<Rightarrow> server_state" where
  "host_state ns = \<lparr>n8n_listeners = Some (map HostHandler ns), interceptorInstalled = False,
                    activeVideos = (\<lambda>f. None)\<rparr>"

definition post_request :: request where
  "post_request = \<lparr>http_method = ''POST'', url = ''/webhook/x'', range_header = None\<rparr>"

text \<open>Collaborators whose every call succeeds, and the parameters of a publish.\<close>

definition quiet_env :: env where
  "quiet_env =
     \<lparr>tryCreateIgImageContainer = (\<lambda>u c. Inr (plain_response 200 (Some ''c1''))),
      downloadMedia = (\<lambda>u. Inr [1, 2, 3]),
      convertImage = (\<lambda>b. Inr [4, 5]),
      uploadFbPhotoFromBuffer = (\<lambda>b. Inr ''p1''),
      getFbPhotoImages = (\<lambda>p. Inr [''https://cdn/x.jpg'']),
      createIgImageContainer = (\<lambda>u c. Inr ''c2''),
      publishIgContainer = (\<lambda>c n. Inr (plain_response 200 (Some ''ig1''))),
      uploadFbPhotoFromUrl = (\<lambda>u. Inr ''p2''),
      createFbFeedPost = (\<lambda>c p. Inr ''fb1''),
      getIgPermalink = (\<lambda>i. Inr ''https://ig/p/1''),
      convertVideo = (\<lambda>b. Inr [6, 7, 8]),
      uploadFbVideoFromBuffer = (\<lambda>b c. Inr ''v1''),
      createIgReelContainer = (\<lambda>u c. Inr ''r1''),
      getIgContainerStatus = (\<lambda>c n. Inr \<lparr>status_code = FINISHED, status = None\<rparr>),
      deleteFbVideo = (\<lambda>v. Inr ()),
      randomUUID = ''u'',
      getInstanceBaseUrl = ''https://n8n.example/''\<rparr>"

definition sample_params :: params where
  "sample_params = \<lparr>mediaUrl = ''https://x/a.webp'', facebookPageId = ''page''\<rparr>"

text \<open>
  A rejection whose header ends with the first words of the format signature and whose
  body message starts with the last ones.
\<close>

definition straddling_response :: full_response where
  "straddling_response =
     \<lparr>statusCode = 400, www_authenticate = Some ''Only photo or video'', body_id = None,
      body_error = Some \<lparr>code = Some 100, error_subcode = None, error_user_msg = None,
                         message = Some ''can be accepted''\<rparr>,
      body_json = ''{}''\<rparr>"

text \<open>A rejection with the format signature in its body message.\<close>

definition format_rejection :: full_response where
  "format_rejection =
     \<lparr>statusCode = 400, www_authenticate = None, body_id = None,
      body_error = Some \<lparr>code = Some 9004, error_subcode = Some 2207052, error_user_msg = None,
                         message = Some ''Only photo or video can be accepted as media type.''\<rparr>,
      body_json = ''{}''\<rparr>"

text \<open>
  Three more rejections: one with the format signature in its header only, one with
  another error, and one whose header and message joined just miss the signature.
\<close>

definition header_rejection :: full_response where
  "header_rejection =
     \<lparr>statusCode = 400,
      www_authenticate = Some ''OAuth error: Only photo or video can be accepted as media type'',
      body_id = None, body_error = None, body_json = ''{}''\<rparr>"

definition other_rejection :: full_response where
  "other_rejection =
     \<lparr>statusCode = 403, www_authenticate = Some ''OAuth error'', body_id = None,
      body_error = Some \<lparr>code = Some 10, error_subcode = None, error_user_msg = None,
                         message = Some ''Permission denied''\<rparr>,
      body_json = ''{}''\<rparr>"

definition near_miss_response :: full_response where
  "near_miss_response =
     \<lparr>statusCode = 400, www_authenticate = Some ''Only photo or video'', body_id = None,
      body_error = Some \<lparr>code = Some 100, error_subcode = None, error_user_msg = None,
                         message = Some ''cannot be accepted''\<rparr>,
      body_json = ''{}''\<rparr>"

text \<open>A rejection of the publish call with the subcode of the carousel rejection.\<close>

definition carousel_rejection :: full_response where
  "carousel_rejection =
     \<lparr>statusCode = 400, www_authenticate = None, body_id = None,
      body_error = Some \<lparr>code = Some 100, error_subcode = Some 2207089, error_user_msg = None,
                         message = Some ''Unsupported media''\<rparr>,
      body_json = ''{}''\<rparr>"

chapter \<open>Properties\<close>

section \<open>Caption formatting: lemmas\<close>

lemma has_triple_nl_iff: "has_triple_nl xs \<longleftrightarrow> (\<exists>us vs. xs = us @ [nl, nl, nl] @ vs)"
proof (induction xs rule: has_triple_nl.induct)
  case (1 a b c cs)
  show ?case
  proof
    assume "has_triple_nl (a # b # c # cs)"
    then consider "a = nl \<and> b = nl \<and> c = nl" | "has_triple_nl (b # c # cs)" by auto
    then show "\<exists>us vs. a # b # c # cs = us @ [nl, nl, nl] @ vs"
    proof cases
      case 1 then have "a # b # c # cs = [] @ [nl,nl,nl] @ cs" by simp
      then show ?thesis by blast
    next
      case 2
      with 1 obtain us vs where "b # c # cs = us @ [nl, nl, nl] @ vs" by blast
      then have "a # b # c # cs = (a # us) @ [nl,nl,nl] @ vs" by simp
      then show ?thesis by blast
    qed
  next
    assume "\<exists>us vs. a # b # c # cs = us @ [nl, nl, nl] @ vs"
    then obtain us vs where e: "a # b # c # cs = us @ [nl, nl, nl] @ vs" by blast
    show "has_triple_nl (a # b # c # cs)"
    proof (cases us)
      case Nil with e show ?thesis by simp
    next
      case (Cons u us')
      with e have "b # c # cs = us' @ [nl,nl,nl] @ vs" by simp
      with 1 have "has_triple_nl (b # c # cs)" by blast
      then show ?thesis by simp
    qed
  qed
qed (auto simp: append_eq_Cons_conv)


lemma collapse_newlines_Nil_iff: "collapse_newlines xs = [] \<longleftrightarrow> xs = []"
  by (induction xs rule: collapse_newlines.induct) auto

lemma hd_collapse_newlines: "xs \<noteq> [] \<Longrightarrow> hd (collapse_newlines xs) = hd xs"
  by (induction xs rule: collapse_newlines.induct) auto

lemma has_triple_nl_skip2:
  "xs = [] \<or> hd xs \<noteq> nl \<Longrightarrow> has_triple_nl (a # b # xs) = has_triple_nl xs"
proof (cases xs)
  case Nil then show ?thesis by simp
next
  case (Cons c cs)
  assume "xs = [] \<or> hd xs \<noteq> nl"
  with Cons have "c \<noteq> nl" by simp
  with Cons show ?thesis by (cases cs) auto
qed

lemma dropWhile_nl_head: "dropWhile (\<lambda>x. x = nl) cs = [] \<or> hd (dropWhile (\<lambda>x. x = nl) cs) \<noteq> nl"
  using hd_dropWhile [of "\<lambda>x. x = nl" cs] by blast


lemma has_triple_nl_Cons:
  "has_triple_nl (a # xs) = ((a = nl \<and> take 2 xs = [nl, nl]) \<or> has_triple_nl xs)"
proof (cases xs)
  case Nil then show ?thesis by simp
next
  case (Cons b ys)
  then show ?thesis by (cases ys) auto
qed

lemma collapse_newlines_keep_head:
  "b \<noteq> nl \<Longrightarrow> collapse_newlines (b # xs) = b # collapse_newlines xs"
proof (cases xs)
  case Nil then show ?thesis by simp
next
  case (Cons c ys)
  assume "b \<noteq> nl"
  with Cons show ?thesis by (cases ys) auto
qed

lemma collapse_newlines_keep_second:
  "c \<noteq> nl \<Longrightarrow> collapse_newlines (b # c # cs) = b # c # collapse_newlines cs"
  by (cases cs) (auto simp: collapse_newlines_keep_head)

lemma take2_collapse_newlines:
  assumes "\<not> (b = nl \<and> c = nl)"
  shows "take 2 (collapse_newlines (b # c # cs)) \<noteq> [nl, nl]"
proof (cases "b = nl")
  case False
  then show ?thesis by (simp add: collapse_newlines_keep_head)
next
  case True
  with assms have "c \<noteq> nl" by simp
  then show ?thesis by (simp add: collapse_newlines_keep_second)
qed

lemma collapse_newlines_step:
  "\<not> (a = nl \<and> b = nl \<and> c = nl) \<Longrightarrow>
   collapse_newlines (a # b # c # cs) = a # collapse_newlines (b # c # cs)"
  by auto

lemma collapse_newlines_head_not_nl:
  "d = [] \<or> hd d \<noteq> nl \<Longrightarrow> collapse_newlines d = [] \<or> hd (collapse_newlines d) \<noteq> nl"
  by (cases "d = []") (simp_all add: hd_collapse_newlines)

lemma no_triple_collapse: "\<not> has_triple_nl (collapse_newlines xs)"
proof (induction xs rule: collapse_newlines.induct)
  case (1 a b c cs)
  let ?d = "dropWhile (\<lambda>x. x = nl) cs"
  show ?case
  proof (cases "a = nl \<and> b = nl \<and> c = nl")
    case True
    have "collapse_newlines ?d = [] \<or> hd (collapse_newlines ?d) \<noteq> nl"
      by (rule collapse_newlines_head_not_nl) (rule dropWhile_nl_head)
    then have "has_triple_nl (nl # nl # collapse_newlines ?d) = has_triple_nl (collapse_newlines ?d)"
      by (rule has_triple_nl_skip2)
    with True 1 show ?thesis by simp
  next
    case False
    with 1 have ih: "\<not> has_triple_nl (collapse_newlines (b # c # cs))" by blast
    from False have "a = nl \<longrightarrow> take 2 (collapse_newlines (b # c # cs)) \<noteq> [nl, nl]"
      using take2_collapse_newlines [of b c cs] by blast
    with ih have "\<not> has_triple_nl (a # collapse_newlines (b # c # cs))"
      by (subst has_triple_nl_Cons) blast
    then show ?thesis unfolding collapse_newlines_step [OF False] .
  qed
qed simp_all

lemma collapse_id: "\<not> has_triple_nl xs \<Longrightarrow> collapse_newlines xs = xs"
  by (induction xs rule: collapse_newlines.induct) auto

lemma has_triple_nl_append_right: "has_triple_nl ys \<Longrightarrow> has_triple_nl (xs @ ys)"
  by (induction xs) (auto simp: has_triple_nl_Cons)

lemma no_triple_suffix: "suffix s xs \<Longrightarrow> \<not> has_triple_nl xs \<Longrightarrow> \<not> has_triple_nl s"
  by (auto simp: suffix_def has_triple_nl_append_right)


lemma short_newline_prefix:
  assumes "set p \<subseteq> {nl}" and "\<not> has_triple_nl (p @ d)"
  shows "p = [] \<or> p = [nl] \<or> p = [nl, nl]"
proof (cases p)
  case Nil then show ?thesis by simp
next
  case (Cons x p1)
  note c1 = this
  show ?thesis
  proof (cases p1)
    case Nil with c1 assms(1) show ?thesis by simp
  next
    case (Cons y p2)
    note c2 = this
    show ?thesis
    proof (cases p2)
      case Nil with c1 c2 assms(1) show ?thesis by simp
    next
      case (Cons z p3)
      with c1 c2 assms(1) have "p @ d = nl # nl # nl # (p3 @ d)" by simp
      with assms(2) show ?thesis by simp
    qed
  qed
qed

lemma suffix_collapse_newlines:
  "\<not> has_triple_nl s \<Longrightarrow> suffix s xs \<Longrightarrow> suffix s (collapse_newlines xs)"
proof (induction xs rule: collapse_newlines.induct)
  case (1 a b c cs)
  let ?d = "dropWhile (\<lambda>x. x = nl) cs"
  let ?t = "takeWhile (\<lambda>x. x = nl) cs"
  show ?case
  proof (cases "a = nl \<and> b = nl \<and> c = nl")
    case False
    show ?thesis
    proof (cases "s = a # b # c # cs")
      case True
      have "collapse_newlines s = s" using "1.prems"(1) by (rule collapse_id)
      then show ?thesis unfolding True [symmetric] by simp
    next
      case ne: False
      with "1.prems"(2) have "suffix s (b # c # cs)" by (simp add: suffix_Cons)
      with "1.IH"(2) False "1.prems"(1) have "suffix s (collapse_newlines (b # c # cs))" by blast
      then show ?thesis unfolding collapse_newlines_step [OF False] by (simp add: suffix_Cons)
    qed
  next
    case True
    then have res: "collapse_newlines (a # b # c # cs) = nl # nl # collapse_newlines ?d" by simp
    have "a # b # c # cs = (nl # nl # nl # ?t) @ ?d" using True by simp
    with "1.prems"(2) have "suffix s ((nl # nl # nl # ?t) @ ?d)" by simp
    then consider "suffix s ?d" | p where "suffix p (nl # nl # nl # ?t)" "s = p @ ?d"
      unfolding suffix_append by blast
    then show ?thesis
    proof cases
      case 1
      with "1.IH"(1) True "1.prems"(1) have "suffix s (collapse_newlines ?d)" by blast
      then show ?thesis unfolding res by (simp add: suffix_Cons)
    next
      case 2
      have "set (nl # nl # nl # ?t) \<subseteq> {nl}" by (auto dest: set_takeWhileD)
      with 2(1) have "set p \<subseteq> {nl}" using set_mono_suffix by blast
      with "1.prems"(1) 2(2) have p: "p = [] \<or> p = [nl] \<or> p = [nl, nl]"
        using short_newline_prefix by blast
      have "suffix ?d s" using 2(2) by (simp add: suffix_def)
      with "1.prems"(1) have "\<not> has_triple_nl ?d"
        using has_triple_nl_append_right 2(2) by blast
      then have "collapse_newlines ?d = ?d" by (rule collapse_id)
      with p 2(2) show ?thesis unfolding res by (auto simp: suffix_Cons)
    qed
  qed
qed simp_all

lemma prepareCaption_keeps_suffix:
  assumes "hashSuffix \<noteq> []" and "\<not> has_triple_nl hashSuffix"
  shows "suffix hashSuffix (prepareCaption caption hashSuffix)"
proof -
  let ?r = "if hashSuffix \<noteq> [] \<and> \<not> suffix hashSuffix caption
            then caption @ [nl] @ hashSuffix else caption"
  have "suffix hashSuffix ?r" using assms(1) by (auto simp: suffix_def)
  with assms(2) show ?thesis
    unfolding prepareCaption_def Let_def by (rule suffix_collapse_newlines)
qed

lemma prepareCaption_twice:
  assumes "\<not> has_triple_nl hashSuffix"
  shows "prepareCaption (prepareCaption caption hashSuffix) hashSuffix = prepareCaption caption hashSuffix"
proof -
  let ?r = "prepareCaption caption hashSuffix"
  have nt: "\<not> has_triple_nl ?r" unfolding prepareCaption_def Let_def by (rule no_triple_collapse)
  have "hashSuffix \<noteq> [] \<Longrightarrow> suffix hashSuffix ?r" using assms prepareCaption_keeps_suffix by blast
  then have "prepareCaption ?r hashSuffix = collapse_newlines ?r"
    by (subst (1) prepareCaption_def) (auto simp: Let_def)
  also have "\<dots> = ?r" using nt by (rule collapse_id)
  finally show ?thesis .
qed


lemma has_triple_nl_sublist: "has_triple_nl xs \<longleftrightarrow> sublist [nl, nl, nl] xs"
  unfolding sublist_def has_triple_nl_iff by simp

lemma dropWhile_nl_run:
  "rest = [] \<or> hd rest \<noteq> nl \<Longrightarrow> dropWhile (\<lambda>x. x = nl) (replicate k nl @ rest) = rest"
proof (induction k)
  case 0
  then show ?case by (cases rest) auto
next
  case (Suc k)
  then show ?case by simp
qed

lemma collapse_newlines_run:
  assumes "rest = [] \<or> hd rest \<noteq> nl"
  shows "collapse_newlines (replicate n nl @ rest) = replicate (min n 2) nl @ collapse_newlines rest"
proof -
  have one: "collapse_newlines (nl # rest) = nl # collapse_newlines rest"
  proof (cases rest)
    case Nil then show ?thesis by simp
  next
    case (Cons c cs)
    with assms have "c \<noteq> nl" by simp
    then show ?thesis unfolding Cons
      by (simp add: collapse_newlines_keep_second collapse_newlines_keep_head)
  qed
  have two: "collapse_newlines (nl # nl # rest) = nl # nl # collapse_newlines rest"
  proof (cases rest)
    case Nil then show ?thesis by simp
  next
    case (Cons c cs)
    with assms have "\<not> (nl = nl \<and> nl = nl \<and> c = nl)" by simp
    then have "collapse_newlines (nl # nl # c # cs) = nl # collapse_newlines (nl # c # cs)"
      by (rule collapse_newlines_step)
    with one show ?thesis unfolding Cons by simp
  qed
  have "n = 0 \<or> n = 1 \<or> n = 2 \<or> (\<exists>k. n = 3 + k)" by presburger
  then consider "n = 0" | "n = 1" | "n = 2" | k where "n = 3 + k" by blast
  then show ?thesis
  proof cases
    case 1 then show ?thesis by simp
  next
    case 2 with one show ?thesis by simp
  next
    case 3
    then have "replicate n nl = [nl, nl]" by (simp add: numeral_2_eq_2)
    with two 3 show ?thesis by simp
  next
    case 4
    then have "replicate n nl @ rest = nl # nl # nl # (replicate k nl @ rest)"
      by (simp add: numeral_3_eq_3)
    moreover have "replicate (min n 2) nl = [nl, nl]" using 4 by (simp add: numeral_2_eq_2)
    ultimately show ?thesis using dropWhile_nl_run [OF assms, of k] by simp
  qed
qed

lemma last_dropWhile: "dropWhile P xs \<noteq> [] \<Longrightarrow> last (dropWhile P xs) = last xs"
  by (induction xs) (auto split: if_splits)

lemma collapse_newlines_append:
  "xs = [] \<or> last xs \<noteq> nl \<Longrightarrow>
   collapse_newlines (xs @ ys) = collapse_newlines xs @ collapse_newlines ys"
proof (induction xs rule: collapse_newlines.induct)
  case (1 a b c cs)
  then have l: "last (a # b # c # cs) \<noteq> nl" by simp
  show ?case
  proof (cases "a = nl \<and> b = nl \<and> c = nl")
    case True
    let ?d = "dropWhile (\<lambda>x. x = nl) cs"
    from l True have ne: "cs \<noteq> []" and lc: "last cs \<noteq> nl" by (auto split: if_splits)
    then obtain x where x: "x \<in> set cs" "x \<noteq> nl" using last_in_set by blast
    then have dne: "?d \<noteq> []" by auto
    then have "last ?d = last cs" by (rule last_dropWhile)
    with lc dne have "?d = [] \<or> last ?d \<noteq> nl" by simp
    with "1.IH"(1) True have ih: "collapse_newlines (?d @ ys) = collapse_newlines ?d @ collapse_newlines ys"
      by blast
    from x have "dropWhile (\<lambda>x. x = nl) (cs @ ys) = ?d @ ys" by simp
    with True ih show ?thesis by simp
  next
    case False
    from l have "b # c # cs = [] \<or> last (b # c # cs) \<noteq> nl" by simp
    with "1.IH"(2) False have ih: "collapse_newlines ((b # c # cs) @ ys) =
        collapse_newlines (b # c # cs) @ collapse_newlines ys" by blast
    have "collapse_newlines ((a # b # c # cs) @ ys) = a # collapse_newlines ((b # c # cs) @ ys)"
      using collapse_newlines_step [OF False, of "cs @ ys"] by simp
    with ih show ?thesis unfolding collapse_newlines_step [OF False] by simp
  qed
next
  case (2 a b)
  then show ?case by (simp add: collapse_newlines_keep_second)
next
  case (3 a)
  then show ?case by (simp add: collapse_newlines_keep_head)
next
  case 4
  then show ?case by simp
qed

lemma last_collapse_newlines:
  "xs = [] \<or> last xs \<noteq> nl \<Longrightarrow> collapse_newlines xs = [] \<or> last (collapse_newlines xs) \<noteq> nl"
proof (induction xs rule: collapse_newlines.induct)
  case (1 a b c cs)
  then have l: "last (a # b # c # cs) \<noteq> nl" by simp
  show ?case
  proof (cases "a = nl \<and> b = nl \<and> c = nl")
    case True
    let ?d = "dropWhile (\<lambda>x. x = nl) cs"
    from l True have ne: "cs \<noteq> []" and lc: "last cs \<noteq> nl" by (auto split: if_splits)
    then obtain x where x: "x \<in> set cs" "x \<noteq> nl" using last_in_set by blast
    then have dne: "?d \<noteq> []" by auto
    then have "last ?d = last cs" by (rule last_dropWhile)
    with lc dne "1.IH"(1) True have "collapse_newlines ?d = [] \<or> last (collapse_newlines ?d) \<noteq> nl"
      by simp
    moreover from dne have "collapse_newlines ?d \<noteq> []" by (simp add: collapse_newlines_Nil_iff)
    ultimately show ?thesis using True by simp
  next
    case False
    from l have "b # c # cs = [] \<or> last (b # c # cs) \<noteq> nl" by simp
    with "1.IH"(2) False have "collapse_newlines (b # c # cs) = [] \<or>
        last (collapse_newlines (b # c # cs)) \<noteq> nl" by blast
    moreover have "collapse_newlines (b # c # cs) \<noteq> []" by (simp add: collapse_newlines_Nil_iff)
    ultimately show ?thesis unfolding collapse_newlines_step [OF False] by simp
  qed
qed simp_all

lemma strip_trailing_newlines:
  "\<exists>x0 j. xs = x0 @ replicate j nl \<and> (x0 = [] \<or> last x0 \<noteq> nl)"
proof (induction xs rule: rev_induct)
  case Nil
  then show ?case by simp
next
  case (snoc z xs)
  then obtain x0 j where d: "xs = x0 @ replicate j nl" "x0 = [] \<or> last x0 \<noteq> nl" by blast
  show ?case
  proof (cases "z = nl")
    case True
    with d have "xs @ [z] = x0 @ replicate (Suc j) nl" by (simp add: replicate_append_same)
    with d(2) show ?thesis by blast
  next
    case False
    then have "xs @ [z] = (xs @ [z]) @ replicate 0 nl \<and> (xs @ [z] = [] \<or> last (xs @ [z]) \<noteq> nl)"
      by simp
    then show ?thesis by blast
  qed
qed

lemma collapse_newlines_trailing_run:
  assumes "x0 = [] \<or> last x0 \<noteq> nl" and "2 \<le> n"
  shows "collapse_newlines (x0 @ replicate n nl) = collapse_newlines x0 @ [nl, nl]"
proof -
  have "collapse_newlines (replicate n nl @ []) = replicate (min n 2) nl @ collapse_newlines []"
    by (rule collapse_newlines_run) simp
  with assms(2) have "collapse_newlines (replicate n nl) = [nl, nl]"
    by (simp add: min_def numeral_2_eq_2)
  with collapse_newlines_append [OF assms(1), of "replicate n nl"] show ?thesis by simp
qed

lemma prepareCaption_newline_suffix:
  assumes "set hashSuffix \<subseteq> {nl}" and "has_triple_nl hashSuffix"
  shows "prepareCaption (prepareCaption caption hashSuffix) hashSuffix = prepareCaption caption hashSuffix"
proof -
  from assms(1) have s: "hashSuffix = replicate (length hashSuffix) nl"
    by (metis replicate_length_same singletonD subsetD)
  define k where "k = length hashSuffix"
  have k3: "3 \<le> k"
  proof (rule ccontr)
    assume "\<not> 3 \<le> k"
    then have "k = 0 \<or> k = 1 \<or> k = 2" by arith
    with s have "\<not> has_triple_nl hashSuffix" unfolding k_def [symmetric]
      by (auto simp: numeral_2_eq_2 dest: arg_cong [where f = has_triple_nl])
    with assms(2) show False by simp
  qed
  have ne: "hashSuffix \<noteq> []" using k3 k_def by auto
  let ?r = "prepareCaption caption hashSuffix"
  have "\<exists>x m. 3 \<le> m \<and> ?r = collapse_newlines (x @ replicate m nl)"
  proof (cases "suffix hashSuffix caption")
    case True
    then obtain x where "caption = x @ hashSuffix" unfolding suffix_def by blast
    then have "?r = collapse_newlines (x @ replicate k nl)"
      using True s unfolding k_def by (simp add: prepareCaption_def)
    with k3 show ?thesis by blast
  next
    case False
    then have "?r = collapse_newlines (caption @ replicate (Suc k) nl)"
      using ne s unfolding k_def by (simp add: prepareCaption_def)
    moreover from k3 have "3 \<le> Suc k" by simp
    ultimately show ?thesis by blast
  qed
  then obtain x m where m: "3 \<le> m" and r: "?r = collapse_newlines (x @ replicate m nl)" by blast
  obtain x0 j where x: "x = x0 @ replicate j nl" "x0 = [] \<or> last x0 \<noteq> nl"
    using strip_trailing_newlines [of x] by blast
  have "x @ replicate m nl = x0 @ replicate (j + m) nl" unfolding x(1) by (simp add: replicate_add)
  with r have "?r = collapse_newlines (x0 @ replicate (j + m) nl)" by simp
  also have "\<dots> = collapse_newlines x0 @ [nl, nl]"
    using x(2) m by (intro collapse_newlines_trailing_run) simp_all
  finally have r2: "?r = collapse_newlines x0 @ [nl, nl]" .
  have nt: "\<not> has_triple_nl ?r" unfolding prepareCaption_def Let_def by (rule no_triple_collapse)
  have "\<not> suffix hashSuffix ?r" using no_triple_suffix [of hashSuffix ?r] nt assms(2) by blast
  then have "prepareCaption ?r hashSuffix = collapse_newlines (?r @ [nl] @ hashSuffix)"
    using ne by (subst (1) prepareCaption_def) simp
  also have "?r @ [nl] @ hashSuffix = collapse_newlines x0 @ replicate (3 + k) nl"
    unfolding r2 using s unfolding k_def [symmetric]
    by (simp add: numeral_3_eq_3)
  also have "collapse_newlines (collapse_newlines x0 @ replicate (3 + k) nl) =
      collapse_newlines (collapse_newlines x0) @ [nl, nl]"
    using last_collapse_newlines [OF x(2)] by (intro collapse_newlines_trailing_run) simp_all
  also have "collapse_newlines (collapse_newlines x0) = collapse_newlines x0"
    by (rule collapse_id) (rule no_triple_collapse)
  finally show ?thesis unfolding r2 .
qed

lemma filter_dropWhile_nl:
  "filter (\<lambda>x. x \<noteq> nl) (dropWhile (\<lambda>x. x = nl) cs) = filter (\<lambda>x. x \<noteq> nl) cs"
  by (induction cs) auto

lemma filter_collapse_newlines:
  "filter (\<lambda>x. x \<noteq> nl) (collapse_newlines xs) = filter (\<lambda>x. x \<noteq> nl) xs"
proof (induction xs rule: collapse_newlines.induct)
  case (1 a b c cs)
  show ?case
  proof (cases "a = nl \<and> b = nl \<and> c = nl")
    case True
    with "1.IH"(1) show ?thesis by (simp add: filter_dropWhile_nl)
  next
    case False
    with "1.IH"(2) have "filter (\<lambda>x. x \<noteq> nl) (collapse_newlines (b # c # cs)) =
        filter (\<lambda>x. x \<noteq> nl) (b # c # cs)" by blast
    then show ?thesis unfolding collapse_newlines_step [OF False] by simp
  qed
qed simp_all

lemma prepareCaption_appends_again:
  assumes "has_triple_nl hashSuffix" and "\<not> set hashSuffix \<subseteq> {nl}"
  shows "prepareCaption (prepareCaption caption hashSuffix) hashSuffix \<noteq> prepareCaption caption hashSuffix"
proof
  let ?r = "prepareCaption caption hashSuffix"
  let ?f = "filter (\<lambda>x. x \<noteq> nl)"
  assume eq: "prepareCaption ?r hashSuffix = ?r"
  have nt: "\<not> has_triple_nl ?r" unfolding prepareCaption_def Let_def by (rule no_triple_collapse)
  have ns: "\<not> suffix hashSuffix ?r" using no_triple_suffix [of hashSuffix ?r] nt assms(1) by blast
  from assms(2) have ne: "hashSuffix \<noteq> []" by auto
  from ns ne have "prepareCaption ?r hashSuffix = collapse_newlines (?r @ [nl] @ hashSuffix)"
    by (subst (1) prepareCaption_def) simp
  then have "?f (prepareCaption ?r hashSuffix) = ?f ?r @ ?f hashSuffix"
    by (simp add: filter_collapse_newlines)
  with eq have "?f hashSuffix = []" by simp
  then have "set hashSuffix \<subseteq> {nl}" by (auto simp: filter_empty_conv)
  with assms(2) show False by simp
qed

section \<open>Caption formatting: claims\<close>

text \<open>
  Claim C7, as amended. For every caption and suffix: the result is the text with the
  suffix appended after a newline (when the suffix is not empty and the caption does not
  end with it already), with its runs of newlines collapsed; collapsing writes two
  newlines for a whole run of three or more, leaves a shorter run as it is and copies
  every other character; the result never has three newlines in a row; and, for a suffix
  that is not empty, the result ends with the suffix exactly when the suffix has itself
  no three newlines in a row.
\<close>

theorem prepareCaption_props:
  "prepareCaption caption hashSuffix =
     collapse_newlines (if hashSuffix \<noteq> [] \<and> \<not> suffix hashSuffix caption
                        then caption @ [nl] @ hashSuffix else caption) \<and>
   (rest = [] \<or> hd rest \<noteq> nl \<longrightarrow>
      collapse_newlines (replicate n nl @ rest) = replicate (min n 2) nl @ collapse_newlines rest) \<and>
   (x \<noteq> nl \<longrightarrow> collapse_newlines (x # rest) = x # collapse_newlines rest) \<and>
   \<not> sublist [nl, nl, nl] (prepareCaption caption hashSuffix) \<and>
   (hashSuffix \<noteq> [] \<longrightarrow>
      suffix hashSuffix (prepareCaption caption hashSuffix) = (\<not> sublist [nl, nl, nl] hashSuffix))"
proof (intro conjI impI)
  show "prepareCaption caption hashSuffix =
     collapse_newlines (if hashSuffix \<noteq> [] \<and> \<not> suffix hashSuffix caption
                        then caption @ [nl] @ hashSuffix else caption)"
    by (simp add: prepareCaption_def)
next
  assume "rest = [] \<or> hd rest \<noteq> nl"
  then show "collapse_newlines (replicate n nl @ rest) = replicate (min n 2) nl @ collapse_newlines rest"
    by (rule collapse_newlines_run)
next
  assume "x \<noteq> nl"
  then show "collapse_newlines (x # rest) = x # collapse_newlines rest"
    by (rule collapse_newlines_keep_head)
next
  show "\<not> sublist [nl, nl, nl] (prepareCaption caption hashSuffix)"
    unfolding prepareCaption_def Let_def has_triple_nl_sublist [symmetric]
    by (rule no_triple_collapse)
next
  assume ne: "hashSuffix \<noteq> []"
  have nt: "\<not> has_triple_nl (prepareCaption caption hashSuffix)"
    unfolding prepareCaption_def Let_def by (rule no_triple_collapse)
  show "suffix hashSuffix (prepareCaption caption hashSuffix) = (\<not> sublist [nl, nl, nl] hashSuffix)"
  proof
    assume "suffix hashSuffix (prepareCaption caption hashSuffix)"
    then have "\<not> has_triple_nl hashSuffix" using nt by (rule no_triple_suffix)
    then show "\<not> sublist [nl, nl, nl] hashSuffix" by (simp add: has_triple_nl_sublist)
  next
    assume "\<not> sublist [nl, nl, nl] hashSuffix"
    then have "\<not> has_triple_nl hashSuffix" by (simp add: has_triple_nl_sublist)
    with ne show "suffix hashSuffix (prepareCaption caption hashSuffix)"
      by (rule prepareCaption_keeps_suffix)
  qed
qed

theorem prepareCaption_props_witness:
  "prepareCaption ''hi'' ''#a'' = ''hi'' @ [nl] @ ''#a'' \<and>
   collapse_newlines (replicate 4 nl @ ''b'') = [nl, nl] @ ''b'' \<and>
   collapse_newlines (CHR ''a'' # ''b'') = ''ab'' \<and>
   \<not> sublist [nl, nl, nl] (prepareCaption ''hi'' ''#a'') \<and>
   suffix ''#a'' (prepareCaption ''hi'' ''#a'')"
proof -
  note t = prepareCaption_props [of "''hi''" "''#a''" "''b''" 4 "CHR ''a''"]
  have h1: "''b'' = [] \<or> hd ''b'' \<noteq> nl" by (simp add: nl_def)
  have h2: "CHR ''a'' \<noteq> nl" by (simp add: nl_def)
  have h3: "''#a'' \<noteq> []" "\<not> sublist [nl, nl, nl] ''#a''"
    by (simp_all add: has_triple_nl_sublist [symmetric])
  have c1: "prepareCaption ''hi'' ''#a'' = ''hi'' @ [nl] @ ''#a''"
    by (simp add: prepareCaption_def nl_def suffix_to_prefix)
  from t h1 have "collapse_newlines (replicate 4 nl @ ''b'') = replicate (min 4 2) nl @ collapse_newlines ''b''"
    by blast
  then have c2: "collapse_newlines (replicate 4 nl @ ''b'') = [nl, nl] @ ''b''"
    by (simp add: eval_nat_numeral)
  from t h2 have "collapse_newlines (CHR ''a'' # ''b'') = CHR ''a'' # collapse_newlines ''b''"
    by blast
  then have c3: "collapse_newlines (CHR ''a'' # ''b'') = ''ab''" by simp
  from t have c4: "\<not> sublist [nl, nl, nl] (prepareCaption ''hi'' ''#a'')" by blast
  from t h3 have c5: "suffix ''#a'' (prepareCaption ''hi'' ''#a'')" by blast
  from c1 c2 c3 c4 c5 show ?thesis by blast
qed

text \<open>
  Claim C7 as it stands fails for a suffix with three newlines in a row: formatting the
  caption \<open>x\<close> with the suffix of three newlines and \<open>#a\<close> gives \<open>x\<close>, two newlines and
  \<open>#a\<close>, which does not end with the suffix.
\<close>

theorem prepareCaption_suffix_counterexample:
  "[nl, nl, nl, CHR ''#'', CHR ''a''] \<noteq> [] \<and>
   prepareCaption ''x'' [nl, nl, nl, CHR ''#'', CHR ''a''] = [CHR ''x'', nl, nl, CHR ''#'', CHR ''a''] \<and>
   \<not> suffix [nl, nl, nl, CHR ''#'', CHR ''a''] (prepareCaption ''x'' [nl, nl, nl, CHR ''#'', CHR ''a''])"
  by (simp add: prepareCaption_def nl_def suffix_to_prefix)

text \<open>
  Claim C8, as amended. For every caption and suffix, formatting the formatted caption
  again, with the same suffix, changes nothing exactly when the suffix has no three
  newlines in a row (the empty suffix among them) or is made of newlines only.
\<close>

theorem prepareCaption_idempotent:
  "(prepareCaption (prepareCaption caption hashSuffix) hashSuffix = prepareCaption caption hashSuffix) =
   (\<not> sublist [nl, nl, nl] hashSuffix \<or> set hashSuffix \<subseteq> {nl})"
proof
  assume e: "prepareCaption (prepareCaption caption hashSuffix) hashSuffix = prepareCaption caption hashSuffix"
  show "\<not> sublist [nl, nl, nl] hashSuffix \<or> set hashSuffix \<subseteq> {nl}"
  proof (rule ccontr)
    assume "\<not> (\<not> sublist [nl, nl, nl] hashSuffix \<or> set hashSuffix \<subseteq> {nl})"
    then have "has_triple_nl hashSuffix" and "\<not> set hashSuffix \<subseteq> {nl}"
      by (simp_all add: has_triple_nl_sublist)
    then have "prepareCaption (prepareCaption caption hashSuffix) hashSuffix \<noteq> prepareCaption caption hashSuffix"
      by (rule prepareCaption_appends_again)
    with e show False by simp
  qed
next
  assume "\<not> sublist [nl, nl, nl] hashSuffix \<or> set hashSuffix \<subseteq> {nl}"
  then consider "\<not> has_triple_nl hashSuffix" | "set hashSuffix \<subseteq> {nl}" "has_triple_nl hashSuffix"
    unfolding has_triple_nl_sublist by blast
  then show "prepareCaption (prepareCaption caption hashSuffix) hashSuffix = prepareCaption caption hashSuffix"
  proof cases
    case 1
    then show ?thesis by (rule prepareCaption_twice)
  next
    case 2
    then show ?thesis by (rule prepareCaption_newline_suffix)
  qed
qed

theorem prepareCaption_idempotent_witness:
  "prepareCaption (prepareCaption ([CHR ''h'', nl, nl, nl, nl, CHR ''i'']) ''#a'') ''#a'' =
     [CHR ''h'', nl, nl, CHR ''i'', nl, CHR ''#'', CHR ''a''] \<and>
   prepareCaption (prepareCaption ''hi'' [nl, nl, nl]) [nl, nl, nl] = [CHR ''h'', CHR ''i'', nl, nl]"
proof -
  have h1: "\<not> sublist [nl, nl, nl] ''#a'' \<or> set ''#a'' \<subseteq> {nl}"
    by (simp add: has_triple_nl_sublist [symmetric])
  have h2: "\<not> sublist [nl, nl, nl] [nl, nl, nl] \<or> set [nl, nl, nl] \<subseteq> {nl}" by simp
  have v1: "prepareCaption ([CHR ''h'', nl, nl, nl, nl, CHR ''i'']) ''#a'' =
        [CHR ''h'', nl, nl, CHR ''i'', nl, CHR ''#'', CHR ''a'']"
    by (simp add: prepareCaption_def nl_def suffix_to_prefix)
  have v2: "prepareCaption ''hi'' [nl, nl, nl] = [CHR ''h'', CHR ''i'', nl, nl]"
    by (simp add: prepareCaption_def nl_def suffix_to_prefix)
  from prepareCaption_idempotent [of "[CHR ''h'', nl, nl, nl, nl, CHR ''i'']" "''#a''"] h1
  have a: "prepareCaption (prepareCaption ([CHR ''h'', nl, nl, nl, nl, CHR ''i'']) ''#a'') ''#a'' =
      prepareCaption ([CHR ''h'', nl, nl, nl, nl, CHR ''i'']) ''#a''" by blast
  from prepareCaption_idempotent [of "''hi''" "[nl, nl, nl]"] h2
  have b: "prepareCaption (prepareCaption ''hi'' [nl, nl, nl]) [nl, nl, nl] =
      prepareCaption ''hi'' [nl, nl, nl]" by blast
  from a b v1 v2 show ?thesis by simp
qed

text \<open>
  Claim C8 as it stands fails for a suffix with three newlines in a row and other
  characters: the first
  formatting shortens the run inside the suffix, so the second one does not find the
  suffix at the end and appends it again.
\<close>

theorem prepareCaption_idempotent_counterexample:
  "prepareCaption (prepareCaption ''x'' [nl, nl, nl, CHR ''#'', CHR ''a'']) [nl, nl, nl, CHR ''#'', CHR ''a'']
     \<noteq> prepareCaption ''x'' [nl, nl, nl, CHR ''#'', CHR ''a'']"
  by (simp add: prepareCaption_def nl_def suffix_to_prefix)


section \<open>Container publish: lemmas\<close>

declare publish_loop.simps [simp del] poll_loop.simps [simp del]

lemma publish_loop_transient:
  assumes "transient (rs a)" and "a < length delays"
  shows "publish_loop rs cid a =
           (case publish_loop rs cid (Suc a) of
              (r, tr) \<Rightarrow> (r, CallPublish cid # Sleep (delays ! a) # tr))"
  using assms
  by (subst publish_loop.simps) (auto simp: transient_def split: sum.splits option.splits)

lemma publish_loop_skip:
  "a + k \<le> length delays \<Longrightarrow> (\<forall>j<k. transient (rs (a + j))) \<Longrightarrow>
   publish_loop rs cid a =
     (case publish_loop rs cid (a + k) of (r, tr) \<Rightarrow> (r, retry_events cid a k @ tr))"
proof (induction k arbitrary: a)
  case 0
  then show ?case by (simp split: prod.splits)
next
  case (Suc k)
  from Suc.prems have t: "transient (rs a)" and lt: "a < length delays" by auto
  from Suc.prems have "\<forall>j<k. transient (rs (Suc a + j))" by auto
  moreover from Suc.prems have "Suc a + k \<le> length delays" by simp
  ultimately have ih: "publish_loop rs cid (Suc a) =
     (case publish_loop rs cid (Suc a + k) of (r, tr) \<Rightarrow> (r, retry_events cid (Suc a) k @ tr))"
    by (rule Suc.IH [rotated])
  show ?case
    unfolding publish_loop_transient [of rs a cid, OF t lt] ih by (simp split: prod.splits)
qed

lemma publish_loop_last:
  "publish_loop rs cid a =
     (case rs a of
        Inl e \<Rightarrow> (Inl e, [CallPublish cid])
      | Inr resp \<Rightarrow>
          (case success_id resp of
             Some i \<Rightarrow> (Inr i, [CallPublish cid])
           | None \<Rightarrow>
               if (400 \<le> statusCode resp \<and> statusCode resp < 500) \<or> a \<ge> length delays
               then (Inl (formatIgApiError resp), [CallPublish cid])
               else (case publish_loop rs cid (Suc a) of
                       (r, tr) \<Rightarrow> (r, CallPublish cid # Sleep (delays ! a) # tr))))"
  by (subst publish_loop.simps) (auto split: sum.splits option.splits)

lemma sleeps_retry_events:
  "a + k \<le> length delays \<Longrightarrow> sleeps (retry_events cid a k @ tr) = take k (drop a delays) @ sleeps tr"
proof (induction k arbitrary: a)
  case 0 then show ?case by simp
next
  case (Suc k)
  then have "a < length delays" by simp
  then have "drop a delays = delays ! a # drop (Suc a) delays" by (rule Cons_nth_drop_Suc [symmetric])
  with Suc show ?case by simp
qed

lemma publish_calls_retry_events:
  "publish_calls (retry_events cid a k @ tr) = k + publish_calls tr"
  by (induction k arbitrary: a) simp_all

lemma publish_loop_trace:
  "\<exists>k. k \<le> length delays - a \<and> snd (publish_loop rs cid a) = retry_events cid a k @ [CallPublish cid]"
proof (induction rs cid a rule: publish_loop.induct)
  case (1 rs cid a)
  show ?case
  proof (cases "transient (rs a) \<and> a < length delays")
    case True
    then obtain resp where r: "rs a = Inr resp" "success_id resp = None"
      "\<not> (400 \<le> statusCode resp \<and> statusCode resp < 500)" "\<not> a \<ge> length delays"
      by (auto simp: transient_def split: sum.splits)
    from "1.IH" [OF r(1) r(2) r(3) r(4)]
    obtain k where k: "k \<le> length delays - (a + 1)"
      "snd (publish_loop rs cid (a + 1)) = retry_events cid (a + 1) k @ [CallPublish cid]" by auto
    have "snd (publish_loop rs cid a) = retry_events cid a (Suc k) @ [CallPublish cid]"
      using True k(2) by (subst publish_loop_transient) (auto split: prod.splits)
    moreover from k(1) r(4) have "Suc k \<le> length delays - a" by simp
    ultimately show ?thesis by blast
  next
    case False
    then have "snd (publish_loop rs cid a) = retry_events cid a 0 @ [CallPublish cid]"
      by (subst publish_loop_last) (auto simp: transient_def split: sum.splits option.splits)
    then show ?thesis by (intro exI [of _ 0]) simp
  qed
qed


lemma success_id_Some_iff:
  "(success_id resp = Some i) =
     (200 \<le> statusCode resp \<and> statusCode resp < 300 \<and> body_id resp = Some i \<and> i \<noteq> [])"
  by (auto simp: success_id_def split: option.splits)

lemma publish_run_from_start:
  assumes "k \<le> length delays" and "\<forall>j<k. transient (rs j)"
  shows "publishIgContainerWithRetry rs cid =
           (case publish_loop rs cid k of (r, tr) \<Rightarrow> (r, retry_events cid 0 k @ tr))"
  unfolding publishIgContainerWithRetry_def
  using publish_loop_skip [of 0 k rs cid] assms by simp

lemma publish_run_stops:
  assumes "k \<le> length delays" and "\<forall>j<k. transient (rs j)"
  shows "case rs k of
           Inl e \<Rightarrow> publishIgContainerWithRetry rs cid = (Inl e, retry_events cid 0 k @ [CallPublish cid])
         | Inr resp \<Rightarrow>
             (case success_id resp of
                Some i \<Rightarrow> publishIgContainerWithRetry rs cid = (Inr i, retry_events cid 0 k @ [CallPublish cid])
              | None \<Rightarrow>
                  ((400 \<le> statusCode resp \<and> statusCode resp < 500) \<or> k = length delays \<longrightarrow>
                   publishIgContainerWithRetry rs cid =
                     (Inl (formatIgApiError resp), retry_events cid 0 k @ [CallPublish cid])))"
  unfolding publish_run_from_start [OF assms] publish_loop_last [of rs cid k]
  by (auto split: sum.splits option.splits)

lemma publish_run_bounds:
  "prefix (sleeps (snd (publishIgContainerWithRetry rs cid))) delays \<and>
   publish_calls (snd (publishIgContainerWithRetry rs cid)) =
     length (sleeps (snd (publishIgContainerWithRetry rs cid))) + 1 \<and>
   publish_calls (snd (publishIgContainerWithRetry rs cid)) \<le> 6"
proof -
  obtain k where k: "k \<le> length delays"
    and tr: "snd (publishIgContainerWithRetry rs cid) = retry_events cid 0 k @ [CallPublish cid]"
    using publish_loop_trace [of 0 rs cid] unfolding publishIgContainerWithRetry_def by auto
  have s: "sleeps (snd (publishIgContainerWithRetry rs cid)) = take k delays"
    unfolding tr using k sleeps_retry_events [of 0 k cid "[CallPublish cid]"] by simp
  have c: "publish_calls (snd (publishIgContainerWithRetry rs cid)) = k + 1"
    unfolding tr by (simp add: publish_calls_retry_events)
  have "length delays = 5" by (simp add: delays_def)
  with s c k show ?thesis by (simp add: take_is_prefix)
qed

text \<open>The text of \<open>formatIgApiError\<close>, written out.\<close>

lemma formatIgApiError_text:
  "formatIgApiError resp =
     (case body_error resp of
        None \<Rightarrow> ''HTTP '' @ show_int (statusCode resp) @ '': '' @ body_json resp
      | Some err \<Rightarrow>
          ''Instagram publish failed (HTTP '' @ show_int (statusCode resp) @
          (case code err of None \<Rightarrow> [] | Some k \<Rightarrow> if k = 0 then [] else '', code '' @ show_int k) @
          (case error_subcode err of
             None \<Rightarrow> [] | Some k \<Rightarrow> if k = 0 then [] else '', subcode '' @ show_int k) @
          ''): '' @
          (case error_user_msg err of
             None \<Rightarrow> (case message err of None \<Rightarrow> [] | Some m \<Rightarrow> m)
           | Some u \<Rightarrow> if u \<noteq> [] then u else (case message err of None \<Rightarrow> [] | Some m \<Rightarrow> m)))"
  by (auto simp: formatIgApiError_def num_part_def str_or_def Let_def split: option.splits)

section \<open>Container publish: claims\<close>

text \<open>
  Claim C2. Let the responses to the publish calls be any sequence \<open>rs\<close> (response number
  \<open>j\<close> answers attempt \<open>j\<close>), and let the first \<open>k \<le> 5\<close> of them be neither a success nor
  a 4xx status. Then the run makes those \<open>k\<close> calls, each followed by its sleep, and
  one more call, and what this call gets decides: a response with a status from 200 to
  299 and an id ends the run with that id; a 4xx status ends it with the formatted
  detail of that response; with \<open>k = 5\<close> any other response ends it with the formatted
  detail of that response, the last one. The sleeps of the \<open>k\<close> retries are the first
  \<open>k\<close> of 1000, 2000, 3000, 4000, 5000, in this order. For every sequence at all, the
  sleeps of the run are a prefix of these five, and the calls are one more than the
  sleeps, so six at most. The formatted detail of a response without an error object is
  \<open>HTTP\<close>, the status, a colon and the body as JSON text; with an error object it is
  \<open>Instagram publish failed (HTTP status, code c, subcode s): message\<close>, where the code
  and the subcode stand only when they are present and not zero, and the message is
  the error's user message or, when that is absent or empty, its message.
\<close>

theorem publish_retry_policy:
  "(k \<le> length delays \<and> (\<forall>j<k. transient (rs j)) \<longrightarrow>
      (case rs k of
         Inl e \<Rightarrow> publishIgContainerWithRetry rs cid = (Inl e, retry_events cid 0 k @ [CallPublish cid])
       | Inr resp \<Rightarrow>
           (case success_id resp of
              Some i \<Rightarrow> publishIgContainerWithRetry rs cid = (Inr i, retry_events cid 0 k @ [CallPublish cid])
            | None \<Rightarrow>
                ((400 \<le> statusCode resp \<and> statusCode resp < 500) \<or> k = length delays \<longrightarrow>
                 publishIgContainerWithRetry rs cid =
                   (Inl (formatIgApiError resp), retry_events cid 0 k @ [CallPublish cid]))))) \<and>
   (k \<le> length delays \<longrightarrow>
      sleeps (retry_events cid 0 k @ [CallPublish cid]) = take k delays \<and>
      publish_calls (retry_events cid 0 k @ [CallPublish cid]) = k + 1) \<and>
   prefix (sleeps (snd (publishIgContainerWithRetry rs cid))) delays \<and>
   publish_calls (snd (publishIgContainerWithRetry rs cid)) =
     length (sleeps (snd (publishIgContainerWithRetry rs cid))) + 1 \<and>
   publish_calls (snd (publishIgContainerWithRetry rs cid)) \<le> 6 \<and>
   delays = [1000, 2000, 3000, 4000, 5000] \<and>
   (success_id resp' = Some i') =
     (200 \<le> statusCode resp' \<and> statusCode resp' < 300 \<and> body_id resp' = Some i' \<and> i' \<noteq> []) \<and>
   formatIgApiError resp' =
     (case body_error resp' of
        None \<Rightarrow> ''HTTP '' @ show_int (statusCode resp') @ '': '' @ body_json resp'
      | Some err \<Rightarrow>
          ''Instagram publish failed (HTTP '' @ show_int (statusCode resp') @
          (case code err of None \<Rightarrow> [] | Some k \<Rightarrow> if k = 0 then [] else '', code '' @ show_int k) @
          (case error_subcode err of
             None \<Rightarrow> [] | Some k \<Rightarrow> if k = 0 then [] else '', subcode '' @ show_int k) @
          ''): '' @
          (case error_user_msg err of
             None \<Rightarrow> (case message err of None \<Rightarrow> [] | Some m \<Rightarrow> m)
           | Some u \<Rightarrow> if u \<noteq> [] then u else (case message err of None \<Rightarrow> [] | Some m \<Rightarrow> m)))"
proof -
  have a: "k \<le> length delays \<longrightarrow>
      sleeps (retry_events cid 0 k @ [CallPublish cid]) = take k delays \<and>
      publish_calls (retry_events cid 0 k @ [CallPublish cid]) = k + 1"
    using sleeps_retry_events [of 0 k cid "[CallPublish cid]"]
    by (simp add: publish_calls_retry_events)
  have b: "(k \<le> length delays \<and> (\<forall>j<k. transient (rs j)) \<longrightarrow>
      (case rs k of
         Inl e \<Rightarrow> publishIgContainerWithRetry rs cid = (Inl e, retry_events cid 0 k @ [CallPublish cid])
       | Inr resp \<Rightarrow>
           (case success_id resp of
              Some i \<Rightarrow> publishIgContainerWithRetry rs cid = (Inr i, retry_events cid 0 k @ [CallPublish cid])
            | None \<Rightarrow>
                ((400 \<le> statusCode resp \<and> statusCode resp < 500) \<or> k = length delays \<longrightarrow>
                 publishIgContainerWithRetry rs cid =
                   (Inl (formatIgApiError resp), retry_events cid 0 k @ [CallPublish cid])))))"
    using publish_run_stops [of k rs cid] by blast
  have c: "delays = [1000, 2000, 3000, 4000, 5000]" by (simp add: delays_def)
  from a b c publish_run_bounds [of rs cid] success_id_Some_iff [of resp' i']
    formatIgApiError_text [of resp']
  show ?thesis by blast
qed


text \<open>
  503 five times and then 200 with an id: success after all five sleeps, in order, and
  six calls. 400 at once: one call, no sleep. A server error with an error object six
  times: failure with the detail of that response after all five sleeps.
\<close>

theorem publish_retry_policy_witness:
  "publishIgContainerWithRetry
     (\<lambda>n. if n < 5 then Inr (plain_response 503 None) else Inr (plain_response 200 (Some ''17''))) ''c'' =
     (Inr ''17'',
      [CallPublish ''c'', Sleep 1000, CallPublish ''c'', Sleep 2000, CallPublish ''c'', Sleep 3000,
       CallPublish ''c'', Sleep 4000, CallPublish ''c'', Sleep 5000, CallPublish ''c'']) \<and>
   sleeps (retry_events ''c'' 0 5 @ [CallPublish ''c'']) = [1000, 2000, 3000, 4000, 5000] \<and>
   publish_calls (retry_events ''c'' 0 5 @ [CallPublish ''c'']) = 6 \<and>
   publishIgContainerWithRetry (\<lambda>n. Inr (plain_response 400 None)) ''c'' =
     (Inl ''HTTP 400: {}'', [CallPublish ''c'']) \<and>
   publishIgContainerWithRetry (\<lambda>n. Inr not_ready_response) ''c'' =
     (Inl ''Instagram publish failed (HTTP 500, code 2, subcode 2207027): Media not ready'',
      [CallPublish ''c'', Sleep 1000, CallPublish ''c'', Sleep 2000, CallPublish ''c'', Sleep 3000,
       CallPublish ''c'', Sleep 4000, CallPublish ''c'', Sleep 5000, CallPublish ''c''])"
proof -
  let ?rs = "\<lambda>n::nat. if n < 5 then Inr (plain_response 503 None) else Inr (plain_response 200 (Some ''17''))"
  let ?rs4 = "\<lambda>n::nat. Inr (plain_response 400 None) :: string + full_response"
  let ?rs5 = "\<lambda>n::nat. Inr not_ready_response :: string + full_response"
  have h5: "5 \<le> length delays \<and> (\<forall>j<5. transient (?rs j))"
    by (simp add: delays_def transient_def success_id_def plain_response_def)
  have h0: "0 \<le> length delays \<and> (\<forall>j<0. transient (?rs4 j))" by simp
  have h6: "5 \<le> length delays \<and> (\<forall>j<5. transient (?rs5 j))"
    by (simp add: delays_def transient_def success_id_def not_ready_response_def)
  have l: "(5::nat) = length delays" by (simp add: delays_def)
  have ev: "retry_events ''c'' 0 5 =
      [CallPublish ''c'', Sleep 1000, CallPublish ''c'', Sleep 2000, CallPublish ''c'', Sleep 3000,
       CallPublish ''c'', Sleep 4000, CallPublish ''c'', Sleep 5000]"
    by (simp add: eval_nat_numeral delays_def)
  note t5 = publish_retry_policy [where k = 5 and rs = ?rs and cid = "''c''"
      and resp' = "plain_response 400 None" and i' = "[]"]
  note t0 = publish_retry_policy [where k = 0 and rs = ?rs4 and cid = "''c''"
      and resp' = "plain_response 400 None" and i' = "[]"]
  note t6 = publish_retry_policy [where k = 5 and rs = ?rs5 and cid = "''c''"
      and resp' = not_ready_response and i' = "[]"]
  from t5 h5 have "case ?rs 5 of
         Inl e \<Rightarrow> publishIgContainerWithRetry ?rs ''c'' = (Inl e, retry_events ''c'' 0 5 @ [CallPublish ''c''])
       | Inr resp \<Rightarrow>
           (case success_id resp of
              Some i \<Rightarrow> publishIgContainerWithRetry ?rs ''c'' = (Inr i, retry_events ''c'' 0 5 @ [CallPublish ''c''])
            | None \<Rightarrow>
                ((400 \<le> statusCode resp \<and> statusCode resp < 500) \<or> 5 = length delays \<longrightarrow>
                 publishIgContainerWithRetry ?rs ''c'' =
                   (Inl (formatIgApiError resp), retry_events ''c'' 0 5 @ [CallPublish ''c''])))"
    by blast
  then have a: "publishIgContainerWithRetry ?rs ''c'' = (Inr ''17'', retry_events ''c'' 0 5 @ [CallPublish ''c''])"
    by (simp add: success_id_def plain_response_def)
  from t5 h5 have "sleeps (retry_events ''c'' 0 5 @ [CallPublish ''c'']) = take 5 delays"
    and "publish_calls (retry_events ''c'' 0 5 @ [CallPublish ''c'']) = 5 + 1"
    by blast+
  then have b: "sleeps (retry_events ''c'' 0 5 @ [CallPublish ''c'']) = [1000, 2000, 3000, 4000, 5000]"
    and c: "publish_calls (retry_events ''c'' 0 5 @ [CallPublish ''c'']) = 6"
    by (simp_all add: delays_def)
  from t0 h0 have "case ?rs4 0 of
         Inl e \<Rightarrow> publishIgContainerWithRetry ?rs4 ''c'' = (Inl e, retry_events ''c'' 0 0 @ [CallPublish ''c''])
       | Inr resp \<Rightarrow>
           (case success_id resp of
              Some i \<Rightarrow> publishIgContainerWithRetry ?rs4 ''c'' = (Inr i, retry_events ''c'' 0 0 @ [CallPublish ''c''])
            | None \<Rightarrow>
                ((400 \<le> statusCode resp \<and> statusCode resp < 500) \<or> 0 = length delays \<longrightarrow>
                 publishIgContainerWithRetry ?rs4 ''c'' =
                   (Inl (formatIgApiError resp), retry_events ''c'' 0 0 @ [CallPublish ''c''])))"
    by blast
  then have d: "publishIgContainerWithRetry ?rs4 ''c'' =
     (Inl (formatIgApiError (plain_response 400 None)), [CallPublish ''c''])"
    by (simp add: success_id_def plain_response_def)
  from t0 have "formatIgApiError (plain_response 400 None) =
     (case body_error (plain_response 400 None) of
        None \<Rightarrow> ''HTTP '' @ show_int (statusCode (plain_response 400 None)) @ '': '' @
                 body_json (plain_response 400 None)
      | Some err \<Rightarrow>
          ''Instagram publish failed (HTTP '' @ show_int (statusCode (plain_response 400 None)) @
          (case code err of None \<Rightarrow> [] | Some k \<Rightarrow> if k = 0 then [] else '', code '' @ show_int k) @
          (case error_subcode err of
             None \<Rightarrow> [] | Some k \<Rightarrow> if k = 0 then [] else '', subcode '' @ show_int k) @
          ''): '' @
          (case error_user_msg err of
             None \<Rightarrow> (case message err of None \<Rightarrow> [] | Some m \<Rightarrow> m)
           | Some u \<Rightarrow> if u \<noteq> [] then u else (case message err of None \<Rightarrow> [] | Some m \<Rightarrow> m)))"
    by blast
  then have e: "formatIgApiError (plain_response 400 None) = ''HTTP 400: {}''"
    by (simp add: plain_response_def show_int_def digit_char_def)
  from t6 h6 have "case ?rs5 5 of
         Inl e \<Rightarrow> publishIgContainerWithRetry ?rs5 ''c'' = (Inl e, retry_events ''c'' 0 5 @ [CallPublish ''c''])
       | Inr resp \<Rightarrow>
           (case success_id resp of
              Some i \<Rightarrow> publishIgContainerWithRetry ?rs5 ''c'' = (Inr i, retry_events ''c'' 0 5 @ [CallPublish ''c''])
            | None \<Rightarrow>
                ((400 \<le> statusCode resp \<and> statusCode resp < 500) \<or> 5 = length delays \<longrightarrow>
                 publishIgContainerWithRetry ?rs5 ''c'' =
                   (Inl (formatIgApiError resp), retry_events ''c'' 0 5 @ [CallPublish ''c''])))"
    by blast
  then have f: "publishIgContainerWithRetry ?rs5 ''c'' =
     (Inl (formatIgApiError not_ready_response), retry_events ''c'' 0 5 @ [CallPublish ''c''])"
    using l by (simp add: success_id_def not_ready_response_def)
  from t6 have "formatIgApiError not_ready_response =
     (case body_error not_ready_response of
        None \<Rightarrow> ''HTTP '' @ show_int (statusCode not_ready_response) @ '': '' @
                 body_json not_ready_response
      | Some err \<Rightarrow>
          ''Instagram publish failed (HTTP '' @ show_int (statusCode not_ready_response) @
          (case code err of None \<Rightarrow> [] | Some k \<Rightarrow> if k = 0 then [] else '', code '' @ show_int k) @
          (case error_subcode err of
             None \<Rightarrow> [] | Some k \<Rightarrow> if k = 0 then [] else '', subcode '' @ show_int k) @
          ''): '' @
          (case error_user_msg err of
             None \<Rightarrow> (case message err of None \<Rightarrow> [] | Some m \<Rightarrow> m)
           | Some u \<Rightarrow> if u \<noteq> [] then u else (case message err of None \<Rightarrow> [] | Some m \<Rightarrow> m)))"
    by blast
  then have g: "formatIgApiError not_ready_response =
      ''Instagram publish failed (HTTP 500, code 2, subcode 2207027): Media not ready''"
    by (simp add: not_ready_response_def show_int_def digit_char_def)
  from a b c d e f g ev show ?thesis by simp
qed

text \<open>
  Claim C10. A response with a status from 200 to 299 and no id (absent or empty) is
  neither a success nor a 4xx failure; below the last attempt the loop sleeps and calls
  again after it, as after any transient failure; and when all six attempts get such a
  response, the run fails after all five sleeps with the detail of the sixth response.
  That detail is, for a body without an error object, \<open>HTTP\<close>, the status and the body's
  JSON text; and for a body with one, \<open>Instagram publish failed (HTTP status, code c,
  subcode s): \<close> (a code or subcode that is absent or zero left out) followed by the
  user message of the error, or its message when the user message is absent or empty.
\<close>

theorem publish_ok_without_id:
  "(ok_without_id r \<longrightarrow> transient r) \<and>
   ok_without_id r =
     (\<exists>resp. r = Inr resp \<and> 200 \<le> statusCode resp \<and> statusCode resp < 300 \<and>
        (body_id resp = None \<or> body_id resp = Some [])) \<and>
   (ok_without_id (rs a) \<and> a < length delays \<longrightarrow>
      publish_loop rs cid a =
        (case publish_loop rs cid (Suc a) of
           (r, tr) \<Rightarrow> (r, CallPublish cid # Sleep (delays ! a) # tr))) \<and>
   ((\<forall>j. j \<le> length delays \<longrightarrow> ok_without_id (rs j)) \<longrightarrow>
      (\<exists>resp. rs (length delays) = Inr resp \<and>
         publishIgContainerWithRetry rs cid =
           (Inl (formatIgApiError resp), retry_events cid 0 (length delays) @ [CallPublish cid]) \<and>
         formatIgApiError resp =
           (case body_error resp of
              None \<Rightarrow> ''HTTP '' @ show_int (statusCode resp) @ '': '' @ body_json resp
            | Some err \<Rightarrow>
                ''Instagram publish failed (HTTP '' @ show_int (statusCode resp) @
                (case code err of None \<Rightarrow> [] | Some k \<Rightarrow> if k = 0 then [] else '', code '' @ show_int k) @
                (case error_subcode err of
                   None \<Rightarrow> [] | Some k \<Rightarrow> if k = 0 then [] else '', subcode '' @ show_int k) @
                ''): '' @
                (case error_user_msg err of
                   None \<Rightarrow> (case message err of None \<Rightarrow> [] | Some m \<Rightarrow> m)
                 | Some u \<Rightarrow> if u \<noteq> [] then u else (case message err of None \<Rightarrow> [] | Some m \<Rightarrow> m))))) \<and>
   sleeps (retry_events cid 0 (length delays) @ [CallPublish cid]) = [1000, 2000, 3000, 4000, 5000] \<and>
   publish_calls (retry_events cid 0 (length delays) @ [CallPublish cid]) = 6"
proof -
  have t: "ok_without_id x \<Longrightarrow> transient x" for x
    by (auto simp: ok_without_id_def transient_def success_id_def str_or_def
             split: sum.splits option.splits if_splits)
  have p: "ok_without_id r =
     (\<exists>resp. r = Inr resp \<and> 200 \<le> statusCode resp \<and> statusCode resp < 300 \<and>
        (body_id resp = None \<or> body_id resp = Some []))"
    by (cases r) (auto simp: ok_without_id_def str_or_def split: option.splits if_splits)
  have step: "ok_without_id (rs a) \<and> a < length delays \<longrightarrow>
      publish_loop rs cid a =
        (case publish_loop rs cid (Suc a) of
           (r, tr) \<Rightarrow> (r, CallPublish cid # Sleep (delays ! a) # tr))"
    using t [of "rs a"] publish_loop_transient [of rs a cid] by blast
  have all: "\<exists>resp. rs (length delays) = Inr resp \<and>
         publishIgContainerWithRetry rs cid =
           (Inl (formatIgApiError resp), retry_events cid 0 (length delays) @ [CallPublish cid]) \<and>
         formatIgApiError resp =
           (case body_error resp of
              None \<Rightarrow> ''HTTP '' @ show_int (statusCode resp) @ '': '' @ body_json resp
            | Some err \<Rightarrow>
                ''Instagram publish failed (HTTP '' @ show_int (statusCode resp) @
                (case code err of None \<Rightarrow> [] | Some k \<Rightarrow> if k = 0 then [] else '', code '' @ show_int k) @
                (case error_subcode err of
                   None \<Rightarrow> [] | Some k \<Rightarrow> if k = 0 then [] else '', subcode '' @ show_int k) @
                ''): '' @
                (case error_user_msg err of
                   None \<Rightarrow> (case message err of None \<Rightarrow> [] | Some m \<Rightarrow> m)
                 | Some u \<Rightarrow> if u \<noteq> [] then u else (case message err of None \<Rightarrow> [] | Some m \<Rightarrow> m)))"
    if h: "\<forall>j. j \<le> length delays \<longrightarrow> ok_without_id (rs j)"
  proof -
    from h have "ok_without_id (rs (length delays))" by simp
    then obtain resp where r: "rs (length delays) = Inr resp" and n: "success_id resp = None"
      using t [of "rs (length delays)"]
      by (auto simp: ok_without_id_def transient_def split: sum.splits)
    from h t have "\<forall>j<length delays. transient (rs j)" by simp
    with publish_run_stops [of "length delays" rs cid] r n
    have "publishIgContainerWithRetry rs cid =
           (Inl (formatIgApiError resp), retry_events cid 0 (length delays) @ [CallPublish cid])"
      by simp
    with r formatIgApiError_text [of resp] show ?thesis by blast
  qed
  have s: "sleeps (retry_events cid 0 (length delays) @ [CallPublish cid]) = [1000, 2000, 3000, 4000, 5000]"
    using sleeps_retry_events [of 0 "length delays" cid "[CallPublish cid]"] by (simp add: delays_def)
  have c: "publish_calls (retry_events cid 0 (length delays) @ [CallPublish cid]) = 6"
    by (simp add: publish_calls_retry_events delays_def)
  from t p step all s c show ?thesis by blast
qed

theorem publish_ok_without_id_witness:
  "ok_without_id (Inr (plain_response 200 None)) \<and>
   transient (Inr (plain_response 200 None)) \<and>
   publishIgContainerWithRetry (\<lambda>n. Inr (plain_response 200 None)) ''c'' =
     (Inl ''HTTP 200: {}'',
      [CallPublish ''c'', Sleep 1000, CallPublish ''c'', Sleep 2000, CallPublish ''c'', Sleep 3000,
       CallPublish ''c'', Sleep 4000, CallPublish ''c'', Sleep 5000, CallPublish ''c'']) \<and>
   ok_without_id (Inr accepted_without_id) \<and>
   transient (Inr accepted_without_id) \<and>
   publishIgContainerWithRetry (\<lambda>n. Inr accepted_without_id) ''c'' =
     (Inl ''Instagram publish failed (HTTP 200, code 4): Please retry'',
      [CallPublish ''c'', Sleep 1000, CallPublish ''c'', Sleep 2000, CallPublish ''c'', Sleep 3000,
       CallPublish ''c'', Sleep 4000, CallPublish ''c'', Sleep 5000, CallPublish ''c''])"
proof -
  let ?rs = "\<lambda>n::nat. Inr (plain_response 200 None) :: string + full_response"
  let ?rs2 = "\<lambda>n::nat. Inr accepted_without_id :: string + full_response"
  note t = publish_ok_without_id [of "Inr (plain_response 200 None)" ?rs 0 "''c''"]
  note t2 = publish_ok_without_id [of "Inr accepted_without_id" ?rs2 0 "''c''"]
  from t have "ok_without_id (Inr (plain_response 200 None)) =
     (\<exists>resp. Inr (plain_response 200 None) = (Inr resp :: string + full_response) \<and>
        200 \<le> statusCode resp \<and> statusCode resp < 300 \<and>
        (body_id resp = None \<or> body_id resp = Some []))"
    by blast
  then have h: "ok_without_id (Inr (plain_response 200 None))"
    by (simp add: plain_response_def)
  from t2 have "ok_without_id (Inr accepted_without_id) =
     (\<exists>resp. Inr accepted_without_id = (Inr resp :: string + full_response) \<and>
        200 \<le> statusCode resp \<and> statusCode resp < 300 \<and>
        (body_id resp = None \<or> body_id resp = Some []))"
    by blast
  then have h2: "ok_without_id (Inr accepted_without_id)"
    by (simp add: accepted_without_id_def)
  from h have hall: "\<forall>j. j \<le> length delays \<longrightarrow> ok_without_id (?rs j)" by simp
  from h2 have hall2: "\<forall>j. j \<le> length delays \<longrightarrow> ok_without_id (?rs2 j)" by simp
  from t h have a: "transient (Inr (plain_response 200 None))" by blast
  from t2 h2 have a2: "transient (Inr accepted_without_id)" by blast
  from t hall have "\<exists>resp. ?rs (length delays) = Inr resp \<and>
         publishIgContainerWithRetry ?rs ''c'' =
           (Inl (formatIgApiError resp), retry_events ''c'' 0 (length delays) @ [CallPublish ''c'']) \<and>
         formatIgApiError resp =
           (case body_error resp of
              None \<Rightarrow> ''HTTP '' @ show_int (statusCode resp) @ '': '' @ body_json resp
            | Some err \<Rightarrow>
                ''Instagram publish failed (HTTP '' @ show_int (statusCode resp) @
                (case code err of None \<Rightarrow> [] | Some k \<Rightarrow> if k = 0 then [] else '', code '' @ show_int k) @
                (case error_subcode err of
                   None \<Rightarrow> [] | Some k \<Rightarrow> if k = 0 then [] else '', subcode '' @ show_int k) @
                ''): '' @
                (case error_user_msg err of
                   None \<Rightarrow> (case message err of None \<Rightarrow> [] | Some m \<Rightarrow> m)
                 | Some u \<Rightarrow> if u \<noteq> [] then u else (case message err of None \<Rightarrow> [] | Some m \<Rightarrow> m)))"
    by blast
  then have b: "publishIgContainerWithRetry ?rs ''c'' =
      (Inl (formatIgApiError (plain_response 200 None)),
       retry_events ''c'' 0 (length delays) @ [CallPublish ''c''])"
    and e0: "formatIgApiError (plain_response 200 None) =
           (case body_error (plain_response 200 None) of
              None \<Rightarrow> ''HTTP '' @ show_int (statusCode (plain_response 200 None)) @ '': '' @ body_json (plain_response 200 None)
            | Some err \<Rightarrow>
                ''Instagram publish failed (HTTP '' @ show_int (statusCode (plain_response 200 None)) @
                (case code err of None \<Rightarrow> [] | Some k \<Rightarrow> if k = 0 then [] else '', code '' @ show_int k) @
                (case error_subcode err of
                   None \<Rightarrow> [] | Some k \<Rightarrow> if k = 0 then [] else '', subcode '' @ show_int k) @
                ''): '' @
                (case error_user_msg err of
                   None \<Rightarrow> (case message err of None \<Rightarrow> [] | Some m \<Rightarrow> m)
                 | Some u \<Rightarrow> if u \<noteq> [] then u else (case message err of None \<Rightarrow> [] | Some m \<Rightarrow> m)))"
    by auto
  from e0 have e: "formatIgApiError (plain_response 200 None) = ''HTTP 200: {}''"
    by (simp add: plain_response_def show_int_def digit_char_def)
  from t2 hall2 have "\<exists>resp. ?rs2 (length delays) = Inr resp \<and>
         publishIgContainerWithRetry ?rs2 ''c'' =
           (Inl (formatIgApiError resp), retry_events ''c'' 0 (length delays) @ [CallPublish ''c'']) \<and>
         formatIgApiError resp =
           (case body_error resp of
              None \<Rightarrow> ''HTTP '' @ show_int (statusCode resp) @ '': '' @ body_json resp
            | Some err \<Rightarrow>
                ''Instagram publish failed (HTTP '' @ show_int (statusCode resp) @
                (case code err of None \<Rightarrow> [] | Some k \<Rightarrow> if k = 0 then [] else '', code '' @ show_int k) @
                (case error_subcode err of
                   None \<Rightarrow> [] | Some k \<Rightarrow> if k = 0 then [] else '', subcode '' @ show_int k) @
                ''): '' @
                (case error_user_msg err of
                   None \<Rightarrow> (case message err of None \<Rightarrow> [] | Some m \<Rightarrow> m)
                 | Some u \<Rightarrow> if u \<noteq> [] then u else (case message err of None \<Rightarrow> [] | Some m \<Rightarrow> m)))"
    by blast
  then have b2: "publishIgContainerWithRetry ?rs2 ''c'' =
      (Inl (formatIgApiError accepted_without_id),
       retry_events ''c'' 0 (length delays) @ [CallPublish ''c''])"
    and e1: "formatIgApiError accepted_without_id =
           (case body_error accepted_without_id of
              None \<Rightarrow> ''HTTP '' @ show_int (statusCode accepted_without_id) @ '': '' @ body_json accepted_without_id
            | Some err \<Rightarrow>
                ''Instagram publish failed (HTTP '' @ show_int (statusCode accepted_without_id) @
                (case code err of None \<Rightarrow> [] | Some k \<Rightarrow> if k = 0 then [] else '', code '' @ show_int k) @
                (case error_subcode err of
                   None \<Rightarrow> [] | Some k \<Rightarrow> if k = 0 then [] else '', subcode '' @ show_int k) @
                ''): '' @
                (case error_user_msg err of
                   None \<Rightarrow> (case message err of None \<Rightarrow> [] | Some m \<Rightarrow> m)
                 | Some u \<Rightarrow> if u \<noteq> [] then u else (case message err of None \<Rightarrow> [] | Some m \<Rightarrow> m)))"
    by auto
  from e1 have e2: "formatIgApiError accepted_without_id =
      ''Instagram publish failed (HTTP 200, code 4): Please retry''"
    by (simp add: accepted_without_id_def show_int_def digit_char_def)
  have ev: "retry_events ''c'' 0 (length delays) =
      [CallPublish ''c'', Sleep 1000, CallPublish ''c'', Sleep 2000, CallPublish ''c'', Sleep 3000,
       CallPublish ''c'', Sleep 4000, CallPublish ''c'', Sleep 5000]"
    by (simp add: eval_nat_numeral delays_def)
  from h a b e h2 a2 b2 e2 ev show ?thesis by simp
qed

section \<open>Status polling: lemmas\<close>

lemma poll_rounds_Suc: "poll_rounds cid (Suc n) = Sleep pollInterval # CallStatus cid # poll_rounds cid n"
  by (simp add: poll_rounds_def)

lemma poll_rounds_0: "poll_rounds cid 0 = []"
  by (simp add: poll_rounds_def)

lemma poll_loop_pending:
  assumes "pending (sts a)" and "a < maxPolls"
  shows "poll_loop sts cid a =
           (case poll_loop sts cid (Suc a) of
              (r, tr) \<Rightarrow> (r, Sleep pollInterval # CallStatus cid # tr))"
  using assms
  by (subst poll_loop.simps) (auto simp: pending_def split: sum.splits)

lemma poll_loop_skip:
  "a + k \<le> maxPolls \<Longrightarrow> (\<forall>j<k. pending (sts (a + j))) \<Longrightarrow>
   poll_loop sts cid a =
     (case poll_loop sts cid (a + k) of (r, tr) \<Rightarrow> (r, poll_rounds cid k @ tr))"
proof (induction k arbitrary: a)
  case 0
  then show ?case by (simp add: poll_rounds_0 split: prod.splits)
next
  case (Suc k)
  from Suc.prems have t: "pending (sts a)" and lt: "a < maxPolls" by auto
  from Suc.prems have "\<forall>j<k. pending (sts (Suc a + j))" by auto
  moreover from Suc.prems have "Suc a + k \<le> maxPolls" by simp
  ultimately have ih: "poll_loop sts cid (Suc a) =
     (case poll_loop sts cid (Suc a + k) of (r, tr) \<Rightarrow> (r, poll_rounds cid k @ tr))"
    by (rule Suc.IH [rotated])
  show ?case
    unfolding poll_loop_pending [of sts a cid, OF t lt] ih
    by (simp add: poll_rounds_Suc split: prod.splits)
qed

lemma poll_loop_stop:
  "poll_loop sts cid a =
     (if a < maxPolls
      then (case sts a of
              Inl e \<Rightarrow> (Inl e, poll_rounds cid 1)
            | Inr st \<Rightarrow>
                if status_code st = FINISHED then (Inr (), poll_rounds cid 1)
                else if status_code st = ERROR \<or> status_code st = EXPIRED
                then (Inl (processing_failed st), poll_rounds cid 1)
                else (case poll_loop sts cid (Suc a) of
                        (r, tr) \<Rightarrow> (r, Sleep pollInterval # CallStatus cid # tr)))
      else (Inl timed_out, []))"
  by (subst poll_loop.simps) (auto simp: poll_rounds_def split: sum.splits)

lemma poll_run_from_start:
  assumes "k \<le> maxPolls" and "\<forall>j<k. pending (sts j)"
  shows "pollIgContainer sts cid =
           (case poll_loop sts cid k of (r, tr) \<Rightarrow> (r, poll_rounds cid k @ tr))"
  unfolding pollIgContainer_def
  using poll_loop_skip [of 0 k sts cid] assms by simp

lemma poll_rounds_add: "poll_rounds cid k @ poll_rounds cid n = poll_rounds cid (k + n)"
  by (simp add: poll_rounds_def replicate_add)

lemma poll_run_stops:
  assumes "k < maxPolls" and "\<forall>j<k. pending (sts j)"
  shows "case sts k of
           Inl e \<Rightarrow> pollIgContainer sts cid = (Inl e, poll_rounds cid (Suc k))
         | Inr st \<Rightarrow>
             (status_code st = FINISHED \<longrightarrow> pollIgContainer sts cid = (Inr (), poll_rounds cid (Suc k))) \<and>
             (status_code st = ERROR \<or> status_code st = EXPIRED \<longrightarrow>
                pollIgContainer sts cid = (Inl (processing_failed st), poll_rounds cid (Suc k)))"
proof -
  from assms have "k \<le> maxPolls" by simp
  then have e: "pollIgContainer sts cid =
      (case poll_loop sts cid k of (r, tr) \<Rightarrow> (r, poll_rounds cid k @ tr))"
    using assms(2) by (rule poll_run_from_start)
  show ?thesis
    unfolding e poll_loop_stop [of sts cid k] using assms(1)
    by (auto simp: poll_rounds_add split: sum.splits)
qed

lemma poll_run_times_out:
  assumes "\<forall>j<maxPolls. pending (sts j)"
  shows "pollIgContainer sts cid = (Inl timed_out, poll_rounds cid maxPolls)"
  using poll_run_from_start [of maxPolls sts cid] assms
  unfolding poll_loop_stop [of sts cid maxPolls] by simp

lemma poll_loop_trace:
  "\<exists>n. n \<le> maxPolls - a \<and> snd (poll_loop sts cid a) = poll_rounds cid n"
proof (induction sts cid a rule: poll_loop.induct)
  case (1 sts cid a)
  show ?case
  proof (cases "pending (sts a) \<and> a < maxPolls")
    case True
    then obtain st where r: "a < maxPolls" "sts a = Inr st" "status_code st \<noteq> FINISHED"
      "\<not> (status_code st = ERROR \<or> status_code st = EXPIRED)"
      by (auto simp: pending_def split: sum.splits)
    from "1.IH" [OF r]
    obtain n where n: "n \<le> maxPolls - (a + 1)"
      "snd (poll_loop sts cid (a + 1)) = poll_rounds cid n" by auto
    have "snd (poll_loop sts cid a) = poll_rounds cid (Suc n)"
      using True n(2) by (subst poll_loop_pending) (auto simp: poll_rounds_Suc split: prod.splits)
    moreover from n(1) r(1) have "Suc n \<le> maxPolls - a" by simp
    ultimately show ?thesis by blast
  next
    case False
    show ?thesis
    proof (cases "a < maxPolls")
      case True
      have "snd (poll_loop sts cid a) = poll_rounds cid 1"
      proof (cases "sts a")
        case (Inl e)
        with True show ?thesis by (subst poll_loop_stop) simp
      next
        case (Inr st)
        with False True have "status_code st = FINISHED \<or> status_code st = ERROR \<or> status_code st = EXPIRED"
          by (cases "status_code st") (auto simp: pending_def)
        with Inr True show ?thesis by (subst poll_loop_stop) auto
      qed
      moreover from True have "1 \<le> maxPolls - a" by simp
      ultimately show ?thesis by blast
    next
      case False
      then have "snd (poll_loop sts cid a) = poll_rounds cid 0"
        by (subst poll_loop_stop) (simp add: poll_rounds_0)
      then show ?thesis by blast
    qed
  qed
qed

lemma timed_out_distinct: "timed_out \<noteq> processing_failed st"
  by (simp add: timed_out_def processing_failed_def)

section \<open>Status polling: claim\<close>

text \<open>
  Claim C4. Let the statuses read be any sequence \<open>sts\<close> (number \<open>j\<close> answers poll \<open>j\<close>).
  If the first \<open>k < 30\<close> polls read a status that is not terminal, the run is \<open>k + 1\<close>
  rounds of a sleep of 10000 ms and a status call, and the poll after those decides:
  FINISHED returns, ERROR or EXPIRED throws the guidance on transcoding, and an error
  of the call itself is thrown on. If all of the first 30 polls read a status that is not
  terminal, the run is 30 rounds and throws the timeout error. For every sequence at
  all the run is at most 30 such rounds. The guidance error reads \<open>Instagram Reel
  processing failed: \<close>, then the status text read (the status code when that text is
  absent or empty), then the advice that the video URL be publicly accessible and the
  video meet the Reels requirements (MP4 H.264, max 5 Mbps bitrate, max 90s, 9:16).
  The timeout error reads \<open>Instagram Reel processing timed out after 5 minutes of
  polling\<close>, and it is no guidance error.
\<close>

theorem poll_policy:
  "(k < 30 \<and> (\<forall>j<k. pending (sts j)) \<longrightarrow>
      (case sts k of
         Inl e \<Rightarrow> pollIgContainer sts cid = (Inl e, poll_rounds cid (Suc k))
       | Inr st \<Rightarrow>
           (status_code st = FINISHED \<longrightarrow> pollIgContainer sts cid = (Inr (), poll_rounds cid (Suc k))) \<and>
           (status_code st = ERROR \<or> status_code st = EXPIRED \<longrightarrow>
              pollIgContainer sts cid = (Inl (processing_failed st), poll_rounds cid (Suc k))))) \<and>
   ((\<forall>j<30. pending (sts j)) \<longrightarrow> pollIgContainer sts cid = (Inl timed_out, poll_rounds cid 30)) \<and>
   (\<exists>n. n \<le> 30 \<and> snd (pollIgContainer sts cid) = poll_rounds cid n) \<and>
   poll_rounds cid (Suc n) = Sleep 10000 # CallStatus cid # poll_rounds cid n \<and>
   poll_rounds cid 0 = [] \<and>
   timed_out \<noteq> processing_failed st' \<and>
   processing_failed st' =
     ''Instagram Reel processing failed: '' @
     (case status st' of
        None \<Rightarrow> status_code_text (status_code st')
      | Some m \<Rightarrow> if m \<noteq> [] then m else status_code_text (status_code st')) @
     ''. Ensure the video URL is publicly accessible and the video meets Instagram Reels '' @
     ''requirements (MP4 H.264, max 5 Mbps bitrate, max 90s, 9:16 aspect ratio recommended).'' \<and>
   timed_out = ''Instagram Reel processing timed out after 5 minutes of polling'' \<and>
   status_code_text ERROR = ''ERROR'' \<and>
   status_code_text EXPIRED = ''EXPIRED'' \<and>
   pending r =
     (\<exists>st. r = Inr st \<and> status_code st \<noteq> FINISHED \<and> status_code st \<noteq> ERROR \<and>
        status_code st \<noteq> EXPIRED)"
proof -
  have m: "maxPolls = 30" by (simp add: maxPolls_def)
  have t: "\<exists>n. n \<le> 30 \<and> snd (pollIgContainer sts cid) = poll_rounds cid n"
    using poll_loop_trace [of 0 sts cid] unfolding pollIgContainer_def m by simp
  have p: "processing_failed st' =
     ''Instagram Reel processing failed: '' @
     (case status st' of
        None \<Rightarrow> status_code_text (status_code st')
      | Some m \<Rightarrow> if m \<noteq> [] then m else status_code_text (status_code st')) @
     ''. Ensure the video URL is publicly accessible and the video meets Instagram Reels '' @
     ''requirements (MP4 H.264, max 5 Mbps bitrate, max 90s, 9:16 aspect ratio recommended).''"
    by (simp add: processing_failed_def str_or_def split: option.splits)
  have q: "timed_out = ''Instagram Reel processing timed out after 5 minutes of polling''"
    by (simp add: timed_out_def)
  have s: "status_code_text ERROR = ''ERROR''" "status_code_text EXPIRED = ''EXPIRED''"
    by simp_all
  have g: "pending r =
     (\<exists>st. r = Inr st \<and> status_code st \<noteq> FINISHED \<and> status_code st \<noteq> ERROR \<and>
        status_code st \<noteq> EXPIRED)"
  proof (cases r)
    case (Inl e)
    then show ?thesis by (simp add: pending_def)
  next
    case (Inr st)
    then show ?thesis by (cases "status_code st") (simp_all add: pending_def)
  qed
  have a: "k < 30 \<and> (\<forall>j<k. pending (sts j)) \<longrightarrow>
      (case sts k of
         Inl e \<Rightarrow> pollIgContainer sts cid = (Inl e, poll_rounds cid (Suc k))
       | Inr st \<Rightarrow>
           (status_code st = FINISHED \<longrightarrow> pollIgContainer sts cid = (Inr (), poll_rounds cid (Suc k))) \<and>
           (status_code st = ERROR \<or> status_code st = EXPIRED \<longrightarrow>
              pollIgContainer sts cid = (Inl (processing_failed st), poll_rounds cid (Suc k))))"
    using poll_run_stops [of k sts cid] unfolding m by simp
  have b: "(\<forall>j<30. pending (sts j)) \<longrightarrow> pollIgContainer sts cid = (Inl timed_out, poll_rounds cid 30)"
    using poll_run_times_out [of sts cid] unfolding m by simp
  have c: "poll_rounds cid (Suc n) = Sleep 10000 # CallStatus cid # poll_rounds cid n"
    "poll_rounds cid 0 = []"
    by (simp_all add: poll_rounds_Suc poll_rounds_0 pollInterval_def)
  from a b t c timed_out_distinct [of st'] p q s g show ?thesis by blast
qed

theorem poll_policy_witness:
  "pollIgContainer (\<lambda>n. if n < 2 then Inr \<lparr>status_code = IN_PROGRESS, status = None\<rparr>
                         else Inr \<lparr>status_code = FINISHED, status = None\<rparr>) ''c'' =
     (Inr (), [Sleep 10000, CallStatus ''c'', Sleep 10000, CallStatus ''c'', Sleep 10000, CallStatus ''c'']) \<and>
   pollIgContainer (\<lambda>n. Inr \<lparr>status_code = ERROR, status = None\<rparr>) ''c'' =
     (Inl (''Instagram Reel processing failed: ERROR'' @
     ''. Ensure the video URL is publicly accessible and the video meets Instagram Reels '' @
     ''requirements (MP4 H.264, max 5 Mbps bitrate, max 90s, 9:16 aspect ratio recommended).''),
      [Sleep 10000, CallStatus ''c'']) \<and>
   pollIgContainer (\<lambda>n. if n < 1 then Inr \<lparr>status_code = PUBLISHED, status = Some ''Published''\<rparr>
                         else Inr \<lparr>status_code = EXPIRED, status = Some ''Expired: not published in 24h''\<rparr>)
       ''c'' =
     (Inl (''Instagram Reel processing failed: Expired: not published in 24h'' @
     ''. Ensure the video URL is publicly accessible and the video meets Instagram Reels '' @
     ''requirements (MP4 H.264, max 5 Mbps bitrate, max 90s, 9:16 aspect ratio recommended).''),
      [Sleep 10000, CallStatus ''c'', Sleep 10000, CallStatus ''c'']) \<and>
   pollIgContainer (\<lambda>n. Inr \<lparr>status_code = EXPIRED, status = Some []\<rparr>) ''c'' =
     (Inl (''Instagram Reel processing failed: EXPIRED'' @
     ''. Ensure the video URL is publicly accessible and the video meets Instagram Reels '' @
     ''requirements (MP4 H.264, max 5 Mbps bitrate, max 90s, 9:16 aspect ratio recommended).''),
      [Sleep 10000, CallStatus ''c'']) \<and>
   pollIgContainer (\<lambda>n. Inr \<lparr>status_code = IN_PROGRESS, status = None\<rparr>) ''c'' =
     (Inl ''Instagram Reel processing timed out after 5 minutes of polling'',
      concat (replicate 30 [Sleep 10000, CallStatus ''c'']))"
proof -
  let ?fin = "\<lambda>n::nat. if n < 2 then Inr \<lparr>status_code = IN_PROGRESS, status = None\<rparr>
                         else Inr \<lparr>status_code = FINISHED, status = None\<rparr> :: string + ig_status"
  let ?err = "\<lambda>n::nat. Inr \<lparr>status_code = ERROR, status = None\<rparr> :: string + ig_status"
  let ?exp = "\<lambda>n::nat. if n < 1 then Inr \<lparr>status_code = PUBLISHED, status = Some ''Published''\<rparr>
                         else Inr \<lparr>status_code = EXPIRED, status = Some ''Expired: not published in 24h''\<rparr>
                         :: string + ig_status"
  let ?emp = "\<lambda>n::nat. Inr \<lparr>status_code = EXPIRED, status = Some []\<rparr> :: string + ig_status"
  let ?pen = "\<lambda>n::nat. Inr \<lparr>status_code = IN_PROGRESS, status = None\<rparr> :: string + ig_status"
  note t1 = poll_policy [where k = 2 and sts = ?fin and cid = "''c''" and n = 2
      and st' = "\<lparr>status_code = ERROR, status = None\<rparr>"
      and r = "Inr \<lparr>status_code = IN_PROGRESS, status = None\<rparr>"]
  note t2 = poll_policy [where k = 0 and sts = ?err and cid = "''c''" and n = 0
      and st' = "\<lparr>status_code = ERROR, status = None\<rparr>"
      and r = "Inr \<lparr>status_code = PUBLISHED, status = Some ''Published''\<rparr>"]
  note t3 = poll_policy [where k = 1 and sts = ?exp and cid = "''c''" and n = 1
      and st' = "\<lparr>status_code = EXPIRED, status = Some ''Expired: not published in 24h''\<rparr>"
      and r = "Inr \<lparr>status_code = PUBLISHED, status = Some ''Published''\<rparr>"]
  note t4 = poll_policy [where k = 0 and sts = ?emp and cid = "''c''" and n = 0
      and st' = "\<lparr>status_code = EXPIRED, status = Some []\<rparr>"
      and r = "Inr \<lparr>status_code = IN_PROGRESS, status = None\<rparr>"]
  note t5 = poll_policy [where k = 0 and sts = ?pen and cid = "''c''" and n = 0
      and st' = "\<lparr>status_code = ERROR, status = None\<rparr>"
      and r = "Inr \<lparr>status_code = IN_PROGRESS, status = None\<rparr>"]
  from t1 have "pending (Inr \<lparr>status_code = IN_PROGRESS, status = None\<rparr>) =
     (\<exists>st. Inr \<lparr>status_code = IN_PROGRESS, status = None\<rparr> = (Inr st :: string + ig_status) \<and>
        status_code st \<noteq> FINISHED \<and> status_code st \<noteq> ERROR \<and> status_code st \<noteq> EXPIRED)"
    by blast
  then have p1: "pending (Inr \<lparr>status_code = IN_PROGRESS, status = None\<rparr>)" by simp
  from t2 have "pending (Inr \<lparr>status_code = PUBLISHED, status = Some ''Published''\<rparr>) =
     (\<exists>st. Inr \<lparr>status_code = PUBLISHED, status = Some ''Published''\<rparr> = (Inr st :: string + ig_status) \<and>
        status_code st \<noteq> FINISHED \<and> status_code st \<noteq> ERROR \<and> status_code st \<noteq> EXPIRED)"
    by blast
  then have p2: "pending (Inr \<lparr>status_code = PUBLISHED, status = Some ''Published''\<rparr>)" by simp
  have h1: "(2::nat) < 30 \<and> (\<forall>j<2. pending (?fin j))" using p1 by simp
  have h2: "(0::nat) < 30 \<and> (\<forall>j<0. pending (?err j))" by simp
  have h3: "(1::nat) < 30 \<and> (\<forall>j<1. pending (?exp j))" using p2 by simp
  have h4: "(0::nat) < 30 \<and> (\<forall>j<0. pending (?emp j))" by simp
  have h5: "\<forall>j<30. pending (?pen j)" using p1 by simp
  from t1 have s: "poll_rounds ''c'' (Suc 2) = Sleep 10000 # CallStatus ''c'' # poll_rounds ''c'' 2"
    by blast
  from t3 have s1: "poll_rounds ''c'' (Suc 1) = Sleep 10000 # CallStatus ''c'' # poll_rounds ''c'' 1"
    by blast
  from t2 have s0: "poll_rounds ''c'' (Suc 0) = Sleep 10000 # CallStatus ''c'' # poll_rounds ''c'' 0"
    and z: "poll_rounds ''c'' 0 = []"
    by blast+
  from s s1 s0 z have r: "poll_rounds ''c'' (Suc 2) =
      [Sleep 10000, CallStatus ''c'', Sleep 10000, CallStatus ''c'', Sleep 10000, CallStatus ''c'']"
    "poll_rounds ''c'' (Suc 1) = [Sleep 10000, CallStatus ''c'', Sleep 10000, CallStatus ''c'']"
    "poll_rounds ''c'' (Suc 0) = [Sleep 10000, CallStatus ''c'']"
    by (simp_all add: eval_nat_numeral)
  from t1 h1 have "case ?fin 2 of
         Inl e \<Rightarrow> pollIgContainer ?fin ''c'' = (Inl e, poll_rounds ''c'' (Suc 2))
       | Inr st \<Rightarrow>
           (status_code st = FINISHED \<longrightarrow> pollIgContainer ?fin ''c'' = (Inr (), poll_rounds ''c'' (Suc 2))) \<and>
           (status_code st = ERROR \<or> status_code st = EXPIRED \<longrightarrow>
              pollIgContainer ?fin ''c'' = (Inl (processing_failed st), poll_rounds ''c'' (Suc 2)))"
    by blast
  then have a: "pollIgContainer ?fin ''c'' = (Inr (), poll_rounds ''c'' (Suc 2))" by simp
  from t2 h2 have "case ?err 0 of
         Inl e \<Rightarrow> pollIgContainer ?err ''c'' = (Inl e, poll_rounds ''c'' (Suc 0))
       | Inr st \<Rightarrow>
           (status_code st = FINISHED \<longrightarrow> pollIgContainer ?err ''c'' = (Inr (), poll_rounds ''c'' (Suc 0))) \<and>
           (status_code st = ERROR \<or> status_code st = EXPIRED \<longrightarrow>
              pollIgContainer ?err ''c'' = (Inl (processing_failed st), poll_rounds ''c'' (Suc 0)))"
    by blast
  then have b: "pollIgContainer ?err ''c'' =
      (Inl (processing_failed \<lparr>status_code = ERROR, status = None\<rparr>), poll_rounds ''c'' (Suc 0))"
    by simp
  from t3 h3 have "case ?exp 1 of
         Inl e \<Rightarrow> pollIgContainer ?exp ''c'' = (Inl e, poll_rounds ''c'' (Suc 1))
       | Inr st \<Rightarrow>
           (status_code st = FINISHED \<longrightarrow> pollIgContainer ?exp ''c'' = (Inr (), poll_rounds ''c'' (Suc 1))) \<and>
           (status_code st = ERROR \<or> status_code st = EXPIRED \<longrightarrow>
              pollIgContainer ?exp ''c'' = (Inl (processing_failed st), poll_rounds ''c'' (Suc 1)))"
    by blast
  then have c: "pollIgContainer ?exp ''c'' =
      (Inl (processing_failed \<lparr>status_code = EXPIRED, status = Some ''Expired: not published in 24h''\<rparr>),
       poll_rounds ''c'' (Suc 1))"
    by simp
  from t4 h4 have "case ?emp 0 of
         Inl e \<Rightarrow> pollIgContainer ?emp ''c'' = (Inl e, poll_rounds ''c'' (Suc 0))
       | Inr st \<Rightarrow>
           (status_code st = FINISHED \<longrightarrow> pollIgContainer ?emp ''c'' = (Inr (), poll_rounds ''c'' (Suc 0))) \<and>
           (status_code st = ERROR \<or> status_code st = EXPIRED \<longrightarrow>
              pollIgContainer ?emp ''c'' = (Inl (processing_failed st), poll_rounds ''c'' (Suc 0)))"
    by blast
  then have d: "pollIgContainer ?emp ''c'' =
      (Inl (processing_failed \<lparr>status_code = EXPIRED, status = Some []\<rparr>), poll_rounds ''c'' (Suc 0))"
    by simp
  from t5 h5 have e: "pollIgContainer ?pen ''c'' = (Inl timed_out, poll_rounds ''c'' 30)" by blast
  from t5 have to: "timed_out = ''Instagram Reel processing timed out after 5 minutes of polling''"
    by blast
  from t2 have "processing_failed \<lparr>status_code = ERROR, status = None\<rparr> =
     ''Instagram Reel processing failed: '' @
     (case status \<lparr>status_code = ERROR, status = None\<rparr> of
        None \<Rightarrow> status_code_text (status_code \<lparr>status_code = ERROR, status = None\<rparr>)
      | Some m \<Rightarrow> if m \<noteq> [] then m
                  else status_code_text (status_code \<lparr>status_code = ERROR, status = None\<rparr>)) @
     ''. Ensure the video URL is publicly accessible and the video meets Instagram Reels '' @
     ''requirements (MP4 H.264, max 5 Mbps bitrate, max 90s, 9:16 aspect ratio recommended).''"
    and "status_code_text ERROR = ''ERROR''"
    by blast+
  then have pb: "processing_failed \<lparr>status_code = ERROR, status = None\<rparr> =
     ''Instagram Reel processing failed: ERROR'' @
     ''. Ensure the video URL is publicly accessible and the video meets Instagram Reels '' @
     ''requirements (MP4 H.264, max 5 Mbps bitrate, max 90s, 9:16 aspect ratio recommended).''"
    by simp
  from t3 have "processing_failed \<lparr>status_code = EXPIRED, status = Some ''Expired: not published in 24h''\<rparr> =
     ''Instagram Reel processing failed: '' @
     (case status \<lparr>status_code = EXPIRED, status = Some ''Expired: not published in 24h''\<rparr> of
        None \<Rightarrow> status_code_text
                 (status_code \<lparr>status_code = EXPIRED, status = Some ''Expired: not published in 24h''\<rparr>)
      | Some m \<Rightarrow> if m \<noteq> [] then m
                  else status_code_text
                    (status_code \<lparr>status_code = EXPIRED, status = Some ''Expired: not published in 24h''\<rparr>)) @
     ''. Ensure the video URL is publicly accessible and the video meets Instagram Reels '' @
     ''requirements (MP4 H.264, max 5 Mbps bitrate, max 90s, 9:16 aspect ratio recommended).''"
    by blast
  then have pc: "processing_failed \<lparr>status_code = EXPIRED, status = Some ''Expired: not published in 24h''\<rparr> =
     ''Instagram Reel processing failed: Expired: not published in 24h'' @
     ''. Ensure the video URL is publicly accessible and the video meets Instagram Reels '' @
     ''requirements (MP4 H.264, max 5 Mbps bitrate, max 90s, 9:16 aspect ratio recommended).''"
    by simp
  from t4 have "processing_failed \<lparr>status_code = EXPIRED, status = Some []\<rparr> =
     ''Instagram Reel processing failed: '' @
     (case status \<lparr>status_code = EXPIRED, status = Some []\<rparr> of
        None \<Rightarrow> status_code_text (status_code \<lparr>status_code = EXPIRED, status = Some []\<rparr>)
      | Some m \<Rightarrow> if m \<noteq> [] then m
                  else status_code_text (status_code \<lparr>status_code = EXPIRED, status = Some []\<rparr>)) @
     ''. Ensure the video URL is publicly accessible and the video meets Instagram Reels '' @
     ''requirements (MP4 H.264, max 5 Mbps bitrate, max 90s, 9:16 aspect ratio recommended).''"
    and "status_code_text EXPIRED = ''EXPIRED''"
    by blast+
  then have pd: "processing_failed \<lparr>status_code = EXPIRED, status = Some []\<rparr> =
     ''Instagram Reel processing failed: EXPIRED'' @
     ''. Ensure the video URL is publicly accessible and the video meets Instagram Reels '' @
     ''requirements (MP4 H.264, max 5 Mbps bitrate, max 90s, 9:16 aspect ratio recommended).''"
    by simp
  have rep: "poll_rounds ''c'' 30 = concat (replicate 30 [Sleep 10000, CallStatus ''c''])"
    by (simp add: poll_rounds_def pollInterval_def)
  show ?thesis
    unfolding a b c d e r to pb pc pd rep by simp
qed

section \<open>Range requests: lemmas\<close>













lemma parseRange_examples:
  "parseRange ''bytes=0-999'' 2000 = Some (0, 999)"
  "parseRange ''bytes=1990-'' 2000 = Some (1990, 1999)"
  "parseRange ''bytes=5000-'' 2000 = None"
  by (simp_all add: parseRange_def match_range_def is_digit_def parseInt_def digit_val_def)

section \<open>Range requests: claim\<close>





section \<open>The shared listener: lemmas\<close>

lemma installInterceptor_installed:
  "interceptorInstalled s \<Longrightarrow> installInterceptor ls s = Inr s"
  by (simp add: installInterceptor_def)

lemma installInterceptor_fresh:
  "\<not> interceptorInstalled s \<Longrightarrow>
   installInterceptor (h # hs) s =
     Inr (s\<lparr>n8n_listeners := Some [Interceptor h], interceptorInstalled := True\<rparr>)"
  by (simp add: installInterceptor_def)

lemma start_fresh:
  assumes "n8n_listeners s = Some (h # hs)" and "\<not> interceptorInstalled s"
  shows "n8n_listeners (snd (startTempVideoServer u b base s)) = Some [Interceptor h]"
    and "interceptorInstalled (snd (startTempVideoServer u b base s))"
  using assms by (simp_all add: startTempVideoServer_def installInterceptor_fresh Let_def)

lemma start_installed:
  assumes "n8n_listeners s = Some ls" and "interceptorInstalled s"
  shows "n8n_listeners (snd (startTempVideoServer u b base s)) = Some ls"
    and "interceptorInstalled (snd (startTempVideoServer u b base s))"
  using assms by (simp_all add: startTempVideoServer_def installInterceptor_installed Let_def)

lemma close_server_listeners:
  "n8n_listeners (close_server f s) = n8n_listeners s"
  "interceptorInstalled (close_server f s) = interceptorInstalled s"
  by (simp_all add: close_server_def)

lemma run_ops_installed:
  "n8n_listeners s = Some ls \<Longrightarrow> interceptorInstalled s \<Longrightarrow>
   n8n_listeners (run_ops ops s) = Some ls \<and> interceptorInstalled (run_ops ops s)"
proof (induction ops arbitrary: s)
  case Nil
  then show ?case by simp
next
  case (Cons op ops)
  show ?case
  proof (cases op)
    case (Start u b base)
    with Cons.prems Cons.IH [of "snd (startTempVideoServer u b base s)"]
    show ?thesis by (simp add: start_installed)
  next
    case (Release f)
    with Cons.prems Cons.IH [of "close_server f s"]
    show ?thesis by (simp add: close_server_listeners)
  qed
qed

lemma run_ops_fresh:
  "n8n_listeners s = Some (h # hs) \<Longrightarrow> \<not> interceptorInstalled s \<Longrightarrow>
   Start u b base \<in> set ops \<Longrightarrow>
   n8n_listeners (run_ops ops s) = Some [Interceptor h] \<and> interceptorInstalled (run_ops ops s)"
proof (induction ops arbitrary: s)
  case Nil
  then show ?case by simp
next
  case (Cons op ops)
  show ?case
  proof (cases op)
    case (Start u' b' base')
    let ?s = "snd (startTempVideoServer u' b' base' s)"
    from Cons.prems have "n8n_listeners ?s = Some [Interceptor h]" and "interceptorInstalled ?s"
      by (simp_all add: start_fresh)
    then show ?thesis unfolding Start by (simp add: run_ops_installed)
  next
    case (Release f)
    with Cons.prems have "Start u b base \<in> set ops" by simp
    with Cons.prems Cons.IH [of "close_server f s"] Release
    show ?thesis by (simp add: close_server_listeners)
  qed
qed

lemma dispatch_intercepted:
  assumes "n8n_listeners s = Some [Interceptor (HostHandler n)]"
  shows "\<not> video_request s req \<Longrightarrow> dispatch s req = [HandedTo n req]"
    and "video_request s req \<Longrightarrow>
         \<exists>buffer. activeVideos s (drop (length TMP_VIDEO_PREFIX) (url req)) = Some buffer \<and>
                  dispatch s req = [Responded (serveBuffer req buffer)]"
  using assms by (auto simp: dispatch_def video_request_def split: option.splits)

lemma dedicated_other:
  "url req \<noteq> servePath \<or> (http_method req \<noteq> ''GET'' \<and> http_method req \<noteq> ''HEAD'') \<Longrightarrow>
   dedicated_handler servePath buffer req = \<lparr>res_code = 404, res_headers = [], res_body = []\<rparr>"
  by (auto simp: dedicated_handler_def)

section \<open>The shared listener: claim\<close>

text \<open>
  Claim C9, as amended. Start in a process where the interceptor is not installed and the
  server's first request listener is a handler of the host, and run any sequence of
  registrations and releases with at least one registration. Then the server has one
  listener, the interceptor around that first handler (a later registration installs
  nothing). A request that is not a GET or HEAD for a video registered now is handed,
  unchanged, to that first handler and to nothing else; when the first handler was the
  host's only request listener, this is what the server did with the request before the
  installation. A GET or HEAD for a registered video is answered from its buffer. In the
  variant with its own listener, a request with another method or another path gets 404.
\<close>

theorem interceptor_once_and_pass_through:
  "(n8n_listeners s0 = Some (HostHandler n # hs) \<and> \<not> interceptorInstalled s0 \<and>
    Start u b base \<in> set ops \<longrightarrow>
      n8n_listeners (run_ops ops s0) = Some [Interceptor (HostHandler n)] \<and>
      (\<not> video_request (run_ops ops s0) req \<longrightarrow> dispatch (run_ops ops s0) req = [HandedTo n req]) \<and>
      (\<not> video_request (run_ops ops s0) req \<and> hs = [] \<longrightarrow>
         dispatch (run_ops ops s0) req = dispatch s0 req) \<and>
      (video_request (run_ops ops s0) req \<longrightarrow>
         (\<exists>buffer. activeVideos (run_ops ops s0) (drop (length TMP_VIDEO_PREFIX) (url req)) = Some buffer \<and>
            dispatch (run_ops ops s0) req = [Responded (serveBuffer req buffer)]))) \<and>
   (url req \<noteq> servePath \<or> (http_method req \<noteq> ''GET'' \<and> http_method req \<noteq> ''HEAD'') \<longrightarrow>
      dedicated_handler servePath buffer req = \<lparr>res_code = 404, res_headers = [], res_body = []\<rparr>)"
proof (intro conjI impI)
  assume h: "n8n_listeners s0 = Some (HostHandler n # hs) \<and> \<not> interceptorInstalled s0 \<and>
    Start u b base \<in> set ops"
  then show l: "n8n_listeners (run_ops ops s0) = Some [Interceptor (HostHandler n)]"
    using run_ops_fresh [of s0 "HostHandler n" hs u b base ops] by simp
  {
    assume "\<not> video_request (run_ops ops s0) req"
    with l show "dispatch (run_ops ops s0) req = [HandedTo n req]"
      by (simp add: dispatch_intercepted)
  }
  {
    assume "\<not> video_request (run_ops ops s0) req \<and> hs = []"
    with l h show "dispatch (run_ops ops s0) req = dispatch s0 req"
      by (simp add: dispatch_intercepted(1)) (simp add: dispatch_def)
  }
  {
    assume "video_request (run_ops ops s0) req"
    with l show "\<exists>buffer. activeVideos (run_ops ops s0) (drop (length TMP_VIDEO_PREFIX) (url req)) = Some buffer \<and>
            dispatch (run_ops ops s0) req = [Responded (serveBuffer req buffer)]"
      using dispatch_intercepted(2) [of "run_ops ops s0" n req] by blast
  }
next
  assume "url req \<noteq> servePath \<or> (http_method req \<noteq> ''GET'' \<and> http_method req \<noteq> ''HEAD'')"
  then show "dedicated_handler servePath buffer req = \<lparr>res_code = 404, res_headers = [], res_body = []\<rparr>"
    by (rule dedicated_other)
qed

theorem interceptor_once_and_pass_through_witness:
  "n8n_listeners (run_ops [Start ''u'' [1, 2] ''http://h/'', Start ''v'' [3] ''http://h/'', Release ''u.mp4'']
       (host_state [0])) = Some [Interceptor (HostHandler 0)] \<and>
   dispatch (run_ops [Start ''u'' [1, 2] ''http://h/'', Start ''v'' [3] ''http://h/'', Release ''u.mp4'']
       (host_state [0])) post_request = [HandedTo 0 post_request] \<and>
   dispatch (host_state [0]) post_request = [HandedTo 0 post_request] \<and>
   dispatch (run_ops [Start ''u'' [1, 2] ''http://h/'', Start ''v'' [3] ''http://h/'', Release ''u.mp4'']
       (host_state [0])) \<lparr>http_method = ''GET'', url = ''/tmp-video/v.mp4'', range_header = None\<rparr> =
     [Responded \<lparr>res_code = 200,
        res_headers = [(''Content-Type'', ''video/mp4''), (''Content-Length'', ''1''), (''Accept-Ranges'', ''bytes'')],
        res_body = [3]\<rparr>] \<and>
   dedicated_handler ''/u.mp4'' [1, 2] post_request = \<lparr>res_code = 404, res_headers = [], res_body = []\<rparr>"
proof -
  let ?ops = "[Start ''u'' [1, 2] ''http://h/'', Start ''v'' [3] ''http://h/'', Release ''u.mp4'']"
  let ?s = "run_ops ?ops (host_state [0])"
  let ?get = "\<lparr>http_method = ''GET'', url = ''/tmp-video/v.mp4'', range_header = None\<rparr>"
  have h: "n8n_listeners (host_state [0]) = Some (HostHandler 0 # []) \<and>
      \<not> interceptorInstalled (host_state [0]) \<and> Start ''u'' [1, 2] ''http://h/'' \<in> set ?ops"
    by (simp add: host_state_def)
  have av: "activeVideos ?s = (\<lambda>f. if f = ''v.mp4'' then Some [3] else None)"
    by (auto simp: host_state_def startTempVideoServer_def installInterceptor_def close_server_def Let_def)
  have nv: "\<not> video_request ?s post_request" by (simp add: video_request_def post_request_def)
  have v: "video_request ?s ?get" unfolding video_request_def av by (simp add: TMP_VIDEO_PREFIX_def)
  have d: "url post_request \<noteq> ''/u.mp4'' \<or>
      (http_method post_request \<noteq> ''GET'' \<and> http_method post_request \<noteq> ''HEAD'')"
    by (simp add: post_request_def)
  note t1 = interceptor_once_and_pass_through [of "host_state [0]" 0 "[]" "''u''" "[1, 2]" "''http://h/''"
      ?ops post_request "''/u.mp4''" "[1, 2]"]
  note t2 = interceptor_once_and_pass_through [of "host_state [0]" 0 "[]" "''u''" "[1, 2]" "''http://h/''"
      ?ops ?get "''/u.mp4''" "[1, 2]"]
  from t1 h have a: "n8n_listeners ?s = Some [Interceptor (HostHandler 0)]" by blast
  from t1 h nv have b: "dispatch ?s post_request = [HandedTo 0 post_request]" by blast
  from t1 h nv have c: "dispatch ?s post_request = dispatch (host_state [0]) post_request" by blast
  from t2 h v obtain buffer where
    "activeVideos ?s (drop (length TMP_VIDEO_PREFIX) (url ?get)) = Some buffer"
    "dispatch ?s ?get = [Responded (serveBuffer ?get buffer)]" by blast
  then have e: "dispatch ?s ?get = [Responded (serveBuffer ?get [3])]"
    unfolding av by (simp add: TMP_VIDEO_PREFIX_def)
  have f: "serveBuffer ?get [3] = \<lparr>res_code = 200,
        res_headers = [(''Content-Type'', ''video/mp4''), (''Content-Length'', ''1''), (''Accept-Ranges'', ''bytes'')],
        res_body = [3]\<rparr>"
    by (simp add: serveBuffer_def str_or_def show_int_def digit_char_def)
  from t1 d have g: "dedicated_handler ''/u.mp4'' [1, 2] post_request =
      \<lparr>res_code = 404, res_headers = [], res_body = []\<rparr>" by blast
  from a b c e f g show ?thesis by simp
qed

text \<open>
  Claim C9 as it stands fails when the host's server has two request listeners: the
  installation keeps the first and removes the second, so a request of the host's that
  both handled before is handled by the first alone afterwards.
\<close>

theorem pass_through_counterexample:
  "dispatch (host_state [0, 1]) post_request = [HandedTo 0 post_request, HandedTo 1 post_request] \<and>
   \<not> video_request (run_ops [Start ''u'' [1, 2] ''http://h/''] (host_state [0, 1])) post_request \<and>
   dispatch (run_ops [Start ''u'' [1, 2] ''http://h/''] (host_state [0, 1])) post_request =
     [HandedTo 0 post_request]"
  by (simp add: dispatch_def host_state_def startTempVideoServer_def installInterceptor_def
        video_request_def post_request_def Let_def)


section \<open>Effects: lemmas\<close>

lemma snd_bind_io:
  "snd (bind_io m f) = snd m @ (case fst m of Inl e \<Rightarrow> [] | Inr x \<Rightarrow> snd (f x))"
  by (cases m) (auto simp: bind_io_def split: sum.splits prod.splits)

lemma fst_bind_io:
  "fst (bind_io m f) = (case fst m of Inl e \<Rightarrow> Inl e | Inr x \<Rightarrow> fst (f x))"
  by (cases m) (auto simp: bind_io_def split: sum.splits prod.splits)

lemma bind_io_Inl: "fst m = Inl e \<Longrightarrow> bind_io m f = (Inl e, snd m)"
  by (cases m) (simp add: bind_io_def)

lemma bind_io_call_Inl [simp]: "bind_io (call ev (Inl e)) f = (Inl e, [ev])"
  by (simp add: bind_io_def call_def)

lemma bind_io_call_Inr [simp]: "bind_io (call ev (Inr x)) f = (fst (f x), ev # snd (f x))"
  by (simp add: bind_io_def call_def split: prod.splits)

lemma bind_io_return [simp]: "bind_io (return_io x) f = f x"
  by (simp add: bind_io_def return_io_def split: prod.splits)

lemma bind_io_throw [simp]: "bind_io (throw_io e) f = (Inl e, [])"
  by (simp add: bind_io_def throw_io_def)

lemma publish_loop_trace_events:
  "list_all is_loop_event (snd (publish_loop rs cid a))"
proof (induction rs cid a rule: publish_loop.induct)
  case (1 rs cid a)
  show ?case
    by (subst publish_loop.simps) (use 1 in \<open>auto split: sum.splits option.splits prod.splits\<close>)
qed

lemma poll_loop_trace_events:
  "list_all is_loop_event (snd (poll_loop sts cid a))"
proof (induction sts cid a rule: poll_loop.induct)
  case (1 sts cid a)
  show ?case
    by (subst poll_loop.simps) (use 1 in \<open>auto split: sum.splits prod.splits\<close>)
qed

section \<open>The image flow: lemmas\<close>

lemma transcoder_runs_append [simp]:
  "transcoder_runs (xs @ ys) = transcoder_runs xs + transcoder_runs ys"
  by (simp add: transcoder_runs_def)

lemma transcoder_runs_Cons:
  "transcoder_runs (e # es) = (if e = CallConvertImage then 1 else 0) + transcoder_runs es"
  by (simp add: transcoder_runs_def)

lemma transcoder_runs_Nil [simp]: "transcoder_runs [] = 0"
  by (simp add: transcoder_runs_def)

lemma transcoder_runs_loop_events:
  "list_all is_loop_event tr \<Longrightarrow> transcoder_runs tr = 0"
  by (induction tr) (auto simp: transcoder_runs_Cons)

text \<open>The steps of handleImage after the container exists run no transcoder.\<close>

lemma transcoder_runs_handleImage:
  "transcoder_runs (snd (handleImage env params caption)) =
   transcoder_runs (snd (image_container env params caption))"
proof -
  have p: "transcoder_runs (snd (publishIgContainerWithRetry rs cid)) = 0" for rs cid
    unfolding publishIgContainerWithRetry_def
    by (rule transcoder_runs_loop_events) (rule publish_loop_trace_events)
  show ?thesis
    unfolding handleImage_def
    by (auto simp: snd_bind_io fst_bind_io p call_def return_io_def transcoder_runs_Cons
        split: sum.splits prod.splits)
qed

lemma convert_and_retry_trace:
  "\<exists>pid cdn. prefix (snd (convert_and_retry env params caption))
      [CallDownload (mediaUrl params), CallConvertImage, CallUploadPhotoBuffer,
       CallGetPhotoImages pid, CallCreateImageContainer cdn]"
proof (cases "downloadMedia env (mediaUrl params)")
  case (Inl e)
  then show ?thesis by (simp add: convert_and_retry_def)
next
  case d: (Inr buf)
  show ?thesis
  proof (cases "convertImage env buf")
    case (Inl e)
    with d show ?thesis by (simp add: convert_and_retry_def)
  next
    case c: (Inr conv)
    show ?thesis
    proof (cases "uploadFbPhotoFromBuffer env conv")
      case (Inl e)
      with d c show ?thesis by (simp add: convert_and_retry_def)
    next
      case u: (Inr pid)
      show ?thesis
      proof (cases "getFbPhotoImages env pid")
        case (Inl e)
        with d c u show ?thesis by (auto simp: convert_and_retry_def)
      next
        case g: (Inr images)
        show ?thesis
        proof (cases "images = [] \<or> hd images = []")
          case True
          with d c u g show ?thesis
            by (cases images) (auto simp: convert_and_retry_def throw_io_def)
        next
          case False
          then obtain cdn rest where i: "images = cdn # rest" "cdn \<noteq> []" by (cases images) auto
          with d c u g show ?thesis
            by (cases "createIgImageContainer env cdn caption")
               (auto simp: convert_and_retry_def return_io_def)
        qed
      qed
    qed
  qed
qed

lemma transcoder_runs_prefix:
  "prefix tr [CallDownload u, CallConvertImage, CallUploadPhotoBuffer,
       CallGetPhotoImages pid, CallCreateImageContainer cdn] \<Longrightarrow> transcoder_runs tr \<le> 1"
  by (auto simp: prefix_def transcoder_runs_Cons append_eq_Cons_conv Cons_eq_append_conv)


lemma image_container_rejected:
  assumes "tryCreateIgImageContainer env (mediaUrl params) caption = Inr resp"
    and "success_id resp = None"
  shows "\<not> isFormatError resp \<Longrightarrow>
           image_container env params caption =
             (Inl (creation_failed resp), [CallTryCreateImage (mediaUrl params)])"
    and "isFormatError resp \<Longrightarrow>
           image_container env params caption =
             (fst (convert_and_retry env params caption),
              CallTryCreateImage (mediaUrl params) # snd (convert_and_retry env params caption))"
  using assms by (simp_all add: image_container_def throw_io_def)

lemma convert_and_retry_steps:
  assumes "downloadMedia env (mediaUrl params) = Inr buf"
    and "convertImage env buf = Inr conv"
    and "uploadFbPhotoFromBuffer env conv = Inr pid"
    and "getFbPhotoImages env pid = Inr (cdn # others)"
    and "cdn \<noteq> []"
  shows "convert_and_retry env params caption =
           (case createIgImageContainer env cdn caption of
              Inl e \<Rightarrow> Inl e
            | Inr cid \<Rightarrow> Inr (Some pid, cid),
            [CallDownload (mediaUrl params), CallConvertImage, CallUploadPhotoBuffer,
             CallGetPhotoImages pid, CallCreateImageContainer cdn])"
  using assms by (simp add: convert_and_retry_def return_io_def split: sum.splits)

lemma isFormatError_straddling: "isFormatError straddling_response"
  by (simp add: isFormatError_def errorText_def straddling_response_def str_or_def format_signature_def
      sublist_code(3) prefix_code)

text \<open>The test for the format signature and the raw detail, written out.\<close>

lemma isFormatError_text:
  "isFormatError resp =
     sublist ''Only photo or video can be accepted''
       ((case www_authenticate resp of None \<Rightarrow> [] | Some h \<Rightarrow> h) @ '' '' @
        (case body_error resp of
           None \<Rightarrow> []
         | Some err \<Rightarrow> (case message err of None \<Rightarrow> [] | Some m \<Rightarrow> m)))"
proof -
  have a: "str_or (www_authenticate resp) [] = (case www_authenticate resp of None \<Rightarrow> [] | Some h \<Rightarrow> h)"
    by (simp add: str_or_def split: option.splits)
  have b: "str_or (case body_error resp of None \<Rightarrow> None | Some err \<Rightarrow> message err) [] =
      (case body_error resp of
           None \<Rightarrow> []
         | Some err \<Rightarrow> (case message err of None \<Rightarrow> [] | Some m \<Rightarrow> m))"
    by (simp add: str_or_def split: option.splits)
  show ?thesis
    unfolding isFormatError_def errorText_def Let_def a b format_signature_def by (rule refl)
qed

lemma creation_failed_text:
  "creation_failed resp =
     ''Instagram container creation failed (HTTP '' @ show_int (statusCode resp) @ ''): '' @
     (if (case body_error resp of
            None \<Rightarrow> []
          | Some err \<Rightarrow> (case message err of None \<Rightarrow> [] | Some m \<Rightarrow> m)) \<noteq> []
      then (case body_error resp of
              None \<Rightarrow> []
            | Some err \<Rightarrow> (case message err of None \<Rightarrow> [] | Some m \<Rightarrow> m))
      else body_json resp)"
proof -
  have b: "str_or (case body_error resp of None \<Rightarrow> None | Some err \<Rightarrow> message err) [] =
      (case body_error resp of
           None \<Rightarrow> []
         | Some err \<Rightarrow> (case message err of None \<Rightarrow> [] | Some m \<Rightarrow> m))"
    by (simp add: str_or_def split: option.splits)
  show ?thesis
    unfolding creation_failed_def Let_def b by (rule refl)
qed

lemma success_id_None_iff:
  "(success_id resp = None) =
     (\<not> (200 \<le> statusCode resp \<and> statusCode resp < 300 \<and> (\<exists>i. body_id resp = Some i \<and> i \<noteq> [])))"
  by (auto simp: success_id_def split: option.splits)

text \<open>The steps of handleImage after the container exists are none of the cycle's.\<close>

lemma cycle_event_loop_events:
  "list_all is_loop_event tr \<Longrightarrow> filter cycle_event tr = []"
proof (induction tr)
  case Nil
  then show ?case by simp
next
  case (Cons e es)
  then show ?case by (cases e) simp_all
qed

lemma handleImage_after_container:
  "\<exists>rest. snd (handleImage env params caption) = snd (image_container env params caption) @ rest \<and>
      filter cycle_event rest = []"
proof (cases "fst (image_container env params caption)")
  case (Inl e)
  then have "handleImage env params caption = (Inl e, snd (image_container env params caption))"
    unfolding handleImage_def by (rule bind_io_Inl)
  then show ?thesis by simp
next
  case (Inr v)
  obtain pid cid where v: "v = (pid, cid)" by (cases v)
  have p: "filter cycle_event (snd (publishIgContainerWithRetry rs c)) = []" for rs c
    unfolding publishIgContainerWithRetry_def
    by (rule cycle_event_loop_events) (rule publish_loop_trace_events)
  from Inr v have ic: "image_container env params caption =
      (Inr (pid, cid), snd (image_container env params caption))"
    by (cases "image_container env params caption") simp
  show ?thesis
    unfolding handleImage_def
    by (subst ic)
       (auto simp: snd_bind_io fst_bind_io p call_def return_io_def
             split: sum.splits prod.splits)
qed

lemma handleImage_container_fails:
  "fst (image_container env params caption) = Inl e \<Longrightarrow>
     handleImage env params caption = (Inl e, snd (image_container env params caption))"
  unfolding handleImage_def by (rule bind_io_Inl)

text \<open>The cycle, step by step.\<close>

lemma convert_and_retry_download_fails:
  "downloadMedia env (mediaUrl params) = Inl e \<Longrightarrow>
     convert_and_retry env params caption = (Inl e, [CallDownload (mediaUrl params)])"
  by (simp add: convert_and_retry_def)

lemma convert_and_retry_convert_fails:
  "downloadMedia env (mediaUrl params) = Inr buf \<Longrightarrow> convertImage env buf = Inl e \<Longrightarrow>
     convert_and_retry env params caption = (Inl e, [CallDownload (mediaUrl params), CallConvertImage])"
  by (simp add: convert_and_retry_def)

lemma convert_and_retry_upload_fails:
  "downloadMedia env (mediaUrl params) = Inr buf \<Longrightarrow> convertImage env buf = Inr conv \<Longrightarrow>
   uploadFbPhotoFromBuffer env conv = Inl e \<Longrightarrow>
     convert_and_retry env params caption =
       (Inl e, [CallDownload (mediaUrl params), CallConvertImage, CallUploadPhotoBuffer])"
  by (simp add: convert_and_retry_def)

lemma convert_and_retry_images_fail:
  "downloadMedia env (mediaUrl params) = Inr buf \<Longrightarrow> convertImage env buf = Inr conv \<Longrightarrow>
   uploadFbPhotoFromBuffer env conv = Inr pid \<Longrightarrow> getFbPhotoImages env pid = Inl e \<Longrightarrow>
     convert_and_retry env params caption =
       (Inl e, [CallDownload (mediaUrl params), CallConvertImage, CallUploadPhotoBuffer,
                CallGetPhotoImages pid])"
  by (simp add: convert_and_retry_def)

lemma convert_and_retry_no_address:
  "downloadMedia env (mediaUrl params) = Inr buf \<Longrightarrow> convertImage env buf = Inr conv \<Longrightarrow>
   uploadFbPhotoFromBuffer env conv = Inr pid \<Longrightarrow>
   getFbPhotoImages env pid = Inr [] \<or> getFbPhotoImages env pid = Inr ([] # others) \<Longrightarrow>
     convert_and_retry env params caption =
       (Inl ''Could not retrieve CDN URL for converted image from Facebook'',
        [CallDownload (mediaUrl params), CallConvertImage, CallUploadPhotoBuffer,
         CallGetPhotoImages pid])"
  by (auto simp: convert_and_retry_def throw_io_def)

lemma sublist_joined:
  "sublist s a \<or> sublist s b \<Longrightarrow> sublist s (a @ c @ b)"
proof (erule disjE)
  assume "sublist s a"
  then obtain ps ss where "a = ps @ s @ ss" unfolding sublist_def by blast
  then have "a @ c @ b = ps @ s @ (ss @ c @ b)" by simp
  then show ?thesis unfolding sublist_def by blast
next
  assume "sublist s b"
  then obtain ps ss where "b = ps @ s @ ss" unfolding sublist_def by blast
  then have "a @ c @ b = (a @ c @ ps) @ s @ ss" by simp
  then show ?thesis unfolding sublist_def by blast
qed

lemma convert_and_retry_starts:
  "\<exists>rest. snd (convert_and_retry env params caption) = CallDownload (mediaUrl params) # rest"
  by (cases "downloadMedia env (mediaUrl params)") (simp_all add: convert_and_retry_def)

lemma convert_and_retry_converts:
  "downloadMedia env (mediaUrl params) = Inr buf \<Longrightarrow>
     \<exists>rest. snd (convert_and_retry env params caption) =
       CallDownload (mediaUrl params) # CallConvertImage # rest"
  by (cases "convertImage env buf") (simp_all add: convert_and_retry_def)

lemma cycle_events_prefix:
  assumes "prefix tr [CallDownload u, CallConvertImage, CallUploadPhotoBuffer,
       CallGetPhotoImages pid, CallCreateImageContainer cdn]"
  shows "filter cycle_event tr = tr"
proof -
  from assms have "set tr \<subseteq> set [CallDownload u, CallConvertImage, CallUploadPhotoBuffer,
       CallGetPhotoImages pid, CallCreateImageContainer cdn]"
    by (rule set_mono_prefix)
  then have "\<forall>e\<in>set tr. cycle_event e" by auto
  then show ?thesis by simp
qed

text \<open>
  The run of handleImage when the first attempt is rejected with the signature: the
  events of the cycle in it are those of \<open>convert_and_retry\<close>, whose failure is the run's.
\<close>

lemma handleImage_cycle:
  assumes "tryCreateIgImageContainer env (mediaUrl params) caption = Inr resp"
    and "success_id resp = None"
    and "isFormatError resp"
  shows "filter cycle_event (snd (handleImage env params caption)) =
           snd (convert_and_retry env params caption)"
    and "\<exists>rest. snd (handleImage env params caption) =
           CallTryCreateImage (mediaUrl params) # snd (convert_and_retry env params caption) @ rest \<and>
           filter cycle_event rest = []"
    and "convert_and_retry env params caption = (Inl e, tr) \<Longrightarrow>
           handleImage env params caption = (Inl e, CallTryCreateImage (mediaUrl params) # tr)"
    and "transcoder_runs (snd (handleImage env params caption)) =
           transcoder_runs (snd (convert_and_retry env params caption))"
proof -
  note ic = image_container_rejected(2) [OF assms]
  obtain rest where r: "snd (handleImage env params caption) =
      snd (image_container env params caption) @ rest" and c: "filter cycle_event rest = []"
    using handleImage_after_container [of env params caption] by blast
  obtain p k where "prefix (snd (convert_and_retry env params caption))
      [CallDownload (mediaUrl params), CallConvertImage, CallUploadPhotoBuffer,
       CallGetPhotoImages p, CallCreateImageContainer k]"
    using convert_and_retry_trace [of env params caption] by blast
  then have f: "filter cycle_event (snd (convert_and_retry env params caption)) =
      snd (convert_and_retry env params caption)"
    by (rule cycle_events_prefix)
  show "filter cycle_event (snd (handleImage env params caption)) =
           snd (convert_and_retry env params caption)"
    unfolding r ic using c f by simp
  show "\<exists>rest. snd (handleImage env params caption) =
           CallTryCreateImage (mediaUrl params) # snd (convert_and_retry env params caption) @ rest \<and>
           filter cycle_event rest = []"
    unfolding r ic using c by simp
  show "handleImage env params caption = (Inl e, CallTryCreateImage (mediaUrl params) # tr)"
    if "convert_and_retry env params caption = (Inl e, tr)"
    using handleImage_container_fails [of env params caption e] unfolding ic that by simp
  show "transcoder_runs (snd (handleImage env params caption)) =
           transcoder_runs (snd (convert_and_retry env params caption))"
    unfolding transcoder_runs_handleImage ic by (simp add: transcoder_runs_Cons)
qed

section \<open>The image flow: claim\<close>

text \<open>
  Claim C3, as amended. Let the first attempt to create the container return a response
  \<open>resp\<close> that is no success (no status from 200 to 299 with a non-empty id). The
  signature \<open>Only photo or video can be accepted\<close> is looked for in one text: the
  \<open>www-authenticate\<close> header \<open>hdr\<close>, a space, and the message \<open>msg\<close> of the body's error,
  joined (an absent header or message is the empty text); a signature in the header or
  in the message is a signature in that text. If the text has no signature, the run
  fails at once with \<open>Instagram container creation failed (HTTP status): \<close> and the
  message, or the body as JSON text when the message is empty, and the transcoder is
  never run. If the text has the signature, exactly one cycle runs: the run goes on
  with the download, and the steps of the cycle in its trace are, in this order and
  each once, download, convert, upload as an unpublished photo, read the hosted
  address, create the container from that address; they are all five when each step
  succeeds, the transcoder running once, and no step of the cycle comes after them.
  A step that fails ends the run with that step's error and nothing is tried after it;
  so does the second creation of the container.
\<close>

theorem image_fallback:
  "tryCreateIgImageContainer env u caption = Inr resp \<and> u = mediaUrl params \<and>
   \<not> (200 \<le> statusCode resp \<and> statusCode resp < 300 \<and> (\<exists>i. body_id resp = Some i \<and> i \<noteq> [])) \<and>
   hdr = (case www_authenticate resp of None \<Rightarrow> [] | Some h \<Rightarrow> h) \<and>
   msg = (case body_error resp of
            None \<Rightarrow> []
          | Some err \<Rightarrow> (case message err of None \<Rightarrow> [] | Some m \<Rightarrow> m)) \<and>
   run = handleImage env params caption \<longrightarrow>
     (sublist ''Only photo or video can be accepted'' hdr \<or>
      sublist ''Only photo or video can be accepted'' msg \<longrightarrow>
        sublist ''Only photo or video can be accepted'' (hdr @ '' '' @ msg)) \<and>
     (\<not> sublist ''Only photo or video can be accepted'' (hdr @ '' '' @ msg) \<longrightarrow>
        run = (Inl (''Instagram container creation failed (HTTP '' @ show_int (statusCode resp) @ ''): '' @
                    (if msg \<noteq> [] then msg else body_json resp)),
               [CallTryCreateImage u]) \<and>
        transcoder_runs (snd run) = 0) \<and>
     (sublist ''Only photo or video can be accepted'' (hdr @ '' '' @ msg) \<longrightarrow>
        (\<exists>rest. snd run = CallTryCreateImage u # CallDownload u # rest) \<and>
        (\<exists>p c. prefix (filter cycle_event (snd run))
           [CallDownload u, CallConvertImage, CallUploadPhotoBuffer, CallGetPhotoImages p,
            CallCreateImageContainer c]) \<and>
        transcoder_runs (snd run) \<le> 1 \<and>
        (downloadMedia env u = Inl e \<longrightarrow> run = (Inl e, [CallTryCreateImage u, CallDownload u])) \<and>
        (downloadMedia env u = Inr buf \<longrightarrow>
           transcoder_runs (snd run) = 1 \<and>
           (convertImage env buf = Inl e \<longrightarrow>
              run = (Inl e, [CallTryCreateImage u, CallDownload u, CallConvertImage])) \<and>
           (convertImage env buf = Inr conv \<longrightarrow>
              (uploadFbPhotoFromBuffer env conv = Inl e \<longrightarrow>
                 run = (Inl e, [CallTryCreateImage u, CallDownload u, CallConvertImage,
                                CallUploadPhotoBuffer])) \<and>
              (uploadFbPhotoFromBuffer env conv = Inr pid \<longrightarrow>
                 (getFbPhotoImages env pid = Inl e \<longrightarrow>
                    run = (Inl e, [CallTryCreateImage u, CallDownload u, CallConvertImage,
                                   CallUploadPhotoBuffer, CallGetPhotoImages pid])) \<and>
                 (getFbPhotoImages env pid = Inr [] \<or> getFbPhotoImages env pid = Inr ([] # others) \<longrightarrow>
                    run = (Inl ''Could not retrieve CDN URL for converted image from Facebook'',
                           [CallTryCreateImage u, CallDownload u, CallConvertImage,
                            CallUploadPhotoBuffer, CallGetPhotoImages pid])) \<and>
                 (getFbPhotoImages env pid = Inr (cdn # others) \<and> cdn \<noteq> [] \<longrightarrow>
                    filter cycle_event (snd run) =
                      [CallDownload u, CallConvertImage, CallUploadPhotoBuffer,
                       CallGetPhotoImages pid, CallCreateImageContainer cdn] \<and>
                    (\<exists>rest. snd run =
                       [CallTryCreateImage u, CallDownload u, CallConvertImage,
                        CallUploadPhotoBuffer, CallGetPhotoImages pid,
                        CallCreateImageContainer cdn] @ rest \<and>
                       filter cycle_event rest = []) \<and>
                    (createIgImageContainer env cdn caption = Inl e \<longrightarrow>
                       run = (Inl e, [CallTryCreateImage u, CallDownload u, CallConvertImage,
                                      CallUploadPhotoBuffer, CallGetPhotoImages pid,
                                      CallCreateImageContainer cdn])) \<and>
                    (createIgImageContainer env cdn caption = Inr cid \<longrightarrow>
                       image_container env params caption =
                         (Inr (Some pid, cid),
                          [CallTryCreateImage u, CallDownload u, CallConvertImage,
                           CallUploadPhotoBuffer, CallGetPhotoImages pid,
                           CallCreateImageContainer cdn])))))))"
proof (intro impI)
  assume h: "tryCreateIgImageContainer env u caption = Inr resp \<and> u = mediaUrl params \<and>
   \<not> (200 \<le> statusCode resp \<and> statusCode resp < 300 \<and> (\<exists>i. body_id resp = Some i \<and> i \<noteq> [])) \<and>
   hdr = (case www_authenticate resp of None \<Rightarrow> [] | Some h \<Rightarrow> h) \<and>
   msg = (case body_error resp of
            None \<Rightarrow> []
          | Some err \<Rightarrow> (case message err of None \<Rightarrow> [] | Some m \<Rightarrow> m)) \<and>
   run = handleImage env params caption"
  then have u: "u = mediaUrl params" and run: "run = handleImage env params caption"
    and h1: "tryCreateIgImageContainer env (mediaUrl params) caption = Inr resp"
    and hd: "hdr = (case www_authenticate resp of None \<Rightarrow> [] | Some h \<Rightarrow> h)"
    and ms: "msg = (case body_error resp of
            None \<Rightarrow> []
          | Some err \<Rightarrow> (case message err of None \<Rightarrow> [] | Some m \<Rightarrow> m))"
    by auto
  from h have h2: "success_id resp = None" unfolding success_id_None_iff by blast
  have f: "isFormatError resp = sublist ''Only photo or video can be accepted'' (hdr @ '' '' @ msg)"
    unfolding hd ms by (rule isFormatError_text)
  have cf: "creation_failed resp =
      ''Instagram container creation failed (HTTP '' @ show_int (statusCode resp) @ ''): '' @
      (if msg \<noteq> [] then msg else body_json resp)"
    unfolding ms by (rule creation_failed_text)
  note rej = image_container_rejected(1) [OF h1 h2]
  note cyc = handleImage_cycle [OF h1 h2]
  let ?cr = "convert_and_retry env params caption"
  have a: "sublist ''Only photo or video can be accepted'' hdr \<or>
      sublist ''Only photo or video can be accepted'' msg \<longrightarrow>
        sublist ''Only photo or video can be accepted'' (hdr @ '' '' @ msg)"
    using sublist_joined [of "''Only photo or video can be accepted''" hdr msg "'' ''"] by blast
  have b: "run = (Inl (''Instagram container creation failed (HTTP '' @ show_int (statusCode resp) @ ''): '' @
                    (if msg \<noteq> [] then msg else body_json resp)),
               [CallTryCreateImage u]) \<and>
        transcoder_runs (snd run) = 0"
    if n: "\<not> sublist ''Only photo or video can be accepted'' (hdr @ '' '' @ msg)"
  proof -
    from n f have "\<not> isFormatError resp" by simp
    from rej [OF this]
    have "handleImage env params caption =
          (Inl (creation_failed resp), [CallTryCreateImage (mediaUrl params)])"
      unfolding handleImage_def by (simp add: bind_io_def)
    then show ?thesis unfolding run u cf by (simp add: transcoder_runs_Cons)
  qed
  have c: "(\<exists>rest. snd run = CallTryCreateImage u # CallDownload u # rest) \<and>
        (\<exists>p c. prefix (filter cycle_event (snd run))
           [CallDownload u, CallConvertImage, CallUploadPhotoBuffer, CallGetPhotoImages p,
            CallCreateImageContainer c]) \<and>
        transcoder_runs (snd run) \<le> 1"
    if p: "sublist ''Only photo or video can be accepted'' (hdr @ '' '' @ msg)"
  proof -
    from p f have fe: "isFormatError resp" by simp
    obtain r1 where r1: "snd run = CallTryCreateImage u # snd ?cr @ r1"
      using cyc(2) [OF fe] unfolding run u by blast
    obtain r2 where r2: "snd ?cr = CallDownload u # r2"
      using convert_and_retry_starts [of env params caption] unfolding u by blast
    have c1: "\<exists>rest. snd run = CallTryCreateImage u # CallDownload u # rest"
      unfolding r1 r2 by simp
    obtain pid' cdn' where pr: "prefix (snd ?cr)
        [CallDownload u, CallConvertImage, CallUploadPhotoBuffer, CallGetPhotoImages pid',
         CallCreateImageContainer cdn']"
      using convert_and_retry_trace [of env params caption] unfolding u by blast
    then have c2: "\<exists>p c. prefix (filter cycle_event (snd run))
           [CallDownload u, CallConvertImage, CallUploadPhotoBuffer, CallGetPhotoImages p,
            CallCreateImageContainer c]"
      unfolding run cyc(1) [OF fe] by blast
    from pr have "transcoder_runs (snd ?cr) \<le> 1" by (rule transcoder_runs_prefix)
    then have c3: "transcoder_runs (snd run) \<le> 1" unfolding run cyc(4) [OF fe] .
    from c1 c2 c3 show ?thesis by blast
  qed
  have fail: "run = (Inl x, CallTryCreateImage u # tr)"
    if "sublist ''Only photo or video can be accepted'' (hdr @ '' '' @ msg)" and "?cr = (Inl x, tr)"
    for x tr
    using cyc(3) [of x tr] that f unfolding run u by simp
  have d1: "run = (Inl e, [CallTryCreateImage u, CallDownload u])"
    if "sublist ''Only photo or video can be accepted'' (hdr @ '' '' @ msg)"
      and "downloadMedia env u = Inl e"
    using fail [OF that(1)] convert_and_retry_download_fails [of env params e caption] that(2)
    unfolding u by simp
  have d2: "transcoder_runs (snd run) = 1"
    if p: "sublist ''Only photo or video can be accepted'' (hdr @ '' '' @ msg)"
      and dl: "downloadMedia env u = Inr buf"
  proof -
    from p f have fe: "isFormatError resp" by simp
    obtain rest where "snd ?cr = CallDownload (mediaUrl params) # CallConvertImage # rest"
      using convert_and_retry_converts [of env params buf caption] dl unfolding u by blast
    then have "1 \<le> transcoder_runs (snd run)"
      unfolding run cyc(4) [OF fe] by (simp add: transcoder_runs_Cons)
    with c [OF p] show ?thesis by simp
  qed
  have d3: "run = (Inl e, [CallTryCreateImage u, CallDownload u, CallConvertImage])"
    if "sublist ''Only photo or video can be accepted'' (hdr @ '' '' @ msg)"
      and "downloadMedia env u = Inr buf" and "convertImage env buf = Inl e"
    using fail [OF that(1)] convert_and_retry_convert_fails [of env params buf e caption] that(2,3)
    unfolding u by simp
  have d4: "run = (Inl e, [CallTryCreateImage u, CallDownload u, CallConvertImage,
                                CallUploadPhotoBuffer])"
    if "sublist ''Only photo or video can be accepted'' (hdr @ '' '' @ msg)"
      and "downloadMedia env u = Inr buf" and "convertImage env buf = Inr conv"
      and "uploadFbPhotoFromBuffer env conv = Inl e"
    using fail [OF that(1)] convert_and_retry_upload_fails [of env params buf conv e caption] that(2-)
    unfolding u by simp
  have d5: "run = (Inl e, [CallTryCreateImage u, CallDownload u, CallConvertImage,
                                   CallUploadPhotoBuffer, CallGetPhotoImages pid])"
    if "sublist ''Only photo or video can be accepted'' (hdr @ '' '' @ msg)"
      and "downloadMedia env u = Inr buf" and "convertImage env buf = Inr conv"
      and "uploadFbPhotoFromBuffer env conv = Inr pid" and "getFbPhotoImages env pid = Inl e"
    using fail [OF that(1)] convert_and_retry_images_fail [of env params buf conv pid e caption] that(2-)
    unfolding u by simp
  have d6: "run = (Inl ''Could not retrieve CDN URL for converted image from Facebook'',
                           [CallTryCreateImage u, CallDownload u, CallConvertImage,
                            CallUploadPhotoBuffer, CallGetPhotoImages pid])"
    if "sublist ''Only photo or video can be accepted'' (hdr @ '' '' @ msg)"
      and "downloadMedia env u = Inr buf" and "convertImage env buf = Inr conv"
      and "uploadFbPhotoFromBuffer env conv = Inr pid"
      and "getFbPhotoImages env pid = Inr [] \<or> getFbPhotoImages env pid = Inr ([] # others)"
    using fail [OF that(1)] convert_and_retry_no_address [of env params buf conv pid others caption]
      that(2-)
    unfolding u by simp
  have d7: "filter cycle_event (snd run) =
                      [CallDownload u, CallConvertImage, CallUploadPhotoBuffer,
                       CallGetPhotoImages pid, CallCreateImageContainer cdn] \<and>
                    (\<exists>rest. snd run =
                       [CallTryCreateImage u, CallDownload u, CallConvertImage,
                        CallUploadPhotoBuffer, CallGetPhotoImages pid,
                        CallCreateImageContainer cdn] @ rest \<and>
                       filter cycle_event rest = []) \<and>
                    (createIgImageContainer env cdn caption = Inl e \<longrightarrow>
                       run = (Inl e, [CallTryCreateImage u, CallDownload u, CallConvertImage,
                                      CallUploadPhotoBuffer, CallGetPhotoImages pid,
                                      CallCreateImageContainer cdn])) \<and>
                    (createIgImageContainer env cdn caption = Inr cid \<longrightarrow>
                       image_container env params caption =
                         (Inr (Some pid, cid),
                          [CallTryCreateImage u, CallDownload u, CallConvertImage,
                           CallUploadPhotoBuffer, CallGetPhotoImages pid,
                           CallCreateImageContainer cdn]))"
    if p: "sublist ''Only photo or video can be accepted'' (hdr @ '' '' @ msg)"
      and st: "downloadMedia env u = Inr buf" "convertImage env buf = Inr conv"
        "uploadFbPhotoFromBuffer env conv = Inr pid"
        "getFbPhotoImages env pid = Inr (cdn # others) \<and> cdn \<noteq> []"
  proof -
    from p f have fe: "isFormatError resp" by simp
    from st have cr: "?cr =
           (case createIgImageContainer env cdn caption of
              Inl e \<Rightarrow> Inl e
            | Inr cid \<Rightarrow> Inr (Some pid, cid),
            [CallDownload u, CallConvertImage, CallUploadPhotoBuffer,
             CallGetPhotoImages pid, CallCreateImageContainer cdn])"
      using convert_and_retry_steps [of env params buf conv pid cdn others caption]
      unfolding u by blast
    have e1: "filter cycle_event (snd run) =
                      [CallDownload u, CallConvertImage, CallUploadPhotoBuffer,
                       CallGetPhotoImages pid, CallCreateImageContainer cdn]"
      unfolding run cyc(1) [OF fe] cr by simp
    have e2: "\<exists>rest. snd run =
                       [CallTryCreateImage u, CallDownload u, CallConvertImage,
                        CallUploadPhotoBuffer, CallGetPhotoImages pid,
                        CallCreateImageContainer cdn] @ rest \<and>
                       filter cycle_event rest = []"
      using cyc(2) [OF fe] unfolding run cr u by simp
    have e3: "run = (Inl e, [CallTryCreateImage u, CallDownload u, CallConvertImage,
                                      CallUploadPhotoBuffer, CallGetPhotoImages pid,
                                      CallCreateImageContainer cdn])"
      if "createIgImageContainer env cdn caption = Inl e"
      using fail [OF p, of e] cr that by simp
    have e4: "image_container env params caption =
                         (Inr (Some pid, cid),
                          [CallTryCreateImage u, CallDownload u, CallConvertImage,
                           CallUploadPhotoBuffer, CallGetPhotoImages pid,
                           CallCreateImageContainer cdn])"
      if "createIgImageContainer env cdn caption = Inr cid"
      unfolding image_container_rejected(2) [OF h1 h2 fe] cr using that by (simp add: u)
    from e1 e2 e3 e4 show ?thesis by blast
  qed
  have l4: "(getFbPhotoImages env pid = Inl e \<longrightarrow>
                    run = (Inl e, [CallTryCreateImage u, CallDownload u, CallConvertImage,
                                   CallUploadPhotoBuffer, CallGetPhotoImages pid])) \<and>
                 (getFbPhotoImages env pid = Inr [] \<or> getFbPhotoImages env pid = Inr ([] # others) \<longrightarrow>
                    run = (Inl ''Could not retrieve CDN URL for converted image from Facebook'',
                           [CallTryCreateImage u, CallDownload u, CallConvertImage,
                            CallUploadPhotoBuffer, CallGetPhotoImages pid])) \<and>
                 (getFbPhotoImages env pid = Inr (cdn # others) \<and> cdn \<noteq> [] \<longrightarrow>
                    filter cycle_event (snd run) =
                      [CallDownload u, CallConvertImage, CallUploadPhotoBuffer,
                       CallGetPhotoImages pid, CallCreateImageContainer cdn] \<and>
                    (\<exists>rest. snd run =
                       [CallTryCreateImage u, CallDownload u, CallConvertImage,
                        CallUploadPhotoBuffer, CallGetPhotoImages pid,
                        CallCreateImageContainer cdn] @ rest \<and>
                       filter cycle_event rest = []) \<and>
                    (createIgImageContainer env cdn caption = Inl e \<longrightarrow>
                       run = (Inl e, [CallTryCreateImage u, CallDownload u, CallConvertImage,
                                      CallUploadPhotoBuffer, CallGetPhotoImages pid,
                                      CallCreateImageContainer cdn])) \<and>
                    (createIgImageContainer env cdn caption = Inr cid \<longrightarrow>
                       image_container env params caption =
                         (Inr (Some pid, cid),
                          [CallTryCreateImage u, CallDownload u, CallConvertImage,
                           CallUploadPhotoBuffer, CallGetPhotoImages pid,
                           CallCreateImageContainer cdn])))"
    if p: "sublist ''Only photo or video can be accepted'' (hdr @ '' '' @ msg)" and dl: "downloadMedia env u = Inr buf" and cv: "convertImage env buf = Inr conv"
      and up: "uploadFbPhotoFromBuffer env conv = Inr pid"
  proof (intro conjI)
    show "getFbPhotoImages env pid = Inl e \<longrightarrow>
                    run = (Inl e, [CallTryCreateImage u, CallDownload u, CallConvertImage,
                                   CallUploadPhotoBuffer, CallGetPhotoImages pid])"
      using d5 [OF p dl cv up] by (rule impI)
    show "getFbPhotoImages env pid = Inr [] \<or> getFbPhotoImages env pid = Inr ([] # others) \<longrightarrow>
                    run = (Inl ''Could not retrieve CDN URL for converted image from Facebook'',
                           [CallTryCreateImage u, CallDownload u, CallConvertImage,
                            CallUploadPhotoBuffer, CallGetPhotoImages pid])"
      using d6 [OF p dl cv up] by (rule impI)
    show "getFbPhotoImages env pid = Inr (cdn # others) \<and> cdn \<noteq> [] \<longrightarrow>
                    filter cycle_event (snd run) =
                      [CallDownload u, CallConvertImage, CallUploadPhotoBuffer,
                       CallGetPhotoImages pid, CallCreateImageContainer cdn] \<and>
                    (\<exists>rest. snd run =
                       [CallTryCreateImage u, CallDownload u, CallConvertImage,
                        CallUploadPhotoBuffer, CallGetPhotoImages pid,
                        CallCreateImageContainer cdn] @ rest \<and>
                       filter cycle_event rest = []) \<and>
                    (createIgImageContainer env cdn caption = Inl e \<longrightarrow>
                       run = (Inl e, [CallTryCreateImage u, CallDownload u, CallConvertImage,
                                      CallUploadPhotoBuffer, CallGetPhotoImages pid,
                                      CallCreateImageContainer cdn])) \<and>
                    (createIgImageContainer env cdn caption = Inr cid \<longrightarrow>
                       image_container env params caption =
                         (Inr (Some pid, cid),
                          [CallTryCreateImage u, CallDownload u, CallConvertImage,
                           CallUploadPhotoBuffer, CallGetPhotoImages pid,
                           CallCreateImageContainer cdn]))"
      using d7 [OF p dl cv up] by (rule impI)
  qed
  have l3: "(uploadFbPhotoFromBuffer env conv = Inl e \<longrightarrow>
                 run = (Inl e, [CallTryCreateImage u, CallDownload u, CallConvertImage,
                                CallUploadPhotoBuffer])) \<and>
              (uploadFbPhotoFromBuffer env conv = Inr pid \<longrightarrow>
                 (getFbPhotoImages env pid = Inl e \<longrightarrow>
                    run = (Inl e, [CallTryCreateImage u, CallDownload u, CallConvertImage,
                                   CallUploadPhotoBuffer, CallGetPhotoImages pid])) \<and>
                 (getFbPhotoImages env pid = Inr [] \<or> getFbPhotoImages env pid = Inr ([] # others) \<longrightarrow>
                    run = (Inl ''Could not retrieve CDN URL for converted image from Facebook'',
                           [CallTryCreateImage u, CallDownload u, CallConvertImage,
                            CallUploadPhotoBuffer, CallGetPhotoImages pid])) \<and>
                 (getFbPhotoImages env pid = Inr (cdn # others) \<and> cdn \<noteq> [] \<longrightarrow>
                    filter cycle_event (snd run) =
                      [CallDownload u, CallConvertImage, CallUploadPhotoBuffer,
                       CallGetPhotoImages pid, CallCreateImageContainer cdn] \<and>
                    (\<exists>rest. snd run =
                       [CallTryCreateImage u, CallDownload u, CallConvertImage,
                        CallUploadPhotoBuffer, CallGetPhotoImages pid,
                        CallCreateImageContainer cdn] @ rest \<and>
                       filter cycle_event rest = []) \<and>
                    (createIgImageContainer env cdn caption = Inl e \<longrightarrow>
                       run = (Inl e, [CallTryCreateImage u, CallDownload u, CallConvertImage,
                                      CallUploadPhotoBuffer, CallGetPhotoImages pid,
                                      CallCreateImageContainer cdn])) \<and>
                    (createIgImageContainer env cdn caption = Inr cid \<longrightarrow>
                       image_container env params caption =
                         (Inr (Some pid, cid),
                          [CallTryCreateImage u, CallDownload u, CallConvertImage,
                           CallUploadPhotoBuffer, CallGetPhotoImages pid,
                           CallCreateImageContainer cdn]))))"
    if p: "sublist ''Only photo or video can be accepted'' (hdr @ '' '' @ msg)" and dl: "downloadMedia env u = Inr buf" and cv: "convertImage env buf = Inr conv"
  proof (intro conjI)
    show "uploadFbPhotoFromBuffer env conv = Inl e \<longrightarrow>
                 run = (Inl e, [CallTryCreateImage u, CallDownload u, CallConvertImage,
                                CallUploadPhotoBuffer])"
      using d4 [OF p dl cv] by (rule impI)
    show "uploadFbPhotoFromBuffer env conv = Inr pid \<longrightarrow>
                 (getFbPhotoImages env pid = Inl e \<longrightarrow>
                    run = (Inl e, [CallTryCreateImage u, CallDownload u, CallConvertImage,
                                   CallUploadPhotoBuffer, CallGetPhotoImages pid])) \<and>
                 (getFbPhotoImages env pid = Inr [] \<or> getFbPhotoImages env pid = Inr ([] # others) \<longrightarrow>
                    run = (Inl ''Could not retrieve CDN URL for converted image from Facebook'',
                           [CallTryCreateImage u, CallDownload u, CallConvertImage,
                            CallUploadPhotoBuffer, CallGetPhotoImages pid])) \<and>
                 (getFbPhotoImages env pid = Inr (cdn # others) \<and> cdn \<noteq> [] \<longrightarrow>
                    filter cycle_event (snd run) =
                      [CallDownload u, CallConvertImage, CallUploadPhotoBuffer,
                       CallGetPhotoImages pid, CallCreateImageContainer cdn] \<and>
                    (\<exists>rest. snd run =
                       [CallTryCreateImage u, CallDownload u, CallConvertImage,
                        CallUploadPhotoBuffer, CallGetPhotoImages pid,
                        CallCreateImageContainer cdn] @ rest \<and>
                       filter cycle_event rest = []) \<and>
                    (createIgImageContainer env cdn caption = Inl e \<longrightarrow>
                       run = (Inl e, [CallTryCreateImage u, CallDownload u, CallConvertImage,
                                      CallUploadPhotoBuffer, CallGetPhotoImages pid,
                                      CallCreateImageContainer cdn])) \<and>
                    (createIgImageContainer env cdn caption = Inr cid \<longrightarrow>
                       image_container env params caption =
                         (Inr (Some pid, cid),
                          [CallTryCreateImage u, CallDownload u, CallConvertImage,
                           CallUploadPhotoBuffer, CallGetPhotoImages pid,
                           CallCreateImageContainer cdn])))"
      using l4 [OF p dl cv] by (rule impI)
  qed
  have l2: "transcoder_runs (snd run) = 1 \<and>
           (convertImage env buf = Inl e \<longrightarrow>
              run = (Inl e, [CallTryCreateImage u, CallDownload u, CallConvertImage])) \<and>
           (convertImage env buf = Inr conv \<longrightarrow>
              (uploadFbPhotoFromBuffer env conv = Inl e \<longrightarrow>
                 run = (Inl e, [CallTryCreateImage u, CallDownload u, CallConvertImage,
                                CallUploadPhotoBuffer])) \<and>
              (uploadFbPhotoFromBuffer env conv = Inr pid \<longrightarrow>
                 (getFbPhotoImages env pid = Inl e \<longrightarrow>
                    run = (Inl e, [CallTryCreateImage u, CallDownload u, CallConvertImage,
                                   CallUploadPhotoBuffer, CallGetPhotoImages pid])) \<and>
                 (getFbPhotoImages env pid = Inr [] \<or> getFbPhotoImages env pid = Inr ([] # others) \<longrightarrow>
                    run = (Inl ''Could not retrieve CDN URL for converted image from Facebook'',
                           [CallTryCreateImage u, CallDownload u, CallConvertImage,
                            CallUploadPhotoBuffer, CallGetPhotoImages pid])) \<and>
                 (getFbPhotoImages env pid = Inr (cdn # others) \<and> cdn \<noteq> [] \<longrightarrow>
                    filter cycle_event (snd run) =
                      [CallDownload u, CallConvertImage, CallUploadPhotoBuffer,
                       CallGetPhotoImages pid, CallCreateImageContainer cdn] \<and>
                    (\<exists>rest. snd run =
                       [CallTryCreateImage u, CallDownload u, CallConvertImage,
                        CallUploadPhotoBuffer, CallGetPhotoImages pid,
                        CallCreateImageContainer cdn] @ rest \<and>
                       filter cycle_event rest = []) \<and>
                    (createIgImageContainer env cdn caption = Inl e \<longrightarrow>
                       run = (Inl e, [CallTryCreateImage u, CallDownload u, CallConvertImage,
                                      CallUploadPhotoBuffer, CallGetPhotoImages pid,
                                      CallCreateImageContainer cdn])) \<and>
                    (createIgImageContainer env cdn caption = Inr cid \<longrightarrow>
                       image_container env params caption =
                         (Inr (Some pid, cid),
                          [CallTryCreateImage u, CallDownload u, CallConvertImage,
                           CallUploadPhotoBuffer, CallGetPhotoImages pid,
                           CallCreateImageContainer cdn])))))"
    if p: "sublist ''Only photo or video can be accepted'' (hdr @ '' '' @ msg)" and dl: "downloadMedia env u = Inr buf"
  proof (intro conjI)
    show "transcoder_runs (snd run) = 1" by (rule d2 [OF p dl])
    show "convertImage env buf = Inl e \<longrightarrow>
              run = (Inl e, [CallTryCreateImage u, CallDownload u, CallConvertImage])"
      using d3 [OF p dl] by (rule impI)
    show "convertImage env buf = Inr conv \<longrightarrow>
              (uploadFbPhotoFromBuffer env conv = Inl e \<longrightarrow>
                 run = (Inl e, [CallTryCreateImage u, CallDownload u, CallConvertImage,
                                CallUploadPhotoBuffer])) \<and>
              (uploadFbPhotoFromBuffer env conv = Inr pid \<longrightarrow>
                 (getFbPhotoImages env pid = Inl e \<longrightarrow>
                    run = (Inl e, [CallTryCreateImage u, CallDownload u, CallConvertImage,
                                   CallUploadPhotoBuffer, CallGetPhotoImages pid])) \<and>
                 (getFbPhotoImages env pid = Inr [] \<or> getFbPhotoImages env pid = Inr ([] # others) \<longrightarrow>
                    run = (Inl ''Could not retrieve CDN URL for converted image from Facebook'',
                           [CallTryCreateImage u, CallDownload u, CallConvertImage,
                            CallUploadPhotoBuffer, CallGetPhotoImages pid])) \<and>
                 (getFbPhotoImages env pid = Inr (cdn # others) \<and> cdn \<noteq> [] \<longrightarrow>
                    filter cycle_event (snd run) =
                      [CallDownload u, CallConvertImage, CallUploadPhotoBuffer,
                       CallGetPhotoImages pid, CallCreateImageContainer cdn] \<and>
                    (\<exists>rest. snd run =
                       [CallTryCreateImage u, CallDownload u, CallConvertImage,
                        CallUploadPhotoBuffer, CallGetPhotoImages pid,
                        CallCreateImageContainer cdn] @ rest \<and>
                       filter cycle_event rest = []) \<and>
                    (createIgImageContainer env cdn caption = Inl e \<longrightarrow>
                       run = (Inl e, [CallTryCreateImage u, CallDownload u, CallConvertImage,
                                      CallUploadPhotoBuffer, CallGetPhotoImages pid,
                                      CallCreateImageContainer cdn])) \<and>
                    (createIgImageContainer env cdn caption = Inr cid \<longrightarrow>
                       image_container env params caption =
                         (Inr (Some pid, cid),
                          [CallTryCreateImage u, CallDownload u, CallConvertImage,
                           CallUploadPhotoBuffer, CallGetPhotoImages pid,
                           CallCreateImageContainer cdn]))))"
      using l3 [OF p dl] by (rule impI)
  qed
  have l1: "(\<exists>rest. snd run = CallTryCreateImage u # CallDownload u # rest) \<and>
        (\<exists>p c. prefix (filter cycle_event (snd run))
           [CallDownload u, CallConvertImage, CallUploadPhotoBuffer, CallGetPhotoImages p,
            CallCreateImageContainer c]) \<and>
        transcoder_runs (snd run) \<le> 1 \<and>
        (downloadMedia env u = Inl e \<longrightarrow> run = (Inl e, [CallTryCreateImage u, CallDownload u])) \<and>
        (downloadMedia env u = Inr buf \<longrightarrow>
           transcoder_runs (snd run) = 1 \<and>
           (convertImage env buf = Inl e \<longrightarrow>
              run = (Inl e, [CallTryCreateImage u, CallDownload u, CallConvertImage])) \<and>
           (convertImage env buf = Inr conv \<longrightarrow>
              (uploadFbPhotoFromBuffer env conv = Inl e \<longrightarrow>
                 run = (Inl e, [CallTryCreateImage u, CallDownload u, CallConvertImage,
                                CallUploadPhotoBuffer])) \<and>
              (uploadFbPhotoFromBuffer env conv = Inr pid \<longrightarrow>
                 (getFbPhotoImages env pid = Inl e \<longrightarrow>
                    run = (Inl e, [CallTryCreateImage u, CallDownload u, CallConvertImage,
                                   CallUploadPhotoBuffer, CallGetPhotoImages pid])) \<and>
                 (getFbPhotoImages env pid = Inr [] \<or> getFbPhotoImages env pid = Inr ([] # others) \<longrightarrow>
                    run = (Inl ''Could not retrieve CDN URL for converted image from Facebook'',
                           [CallTryCreateImage u, CallDownload u, CallConvertImage,
                            CallUploadPhotoBuffer, CallGetPhotoImages pid])) \<and>
                 (getFbPhotoImages env pid = Inr (cdn # others) \<and> cdn \<noteq> [] \<longrightarrow>
                    filter cycle_event (snd run) =
                      [CallDownload u, CallConvertImage, CallUploadPhotoBuffer,
                       CallGetPhotoImages pid, CallCreateImageContainer cdn] \<and>
                    (\<exists>rest. snd run =
                       [CallTryCreateImage u, CallDownload u, CallConvertImage,
                        CallUploadPhotoBuffer, CallGetPhotoImages pid,
                        CallCreateImageContainer cdn] @ rest \<and>
                       filter cycle_event rest = []) \<and>
                    (createIgImageContainer env cdn caption = Inl e \<longrightarrow>
                       run = (Inl e, [CallTryCreateImage u, CallDownload u, CallConvertImage,
                                      CallUploadPhotoBuffer, CallGetPhotoImages pid,
                                      CallCreateImageContainer cdn])) \<and>
                    (createIgImageContainer env cdn caption = Inr cid \<longrightarrow>
                       image_container env params caption =
                         (Inr (Some pid, cid),
                          [CallTryCreateImage u, CallDownload u, CallConvertImage,
                           CallUploadPhotoBuffer, CallGetPhotoImages pid,
                           CallCreateImageContainer cdn]))))))"
    if p: "sublist ''Only photo or video can be accepted'' (hdr @ '' '' @ msg)"
  proof (intro conjI)
    from c [OF p] show "\<exists>rest. snd run = CallTryCreateImage u # CallDownload u # rest"
      by (rule conjunct1)
    from c [OF p] show "\<exists>p c. prefix (filter cycle_event (snd run))
           [CallDownload u, CallConvertImage, CallUploadPhotoBuffer, CallGetPhotoImages p,
            CallCreateImageContainer c]"
      by (rule conjunct1 [OF conjunct2])
    from c [OF p] show "transcoder_runs (snd run) \<le> 1"
      by (rule conjunct2 [OF conjunct2])
    show "downloadMedia env u = Inl e \<longrightarrow> run = (Inl e, [CallTryCreateImage u, CallDownload u])"
      using d1 [OF p] by (rule impI)
    show "downloadMedia env u = Inr buf \<longrightarrow>
           transcoder_runs (snd run) = 1 \<and>
           (convertImage env buf = Inl e \<longrightarrow>
              run = (Inl e, [CallTryCreateImage u, CallDownload u, CallConvertImage])) \<and>
           (convertImage env buf = Inr conv \<longrightarrow>
              (uploadFbPhotoFromBuffer env conv = Inl e \<longrightarrow>
                 run = (Inl e, [CallTryCreateImage u, CallDownload u, CallConvertImage,
                                CallUploadPhotoBuffer])) \<and>
              (uploadFbPhotoFromBuffer env conv = Inr pid \<longrightarrow>
                 (getFbPhotoImages env pid = Inl e \<longrightarrow>
                    run = (Inl e, [CallTryCreateImage u, CallDownload u, CallConvertImage,
                                   CallUploadPhotoBuffer, CallGetPhotoImages pid])) \<and>
                 (getFbPhotoImages env pid = Inr [] \<or> getFbPhotoImages env pid = Inr ([] # others) \<longrightarrow>
                    run = (Inl ''Could not retrieve CDN URL for converted image from Facebook'',
                           [CallTryCreateImage u, CallDownload u, CallConvertImage,
                            CallUploadPhotoBuffer, CallGetPhotoImages pid])) \<and>
                 (getFbPhotoImages env pid = Inr (cdn # others) \<and> cdn \<noteq> [] \<longrightarrow>
                    filter cycle_event (snd run) =
                      [CallDownload u, CallConvertImage, CallUploadPhotoBuffer,
                       CallGetPhotoImages pid, CallCreateImageContainer cdn] \<and>
                    (\<exists>rest. snd run =
                       [CallTryCreateImage u, CallDownload u, CallConvertImage,
                        CallUploadPhotoBuffer, CallGetPhotoImages pid,
                        CallCreateImageContainer cdn] @ rest \<and>
                       filter cycle_event rest = []) \<and>
                    (createIgImageContainer env cdn caption = Inl e \<longrightarrow>
                       run = (Inl e, [CallTryCreateImage u, CallDownload u, CallConvertImage,
                                      CallUploadPhotoBuffer, CallGetPhotoImages pid,
                                      CallCreateImageContainer cdn])) \<and>
                    (createIgImageContainer env cdn caption = Inr cid \<longrightarrow>
                       image_container env params caption =
                         (Inr (Some pid, cid),
                          [CallTryCreateImage u, CallDownload u, CallConvertImage,
                           CallUploadPhotoBuffer, CallGetPhotoImages pid,
                           CallCreateImageContainer cdn])))))"
      using l2 [OF p] by (rule impI)
  qed
  show "(sublist ''Only photo or video can be accepted'' hdr \<or>
      sublist ''Only photo or video can be accepted'' msg \<longrightarrow>
        sublist ''Only photo or video can be accepted'' (hdr @ '' '' @ msg)) \<and>
     (\<not> sublist ''Only photo or video can be accepted'' (hdr @ '' '' @ msg) \<longrightarrow>
        run = (Inl (''Instagram container creation failed (HTTP '' @ show_int (statusCode resp) @ ''): '' @
                    (if msg \<noteq> [] then msg else body_json resp)),
               [CallTryCreateImage u]) \<and>
        transcoder_runs (snd run) = 0) \<and>
     (sublist ''Only photo or video can be accepted'' (hdr @ '' '' @ msg) \<longrightarrow>
        (\<exists>rest. snd run = CallTryCreateImage u # CallDownload u # rest) \<and>
        (\<exists>p c. prefix (filter cycle_event (snd run))
           [CallDownload u, CallConvertImage, CallUploadPhotoBuffer, CallGetPhotoImages p,
            CallCreateImageContainer c]) \<and>
        transcoder_runs (snd run) \<le> 1 \<and>
        (downloadMedia env u = Inl e \<longrightarrow> run = (Inl e, [CallTryCreateImage u, CallDownload u])) \<and>
        (downloadMedia env u = Inr buf \<longrightarrow>
           transcoder_runs (snd run) = 1 \<and>
           (convertImage env buf = Inl e \<longrightarrow>
              run = (Inl e, [CallTryCreateImage u, CallDownload u, CallConvertImage])) \<and>
           (convertImage env buf = Inr conv \<longrightarrow>
              (uploadFbPhotoFromBuffer env conv = Inl e \<longrightarrow>
                 run = (Inl e, [CallTryCreateImage u, CallDownload u, CallConvertImage,
                                CallUploadPhotoBuffer])) \<and>
              (uploadFbPhotoFromBuffer env conv = Inr pid \<longrightarrow>
                 (getFbPhotoImages env pid = Inl e \<longrightarrow>
                    run = (Inl e, [CallTryCreateImage u, CallDownload u, CallConvertImage,
                                   CallUploadPhotoBuffer, CallGetPhotoImages pid])) \<and>
                 (getFbPhotoImages env pid = Inr [] \<or> getFbPhotoImages env pid = Inr ([] # others) \<longrightarrow>
                    run = (Inl ''Could not retrieve CDN URL for converted image from Facebook'',
                           [CallTryCreateImage u, CallDownload u, CallConvertImage,
                            CallUploadPhotoBuffer, CallGetPhotoImages pid])) \<and>
                 (getFbPhotoImages env pid = Inr (cdn # others) \<and> cdn \<noteq> [] \<longrightarrow>
                    filter cycle_event (snd run) =
                      [CallDownload u, CallConvertImage, CallUploadPhotoBuffer,
                       CallGetPhotoImages pid, CallCreateImageContainer cdn] \<and>
                    (\<exists>rest. snd run =
                       [CallTryCreateImage u, CallDownload u, CallConvertImage,
                        CallUploadPhotoBuffer, CallGetPhotoImages pid,
                        CallCreateImageContainer cdn] @ rest \<and>
                       filter cycle_event rest = []) \<and>
                    (createIgImageContainer env cdn caption = Inl e \<longrightarrow>
                       run = (Inl e, [CallTryCreateImage u, CallDownload u, CallConvertImage,
                                      CallUploadPhotoBuffer, CallGetPhotoImages pid,
                                      CallCreateImageContainer cdn])) \<and>
                    (createIgImageContainer env cdn caption = Inr cid \<longrightarrow>
                       image_container env params caption =
                         (Inr (Some pid, cid),
                          [CallTryCreateImage u, CallDownload u, CallConvertImage,
                           CallUploadPhotoBuffer, CallGetPhotoImages pid,
                           CallCreateImageContainer cdn])))))))"
  proof (intro conjI)
    show "sublist ''Only photo or video can be accepted'' hdr \<or>
      sublist ''Only photo or video can be accepted'' msg \<longrightarrow>
        sublist ''Only photo or video can be accepted'' (hdr @ '' '' @ msg)"
      by (rule a)
    show "\<not> sublist ''Only photo or video can be accepted'' (hdr @ '' '' @ msg) \<longrightarrow>
        run = (Inl (''Instagram container creation failed (HTTP '' @ show_int (statusCode resp) @ ''): '' @
                    (if msg \<noteq> [] then msg else body_json resp)),
               [CallTryCreateImage u]) \<and>
        transcoder_runs (snd run) = 0"
      using b by (rule impI)
    show "sublist ''Only photo or video can be accepted'' (hdr @ '' '' @ msg) \<longrightarrow>
        (\<exists>rest. snd run = CallTryCreateImage u # CallDownload u # rest) \<and>
        (\<exists>p c. prefix (filter cycle_event (snd run))
           [CallDownload u, CallConvertImage, CallUploadPhotoBuffer, CallGetPhotoImages p,
            CallCreateImageContainer c]) \<and>
        transcoder_runs (snd run) \<le> 1 \<and>
        (downloadMedia env u = Inl e \<longrightarrow> run = (Inl e, [CallTryCreateImage u, CallDownload u])) \<and>
        (downloadMedia env u = Inr buf \<longrightarrow>
           transcoder_runs (snd run) = 1 \<and>
           (convertImage env buf = Inl e \<longrightarrow>
              run = (Inl e, [CallTryCreateImage u, CallDownload u, CallConvertImage])) \<and>
           (convertImage env buf = Inr conv \<longrightarrow>
              (uploadFbPhotoFromBuffer env conv = Inl e \<longrightarrow>
                 run = (Inl e, [CallTryCreateImage u, CallDownload u, CallConvertImage,
                                CallUploadPhotoBuffer])) \<and>
              (uploadFbPhotoFromBuffer env conv = Inr pid \<longrightarrow>
                 (getFbPhotoImages env pid = Inl e \<longrightarrow>
                    run = (Inl e, [CallTryCreateImage u, CallDownload u, CallConvertImage,
                                   CallUploadPhotoBuffer, CallGetPhotoImages pid])) \<and>
                 (getFbPhotoImages env pid = Inr [] \<or> getFbPhotoImages env pid = Inr ([] # others) \<longrightarrow>
                    run = (Inl ''Could not retrieve CDN URL for converted image from Facebook'',
                           [CallTryCreateImage u, CallDownload u, CallConvertImage,
                            CallUploadPhotoBuffer, CallGetPhotoImages pid])) \<and>
                 (getFbPhotoImages env pid = Inr (cdn # others) \<and> cdn \<noteq> [] \<longrightarrow>
                    filter cycle_event (snd run) =
                      [CallDownload u, CallConvertImage, CallUploadPhotoBuffer,
                       CallGetPhotoImages pid, CallCreateImageContainer cdn] \<and>
                    (\<exists>rest. snd run =
                       [CallTryCreateImage u, CallDownload u, CallConvertImage,
                        CallUploadPhotoBuffer, CallGetPhotoImages pid,
                        CallCreateImageContainer cdn] @ rest \<and>
                       filter cycle_event rest = []) \<and>
                    (createIgImageContainer env cdn caption = Inl e \<longrightarrow>
                       run = (Inl e, [CallTryCreateImage u, CallDownload u, CallConvertImage,
                                      CallUploadPhotoBuffer, CallGetPhotoImages pid,
                                      CallCreateImageContainer cdn])) \<and>
                    (createIgImageContainer env cdn caption = Inr cid \<longrightarrow>
                       image_container env params caption =
                         (Inr (Some pid, cid),
                          [CallTryCreateImage u, CallDownload u, CallConvertImage,
                           CallUploadPhotoBuffer, CallGetPhotoImages pid,
                           CallCreateImageContainer cdn]))))))"
      using l1 by (rule impI)
  qed
qed

theorem image_fallback_witness:
  "handleImage (quiet_env\<lparr>tryCreateIgImageContainer := (\<lambda>u c. Inr other_rejection)\<rparr>)
     sample_params ''hi'' =
     (Inl ''Instagram container creation failed (HTTP 403): Permission denied'',
      [CallTryCreateImage ''https://x/a.webp'']) \<and>
   transcoder_runs (snd (handleImage
     (quiet_env\<lparr>tryCreateIgImageContainer := (\<lambda>u c. Inr other_rejection)\<rparr>)
     sample_params ''hi'')) = 0 \<and>
   handleImage (quiet_env\<lparr>tryCreateIgImageContainer := (\<lambda>u c. Inr (plain_response 400 None))\<rparr>)
     sample_params ''hi'' =
     (Inl ''Instagram container creation failed (HTTP 400): {}'', [CallTryCreateImage ''https://x/a.webp'']) \<and>
   \<not> sublist ''Only photo or video can be accepted'' (''Only photo or video'' @ '' '' @ ''cannot be accepted'') \<and>
   handleImage (quiet_env\<lparr>tryCreateIgImageContainer := (\<lambda>u c. Inr near_miss_response)\<rparr>)
     sample_params ''hi'' =
     (Inl ''Instagram container creation failed (HTTP 400): cannot be accepted'',
      [CallTryCreateImage ''https://x/a.webp'']) \<and>
   sublist ''Only photo or video can be accepted''
     ([] @ '' '' @ ''Only photo or video can be accepted as media type.'') \<and>
   transcoder_runs (snd (handleImage
     (quiet_env\<lparr>tryCreateIgImageContainer := (\<lambda>u c. Inr format_rejection)\<rparr>) sample_params ''hi'')) = 1 \<and>
   filter cycle_event (snd (handleImage
     (quiet_env\<lparr>tryCreateIgImageContainer := (\<lambda>u c. Inr format_rejection)\<rparr>) sample_params ''hi'')) =
     [CallDownload ''https://x/a.webp'', CallConvertImage, CallUploadPhotoBuffer,
      CallGetPhotoImages ''p1'', CallCreateImageContainer ''https://cdn/x.jpg''] \<and>
   image_container (quiet_env\<lparr>tryCreateIgImageContainer := (\<lambda>u c. Inr format_rejection)\<rparr>)
     sample_params ''hi'' =
     (Inr (Some ''p1'', ''c2''),
      [CallTryCreateImage ''https://x/a.webp'', CallDownload ''https://x/a.webp'', CallConvertImage,
       CallUploadPhotoBuffer, CallGetPhotoImages ''p1'', CallCreateImageContainer ''https://cdn/x.jpg'']) \<and>
   sublist ''Only photo or video can be accepted''
     (''OAuth error: Only photo or video can be accepted as media type'' @ '' '' @ []) \<and>
   filter cycle_event (snd (handleImage
     (quiet_env\<lparr>tryCreateIgImageContainer := (\<lambda>u c. Inr header_rejection)\<rparr>) sample_params ''hi'')) =
     [CallDownload ''https://x/a.webp'', CallConvertImage, CallUploadPhotoBuffer,
      CallGetPhotoImages ''p1'', CallCreateImageContainer ''https://cdn/x.jpg''] \<and>
   handleImage (quiet_env\<lparr>tryCreateIgImageContainer := (\<lambda>u c. Inr format_rejection),
                           createIgImageContainer := (\<lambda>u c. Inl ''second failure'')\<rparr>)
     sample_params ''hi'' =
     (Inl ''second failure'',
      [CallTryCreateImage ''https://x/a.webp'', CallDownload ''https://x/a.webp'', CallConvertImage,
       CallUploadPhotoBuffer, CallGetPhotoImages ''p1'', CallCreateImageContainer ''https://cdn/x.jpg'']) \<and>
   handleImage (quiet_env\<lparr>tryCreateIgImageContainer := (\<lambda>u c. Inr format_rejection),
                           downloadMedia := (\<lambda>u. Inl ''fetch failed'')\<rparr>)
     sample_params ''hi'' =
     (Inl ''fetch failed'', [CallTryCreateImage ''https://x/a.webp'', CallDownload ''https://x/a.webp''])"
proof -
  let ?other = "quiet_env\<lparr>tryCreateIgImageContainer := (\<lambda>u c. Inr other_rejection)\<rparr>"
  let ?plain = "quiet_env\<lparr>tryCreateIgImageContainer := (\<lambda>u c. Inr (plain_response 400 None))\<rparr>"
  let ?near = "quiet_env\<lparr>tryCreateIgImageContainer := (\<lambda>u c. Inr near_miss_response)\<rparr>"
  let ?fmt = "quiet_env\<lparr>tryCreateIgImageContainer := (\<lambda>u c. Inr format_rejection)\<rparr>"
  let ?hdr = "quiet_env\<lparr>tryCreateIgImageContainer := (\<lambda>u c. Inr header_rejection)\<rparr>"
  let ?twice = "quiet_env\<lparr>tryCreateIgImageContainer := (\<lambda>u c. Inr format_rejection),
                           createIgImageContainer := (\<lambda>u c. Inl ''second failure'')\<rparr>"
  let ?nodl = "quiet_env\<lparr>tryCreateIgImageContainer := (\<lambda>u c. Inr format_rejection),
                           downloadMedia := (\<lambda>u. Inl ''fetch failed'')\<rparr>"
  let ?u = "''https://x/a.webp''"
  let ?sig = "''Only photo or video can be accepted''"
  let ?m = "''Only photo or video can be accepted as media type.''"
  let ?h = "''OAuth error: Only photo or video can be accepted as media type''"
  have h1: "tryCreateIgImageContainer ?other ?u ''hi'' = Inr other_rejection \<and> ?u = mediaUrl sample_params \<and>
      \<not> (200 \<le> statusCode other_rejection \<and> statusCode other_rejection < 300 \<and>
         (\<exists>i. body_id other_rejection = Some i \<and> i \<noteq> [])) \<and>
      ''OAuth error'' = (case www_authenticate other_rejection of None \<Rightarrow> [] | Some h \<Rightarrow> h) \<and>
      ''Permission denied'' =
        (case body_error other_rejection of
           None \<Rightarrow> []
         | Some err \<Rightarrow> (case message err of None \<Rightarrow> [] | Some m \<Rightarrow> m)) \<and>
      handleImage ?other sample_params ''hi'' = handleImage ?other sample_params ''hi''"
    by (simp add: other_rejection_def sample_params_def)
  have h2: "tryCreateIgImageContainer ?plain ?u ''hi'' = Inr (plain_response 400 None) \<and>
      ?u = mediaUrl sample_params \<and>
      \<not> (200 \<le> statusCode (plain_response 400 None) \<and> statusCode (plain_response 400 None) < 300 \<and>
         (\<exists>i. body_id (plain_response 400 None) = Some i \<and> i \<noteq> [])) \<and>
      [] = (case www_authenticate (plain_response 400 None) of None \<Rightarrow> [] | Some h \<Rightarrow> h) \<and>
      [] =
        (case body_error (plain_response 400 None) of
           None \<Rightarrow> []
         | Some err \<Rightarrow> (case message err of None \<Rightarrow> [] | Some m \<Rightarrow> m)) \<and>
      handleImage ?plain sample_params ''hi'' = handleImage ?plain sample_params ''hi''"
    by (simp add: plain_response_def sample_params_def)
  have h3: "tryCreateIgImageContainer env ?u ''hi'' = Inr format_rejection \<and> ?u = mediaUrl sample_params \<and>
      \<not> (200 \<le> statusCode format_rejection \<and> statusCode format_rejection < 300 \<and>
         (\<exists>i. body_id format_rejection = Some i \<and> i \<noteq> [])) \<and>
      [] = (case www_authenticate format_rejection of None \<Rightarrow> [] | Some h \<Rightarrow> h) \<and>
      ?m =
        (case body_error format_rejection of
           None \<Rightarrow> []
         | Some err \<Rightarrow> (case message err of None \<Rightarrow> [] | Some m \<Rightarrow> m)) \<and>
      handleImage env sample_params ''hi'' = handleImage env sample_params ''hi''"
    if "tryCreateIgImageContainer env ?u ''hi'' = Inr format_rejection" for env
    using that by (simp add: format_rejection_def sample_params_def)
  have h4: "tryCreateIgImageContainer ?hdr ?u ''hi'' = Inr header_rejection \<and> ?u = mediaUrl sample_params \<and>
      \<not> (200 \<le> statusCode header_rejection \<and> statusCode header_rejection < 300 \<and>
         (\<exists>i. body_id header_rejection = Some i \<and> i \<noteq> [])) \<and>
      ?h = (case www_authenticate header_rejection of None \<Rightarrow> [] | Some h \<Rightarrow> h) \<and>
      [] =
        (case body_error header_rejection of
           None \<Rightarrow> []
         | Some err \<Rightarrow> (case message err of None \<Rightarrow> [] | Some m \<Rightarrow> m)) \<and>
      handleImage ?hdr sample_params ''hi'' = handleImage ?hdr sample_params ''hi''"
    by (simp add: header_rejection_def sample_params_def)
  have h7: "tryCreateIgImageContainer ?near ?u ''hi'' = Inr near_miss_response \<and>
      ?u = mediaUrl sample_params \<and>
      \<not> (200 \<le> statusCode near_miss_response \<and> statusCode near_miss_response < 300 \<and>
         (\<exists>i. body_id near_miss_response = Some i \<and> i \<noteq> [])) \<and>
      ''Only photo or video'' = (case www_authenticate near_miss_response of None \<Rightarrow> [] | Some h \<Rightarrow> h) \<and>
      ''cannot be accepted'' =
        (case body_error near_miss_response of
           None \<Rightarrow> []
         | Some err \<Rightarrow> (case message err of None \<Rightarrow> [] | Some m \<Rightarrow> m)) \<and>
      handleImage ?near sample_params ''hi'' = handleImage ?near sample_params ''hi''"
    by (simp add: near_miss_response_def sample_params_def)
  have n7: "\<not> sublist ?sig (''Only photo or video'' @ '' '' @ ''cannot be accepted'')"
    by (simp add: sublist_code(3) prefix_code)
  have n1: "\<not> sublist ?sig (''OAuth error'' @ '' '' @ ''Permission denied'')"
    by (simp add: sublist_code(3) prefix_code)
  have n2: "\<not> sublist ?sig ([] @ '' '' @ [])"
    by (simp add: sublist_code(3) prefix_code)
  have p3: "sublist ?sig ([] @ '' '' @ ?m)"
    by (simp add: sublist_code(3) prefix_code)
  have p4: "sublist ?sig (?h @ '' '' @ [])"
    by (simp add: sublist_code(3) prefix_code)
  note t1 = image_fallback [where env = ?other and params = sample_params and caption = "''hi''"
      and u = ?u and resp = other_rejection and hdr = "''OAuth error''" and msg = "''Permission denied''"
      and run = "handleImage ?other sample_params ''hi''", THEN mp, OF h1]
  note t2 = image_fallback [where env = ?plain and params = sample_params and caption = "''hi''"
      and u = ?u and resp = "plain_response 400 None" and hdr = "[]" and msg = "[]"
      and run = "handleImage ?plain sample_params ''hi''", THEN mp, OF h2]
  note t3 = image_fallback [where env = ?fmt and params = sample_params and caption = "''hi''"
      and u = ?u and resp = format_rejection and hdr = "[]" and msg = ?m
      and run = "handleImage ?fmt sample_params ''hi''"
      and buf = "[1, 2, 3]" and conv = "[4, 5]" and pid = "''p1''"
      and cdn = "''https://cdn/x.jpg''" and others = "[]" and cid = "''c2''", THEN mp, OF h3]
  note t4 = image_fallback [where env = ?hdr and params = sample_params and caption = "''hi''"
      and u = ?u and resp = header_rejection and hdr = ?h and msg = "[]"
      and run = "handleImage ?hdr sample_params ''hi''"
      and buf = "[1, 2, 3]" and conv = "[4, 5]" and pid = "''p1''"
      and cdn = "''https://cdn/x.jpg''" and others = "[]" and cid = "''c2''", THEN mp, OF h4]
  note t5 = image_fallback [where env = ?twice and params = sample_params and caption = "''hi''"
      and u = ?u and resp = format_rejection and hdr = "[]" and msg = ?m
      and run = "handleImage ?twice sample_params ''hi''"
      and buf = "[1, 2, 3]" and conv = "[4, 5]" and pid = "''p1''"
      and cdn = "''https://cdn/x.jpg''" and others = "[]" and e = "''second failure''", THEN mp, OF h3]
  note t6 = image_fallback [where env = ?nodl and params = sample_params and caption = "''hi''"
      and u = ?u and resp = format_rejection and hdr = "[]" and msg = ?m
      and run = "handleImage ?nodl sample_params ''hi''"
      and e = "''fetch failed''", THEN mp, OF h3]
  note t7 = image_fallback [where env = ?near and params = sample_params and caption = "''hi''"
      and u = ?u and resp = near_miss_response and hdr = "''Only photo or video''"
      and msg = "''cannot be accepted''"
      and run = "handleImage ?near sample_params ''hi''", THEN mp, OF h7]
  note a7 = t7 [THEN conjunct2, THEN conjunct1, THEN mp, OF n7]
  note a1 = t1 [THEN conjunct2, THEN conjunct1, THEN mp, OF n1]
  note a2 = t2 [THEN conjunct2, THEN conjunct1, THEN mp, OF n2]
  have s3: "downloadMedia ?fmt ?u = Inr [1, 2, 3]" "convertImage ?fmt [1, 2, 3] = Inr [4, 5]"
    "uploadFbPhotoFromBuffer ?fmt [4, 5] = Inr ''p1''"
    "getFbPhotoImages ?fmt ''p1'' = Inr (''https://cdn/x.jpg'' # []) \<and> ''https://cdn/x.jpg'' \<noteq> []"
    "createIgImageContainer ?fmt ''https://cdn/x.jpg'' ''hi'' = Inr ''c2''"
    by (simp_all add: quiet_env_def)
  have s4: "downloadMedia ?hdr ?u = Inr [1, 2, 3]" "convertImage ?hdr [1, 2, 3] = Inr [4, 5]"
    "uploadFbPhotoFromBuffer ?hdr [4, 5] = Inr ''p1''"
    "getFbPhotoImages ?hdr ''p1'' = Inr (''https://cdn/x.jpg'' # []) \<and> ''https://cdn/x.jpg'' \<noteq> []"
    by (simp_all add: quiet_env_def)
  have s5: "downloadMedia ?twice ?u = Inr [1, 2, 3]" "convertImage ?twice [1, 2, 3] = Inr [4, 5]"
    "uploadFbPhotoFromBuffer ?twice [4, 5] = Inr ''p1''"
    "getFbPhotoImages ?twice ''p1'' = Inr (''https://cdn/x.jpg'' # []) \<and> ''https://cdn/x.jpg'' \<noteq> []"
    "createIgImageContainer ?twice ''https://cdn/x.jpg'' ''hi'' = Inl ''second failure''"
    by (simp_all add: quiet_env_def)
  have s6: "downloadMedia ?nodl ?u = Inl ''fetch failed''" by simp
  have try3: "tryCreateIgImageContainer ?fmt ?u ''hi'' = Inr format_rejection"
    "tryCreateIgImageContainer ?twice ?u ''hi'' = Inr format_rejection"
    "tryCreateIgImageContainer ?nodl ?u ''hi'' = Inr format_rejection"
    by simp_all
  note c3 = t3 [OF try3(1), THEN conjunct2, THEN conjunct2, THEN mp, OF p3]
  note c4 = t4 [THEN conjunct2, THEN conjunct2, THEN mp, OF p4]
  note c5 = t5 [OF try3(2), THEN conjunct2, THEN conjunct2, THEN mp, OF p3]
  note c6 = t6 [OF try3(3), THEN conjunct2, THEN conjunct2, THEN mp, OF p3]
  note l3 = c3 [THEN conjunct2, THEN conjunct2, THEN conjunct2, THEN conjunct2, THEN mp, OF s3(1)]
  note l4 = c4 [THEN conjunct2, THEN conjunct2, THEN conjunct2, THEN conjunct2, THEN mp, OF s4(1)]
  note l5 = c5 [THEN conjunct2, THEN conjunct2, THEN conjunct2, THEN conjunct2, THEN mp, OF s5(1)]
  note b6 = c6 [THEN conjunct2, THEN conjunct2, THEN conjunct2, THEN conjunct1, THEN mp, OF s6]
  note b3 = l3 [THEN conjunct1]
  note d3 = l3 [THEN conjunct2, THEN conjunct2, THEN mp, OF s3(2), THEN conjunct2, THEN mp, OF s3(3),
      THEN conjunct2, THEN conjunct2, THEN mp, OF s3(4)]
  note d4 = l4 [THEN conjunct2, THEN conjunct2, THEN mp, OF s4(2), THEN conjunct2, THEN mp, OF s4(3),
      THEN conjunct2, THEN conjunct2, THEN mp, OF s4(4)]
  note d5 = l5 [THEN conjunct2, THEN conjunct2, THEN mp, OF s5(2), THEN conjunct2, THEN mp, OF s5(3),
      THEN conjunct2, THEN conjunct2, THEN mp, OF s5(4)]
  note e3 = d3 [THEN conjunct1]
  note i3 = d3 [THEN conjunct2, THEN conjunct2, THEN conjunct2, THEN mp, OF s3(5)]
  note e4 = d4 [THEN conjunct1]
  note r5 = d5 [THEN conjunct2, THEN conjunct2, THEN conjunct1, THEN mp, OF s5(5)]
  have x1: "''Instagram container creation failed (HTTP '' @ show_int (statusCode other_rejection) @ ''): '' @
      (if ''Permission denied'' \<noteq> [] then ''Permission denied'' else body_json other_rejection) =
      ''Instagram container creation failed (HTTP 403): Permission denied''"
    by (simp add: other_rejection_def show_int_def digit_char_def)
  have x2: "''Instagram container creation failed (HTTP '' @ show_int (statusCode (plain_response 400 None)) @
      ''): '' @ (if [] \<noteq> ([] :: string) then [] else body_json (plain_response 400 None)) =
      ''Instagram container creation failed (HTTP 400): {}''"
    by (simp add: plain_response_def show_int_def digit_char_def)
  have x7: "''Instagram container creation failed (HTTP '' @ show_int (statusCode near_miss_response) @
      ''): '' @
      (if ''cannot be accepted'' \<noteq> [] then ''cannot be accepted'' else body_json near_miss_response) =
      ''Instagram container creation failed (HTTP 400): cannot be accepted''"
    by (simp add: near_miss_response_def show_int_def digit_char_def)
  note w7 = a7 [THEN conjunct1, unfolded x7]
  note w1 = a1 [THEN conjunct1, unfolded x1]
  note w2 = a1 [THEN conjunct2]
  note w3 = a2 [THEN conjunct1, unfolded x2]
  from w1 w2 w3 n7 w7 p3 b3 e3 i3 p4 e4 r5 b6 show ?thesis by (intro conjI)
qed

text \<open>
  Claim C3 as it stands fails for a response with the signature in neither place but
  across the two: the header ends with \<open>Only photo or video\<close> and the message is
  \<open>can be accepted\<close>. The joined text has the signature, so the image is converted and
  the publish goes on.
\<close>

theorem image_fallback_counterexample:
  "tryCreateIgImageContainer (quiet_env\<lparr>tryCreateIgImageContainer := (\<lambda>u c. Inr straddling_response)\<rparr>)
     (mediaUrl sample_params) ''hi'' = Inr straddling_response \<and>
   statusCode straddling_response = 400 \<and>
   www_authenticate straddling_response = Some ''Only photo or video'' \<and>
   \<not> sublist ''Only photo or video can be accepted'' ''Only photo or video'' \<and>
   map_option message (body_error straddling_response) = Some (Some ''can be accepted'') \<and>
   \<not> sublist ''Only photo or video can be accepted'' ''can be accepted'' \<and>
   transcoder_runs (snd (handleImage
     (quiet_env\<lparr>tryCreateIgImageContainer := (\<lambda>u c. Inr straddling_response)\<rparr>) sample_params ''hi'')) = 1 \<and>
   handleImage (quiet_env\<lparr>tryCreateIgImageContainer := (\<lambda>u c. Inr straddling_response)\<rparr>)
     sample_params ''hi'' =
     (Inr \<lparr>instagram_post_id = ''ig1'', instagram_permalink = ''https://ig/p/1'',
           facebook_post_id = ''fb1'', facebook_photo_id = Some ''p1'', facebook_video_id = None\<rparr>,
      [CallTryCreateImage ''https://x/a.webp'', CallDownload ''https://x/a.webp'', CallConvertImage,
       CallUploadPhotoBuffer, CallGetPhotoImages ''p1'', CallCreateImageContainer ''https://cdn/x.jpg'',
       CallPublish ''c2'', CallCreateFeedPost ''p1'', CallGetPermalink ''ig1''])"
proof -
  let ?env = "quiet_env\<lparr>tryCreateIgImageContainer := (\<lambda>u c. Inr straddling_response)\<rparr>"
  have ic: "image_container ?env sample_params ''hi'' =
     (Inr (Some ''p1'', ''c2''),
      [CallTryCreateImage ''https://x/a.webp'', CallDownload ''https://x/a.webp'', CallConvertImage,
       CallUploadPhotoBuffer, CallGetPhotoImages ''p1'', CallCreateImageContainer ''https://cdn/x.jpg''])"
    using isFormatError_straddling
    by (simp add: image_container_def convert_and_retry_def quiet_env_def sample_params_def
        success_id_def straddling_response_def return_io_def)
  have pb: "publishIgContainerWithRetry (\<lambda>n. Inr (plain_response 200 (Some ''ig1''))) ''c2'' =
      (Inr ''ig1'', [CallPublish ''c2''])"
    unfolding publishIgContainerWithRetry_def
    by (subst publish_loop.simps) (simp add: plain_response_def success_id_def)
  have hi: "handleImage ?env sample_params ''hi'' =
     (Inr \<lparr>instagram_post_id = ''ig1'', instagram_permalink = ''https://ig/p/1'',
           facebook_post_id = ''fb1'', facebook_photo_id = Some ''p1'', facebook_video_id = None\<rparr>,
      [CallTryCreateImage ''https://x/a.webp'', CallDownload ''https://x/a.webp'', CallConvertImage,
       CallUploadPhotoBuffer, CallGetPhotoImages ''p1'', CallCreateImageContainer ''https://cdn/x.jpg'',
       CallPublish ''c2'', CallCreateFeedPost ''p1'', CallGetPermalink ''ig1''])"
    unfolding handleImage_def ic
    by (simp add: bind_io_def pb str_or_def call_def return_io_def quiet_env_def)
  have tr: "transcoder_runs (snd (handleImage ?env sample_params ''hi'')) = 1"
    unfolding hi by (simp add: transcoder_runs_def)
  have r: "statusCode straddling_response = 400"
    "www_authenticate straddling_response = Some ''Only photo or video''"
    "map_option message (body_error straddling_response) = Some (Some ''can be accepted'')"
    by (simp_all add: straddling_response_def)
  have n: "\<not> sublist ''Only photo or video can be accepted'' ''Only photo or video''"
    "\<not> sublist ''Only photo or video can be accepted'' ''can be accepted''"
    by (simp_all add: sublist_code(3) prefix_code)
  from hi tr r n show ?thesis by simp
qed

section \<open>The video flow: lemmas\<close>

lemma bind_io_Inl_pair [simp]: "bind_io (Inl e, tr) f = (Inl e, tr)"
  by (simp add: bind_io_def)

lemma bind_io_Inr_pair [simp]: "bind_io (Inr x, tr) f = (fst (f x), tr @ snd (f x))"
  by (simp add: bind_io_def split: prod.splits)

lemma fst_call [simp]: "fst (call ev r) = r"
  by (simp add: call_def)

lemma snd_call [simp]: "snd (call ev r) = [ev]"
  by (simp add: call_def)

lemma start_success:
  assumes "startTempVideoServer uuid b base s = (Inr (u, f), s1)"
  shows "f = uuid @ ''.mp4''"
    and "u = strip_slashes base @ TMP_VIDEO_PREFIX @ f"
    and "activeVideos s1 = (activeVideos s)(f \<mapsto> b)"
  using assms
  by (auto simp: startTempVideoServer_def installInterceptor_def Let_def
      split: option.splits sum.splits if_splits list.splits)

lemma start_failure:
  "startTempVideoServer uuid b base s = (Inl e, s1) \<Longrightarrow> s1 = s"
  by (auto simp: startTempVideoServer_def installInterceptor_def Let_def
      split: option.splits sum.splits if_splits list.splits)

lemma close_after_start:
  assumes "startTempVideoServer uuid b base s = (Inr (u, f), s1)"
  shows "activeVideos (close_server f s1) = (activeVideos s)(f := None)"
  using start_success(3) [OF assms] by (simp add: close_server_def)

lemma registrations_simps [simp]:
  "registrations [] = []"
  "registrations (xs @ ys) = registrations xs @ registrations ys"
  "registrations (Register f # xs) = f # registrations xs"
  "list_all is_loop_event xs \<Longrightarrow> registrations xs = []"
  "registrations (CallDownload a # xs) = registrations xs"
  "registrations (CallConvertVideo # xs) = registrations xs"
  "registrations (StartUploadVideo # xs) = registrations xs"
  "registrations (CallCreateReel a # xs) = registrations xs"
  "registrations (AwaitUploadVideo # xs) = registrations xs"
  "registrations (CallDeleteVideo a # xs) = registrations xs"
  "registrations (CallGetPermalink a # xs) = registrations xs"
  "registrations (Close a # xs) = registrations xs"
proof -
  show "list_all is_loop_event xs \<Longrightarrow> registrations xs = []"
  proof (induction xs)
    case Nil then show ?case by (simp add: registrations_def)
  next
    case (Cons e es) then show ?case by (cases e) (simp_all add: registrations_def)
  qed
qed (simp_all add: registrations_def)

lemma releases_simps [simp]:
  "releases [] = []"
  "releases (xs @ ys) = releases xs @ releases ys"
  "releases (Close f # xs) = f # releases xs"
  "list_all is_loop_event xs \<Longrightarrow> releases xs = []"
  "releases (CallDownload a # xs) = releases xs"
  "releases (CallConvertVideo # xs) = releases xs"
  "releases (StartUploadVideo # xs) = releases xs"
  "releases (CallCreateReel a # xs) = releases xs"
  "releases (AwaitUploadVideo # xs) = releases xs"
  "releases (CallDeleteVideo a # xs) = releases xs"
  "releases (CallGetPermalink a # xs) = releases xs"
  "releases (Register a # xs) = releases xs"
proof -
  show "list_all is_loop_event xs \<Longrightarrow> releases xs = []"
  proof (induction xs)
    case Nil then show ?case by (simp add: releases_def)
  next
    case (Cons e es) then show ?case by (cases e) (simp_all add: releases_def)
  qed
qed (simp_all add: releases_def)

lemma delete_calls_simps [simp]:
  "delete_calls [] = []"
  "delete_calls (xs @ ys) = delete_calls xs @ delete_calls ys"
  "delete_calls (CallDeleteVideo f # xs) = f # delete_calls xs"
  "list_all is_loop_event xs \<Longrightarrow> delete_calls xs = []"
  "delete_calls (CallDownload a # xs) = delete_calls xs"
  "delete_calls (CallConvertVideo # xs) = delete_calls xs"
  "delete_calls (StartUploadVideo # xs) = delete_calls xs"
  "delete_calls (CallCreateReel a # xs) = delete_calls xs"
  "delete_calls (AwaitUploadVideo # xs) = delete_calls xs"
  "delete_calls (Close a # xs) = delete_calls xs"
  "delete_calls (CallGetPermalink a # xs) = delete_calls xs"
  "delete_calls (Register a # xs) = delete_calls xs"
proof -
  show "list_all is_loop_event xs \<Longrightarrow> delete_calls xs = []"
  proof (induction xs)
    case Nil then show ?case by (simp add: delete_calls_def)
  next
    case (Cons e es) then show ?case by (cases e) (simp_all add: delete_calls_def)
  qed
qed (simp_all add: delete_calls_def)

lemma ig_leg_trace:
  "\<exists>rest. snd (ig_leg env u caption) = CallCreateReel u # rest \<and> list_all is_loop_event rest"
proof (cases "createIgReelContainer env u caption")
  case (Inl e)
  then show ?thesis by (simp add: ig_leg_def)
next
  case (Inr c)
  have "list_all is_loop_event (snd (pollIgContainer (getIgContainerStatus env c) c))"
    unfolding pollIgContainer_def by (rule poll_loop_trace_events)
  moreover have "list_all is_loop_event
      (snd (publishIgContainerWithRetry (publishIgContainer env c) c))"
    unfolding publishIgContainerWithRetry_def by (rule publish_loop_trace_events)
  ultimately show ?thesis using Inr
    by (auto simp: ig_leg_def snd_bind_io split: sum.splits)
qed

lemma ig_leg_fails_iff:
  "(fst (ig_leg env u caption) = Inl e) =
     (createIgReelContainer env u caption = Inl e \<or>
      (\<exists>c. createIgReelContainer env u caption = Inr c \<and>
         (fst (pollIgContainer (getIgContainerStatus env c) c) = Inl e \<or>
          (fst (pollIgContainer (getIgContainerStatus env c) c) = Inr () \<and>
           fst (publishIgContainerWithRetry (publishIgContainer env c) c) = Inl e))))"
  by (cases "createIgReelContainer env u caption")
     (auto simp: ig_leg_def fst_bind_io split: sum.splits)

lemma on_ig_failure_result:
  "on_ig_failure env p msg =
     (Inl (if is_carousel msg then reel_guidance msg else msg),
      AwaitUploadVideo # (case p of Inl x \<Rightarrow> [] | Inr v \<Rightarrow> [CallDeleteVideo v]))"
  by (cases p; cases "deleteFbVideo env (projr p)")
     (auto simp: on_ig_failure_def cleanup_fb_video_def try_catch_def bind_io_def call_def
        return_io_def throw_io_def split: sum.splits prod.splits)

lemma guarded_leg:
  "try_catch (ig_leg env u caption) (on_ig_failure env p) =
     (case fst (ig_leg env u caption) of
        Inl e \<Rightarrow> (Inl (if is_carousel e then reel_guidance e else e),
                  snd (ig_leg env u caption) @ AwaitUploadVideo #
                    (case p of Inl x \<Rightarrow> [] | Inr v \<Rightarrow> [CallDeleteVideo v]))
      | Inr i \<Rightarrow> ig_leg env u caption)"
  by (cases "ig_leg env u caption")
     (auto simp: try_catch_def on_ig_failure_result split: sum.splits)

lemma handleVideo_started:
  assumes "downloadMedia env (mediaUrl params) = Inr vb"
    and "convertVideo env vb = Inr cb"
    and "startTempVideoServer (randomUUID env) cb (getInstanceBaseUrl env) s = (Inr (u, f), s1)"
  shows "handleVideo env params caption s =
     (bind_io
        (fst (try_catch (ig_leg env u caption) (on_ig_failure env (uploadFbVideoFromBuffer env cb caption))),
         [CallDownload (mediaUrl params), CallConvertVideo, Register f, StartUploadVideo] @
         snd (try_catch (ig_leg env u caption) (on_ig_failure env (uploadFbVideoFromBuffer env cb caption))) @
         [Close f])
        (\<lambda>igPost.
           bind_io (call AwaitUploadVideo (uploadFbVideoFromBuffer env cb caption)) (\<lambda>fbVideo.
           bind_io (call (CallGetPermalink igPost) (getIgPermalink env igPost)) (\<lambda>igPermalink.
           return_io \<lparr>instagram_post_id = igPost, instagram_permalink = igPermalink,
                      facebook_post_id = facebookPageId params @ ''_'' @ fbVideo,
                      facebook_photo_id = None, facebook_video_id = Some fbVideo\<rparr>))),
      close_server f s1)"
  using assms by (simp add: handleVideo_def Let_def)

lemma handleVideo_not_started:
  assumes "\<not> (\<exists>vb cb u f s1. downloadMedia env (mediaUrl params) = Inr vb \<and> convertVideo env vb = Inr cb \<and>
      startTempVideoServer (randomUUID env) cb (getInstanceBaseUrl env) s = (Inr (u, f), s1))"
  shows "snd (handleVideo env params caption s) = s"
    and "registrations (snd (fst (handleVideo env params caption s))) = []"
    and "releases (snd (fst (handleVideo env params caption s))) = []"
proof -
  consider e where "downloadMedia env (mediaUrl params) = Inl e"
    | vb e where "downloadMedia env (mediaUrl params) = Inr vb" "convertVideo env vb = Inl e"
    | vb cb e s1 where "downloadMedia env (mediaUrl params) = Inr vb" "convertVideo env vb = Inr cb"
        "startTempVideoServer (randomUUID env) cb (getInstanceBaseUrl env) s = (Inl e, s1)"
  proof (cases "downloadMedia env (mediaUrl params)")
    case (Inl e) with that(1) show ?thesis by blast
  next
    case d: (Inr vb)
    show ?thesis
    proof (cases "convertVideo env vb")
      case (Inl e) with d that(2) show ?thesis by blast
    next
      case c: (Inr cb)
      obtain r s1 where st: "startTempVideoServer (randomUUID env) cb (getInstanceBaseUrl env) s = (r, s1)"
        by (cases "startTempVideoServer (randomUUID env) cb (getInstanceBaseUrl env) s")
      show ?thesis
      proof (cases r)
        case (Inl e) with d c st that(3) show ?thesis by blast
      next
        case (Inr uf) with d c st assms show ?thesis by (cases uf) blast
      qed
    qed
  qed
  then have "snd (handleVideo env params caption s) = s \<and>
      registrations (snd (fst (handleVideo env params caption s))) = [] \<and>
      releases (snd (fst (handleVideo env params caption s))) = []"
  proof cases
    case 1 then show ?thesis by (simp add: handleVideo_def)
  next
    case 2 then show ?thesis by (simp add: handleVideo_def)
  next
    case 3
    from start_failure [OF 3(3)] 3 show ?thesis by (simp add: handleVideo_def)
  qed
  then show "snd (handleVideo env params caption s) = s"
    and "registrations (snd (fst (handleVideo env params caption s))) = []"
    and "releases (snd (fst (handleVideo env params caption s))) = []" by simp_all
qed


lemma guarded_leg_clean:
  "registrations (snd (try_catch (ig_leg env u caption) (on_ig_failure env p))) = []"
  "releases (snd (try_catch (ig_leg env u caption) (on_ig_failure env p))) = []"
proof -
  obtain rest where r: "snd (ig_leg env u caption) = CallCreateReel u # rest" "list_all is_loop_event rest"
    using ig_leg_trace [of env u caption] by blast
  show "registrations (snd (try_catch (ig_leg env u caption) (on_ig_failure env p))) = []"
    unfolding guarded_leg using r by (auto split: sum.splits)
  show "releases (snd (try_catch (ig_leg env u caption) (on_ig_failure env p))) = []"
    unfolding guarded_leg using r by (auto split: sum.splits)
qed

text \<open>The events of steps 7 and 8, after the served file was released.\<close>

lemma after_release_clean:
  "registrations (snd (bind_io (call AwaitUploadVideo p) (\<lambda>fbVideo.
       bind_io (call (CallGetPermalink igPost) q) (\<lambda>igPermalink. return_io (mk igPermalink fbVideo))))) = []"
  "releases (snd (bind_io (call AwaitUploadVideo p) (\<lambda>fbVideo.
       bind_io (call (CallGetPermalink igPost) q) (\<lambda>igPermalink. return_io (mk igPermalink fbVideo))))) = []"
  by (cases p; cases q; simp add: return_io_def)+

lemma handleVideo_started_trace:
  assumes "downloadMedia env (mediaUrl params) = Inr vb"
    and "convertVideo env vb = Inr cb"
    and "startTempVideoServer (randomUUID env) cb (getInstanceBaseUrl env) s = (Inr (u, f), s1)"
  shows "\<exists>post. snd (fst (handleVideo env params caption s)) =
           [CallDownload (mediaUrl params), CallConvertVideo, Register f, StartUploadVideo] @
           snd (try_catch (ig_leg env u caption) (on_ig_failure env (uploadFbVideoFromBuffer env cb caption))) @
           [Close f] @ post \<and> registrations post = [] \<and> releases post = []"
proof -
  let ?g = "try_catch (ig_leg env u caption) (on_ig_failure env (uploadFbVideoFromBuffer env cb caption))"
  show ?thesis
  proof (cases "fst ?g")
    case (Inl e)
    then have "snd (fst (handleVideo env params caption s)) =
           [CallDownload (mediaUrl params), CallConvertVideo, Register f, StartUploadVideo] @
           snd ?g @ [Close f] @ []"
      unfolding handleVideo_started [OF assms] by (simp add: bind_io_def)
    then show ?thesis by (intro exI [of _ "[]"]) simp
  next
    case (Inr igPost)
    let ?post = "snd (bind_io (call AwaitUploadVideo (uploadFbVideoFromBuffer env cb caption)) (\<lambda>fbVideo.
           bind_io (call (CallGetPermalink igPost) (getIgPermalink env igPost)) (\<lambda>igPermalink.
           return_io \<lparr>instagram_post_id = igPost, instagram_permalink = igPermalink,
                      facebook_post_id = facebookPageId params @ ''_'' @ fbVideo,
                      facebook_photo_id = None, facebook_video_id = Some fbVideo\<rparr>)))"
    from Inr have "snd (fst (handleVideo env params caption s)) =
           [CallDownload (mediaUrl params), CallConvertVideo, Register f, StartUploadVideo] @
           snd ?g @ [Close f] @ ?post"
      unfolding handleVideo_started [OF assms] by (simp add: snd_bind_io)
    moreover have "registrations ?post = []" "releases ?post = []"
      by (rule after_release_clean)+
    ultimately show ?thesis by blast
  qed
qed

lemma start_on_host:
  "startTempVideoServer ''u'' [6, 7, 8] ''https://n8n.example/'' (host_state [0]) =
     (Inr (''https://n8n.example/tmp-video/u.mp4'', ''u.mp4''),
      snd (startTempVideoServer ''u'' [6, 7, 8] ''https://n8n.example/'' (host_state [0])))"
  by (simp add: startTempVideoServer_def installInterceptor_def host_state_def Let_def
      strip_slashes_def TMP_VIDEO_PREFIX_def)

lemma cleanup_never_throws: "fst (cleanup_fb_video env p) = Inr ()"
  by (cases p; cases "deleteFbVideo env (projr p)")
     (auto simp: cleanup_fb_video_def try_catch_def bind_io_def call_def return_io_def
        split: sum.splits prod.splits)

lemma reel_guidance_quotes: "sublist e (reel_guidance e)"
proof -
  have "reel_guidance e = (''Instagram rejected the video as a Reel. The video likely exceeds Instagram Reels '' @
     ''requirements (max 5 Mbps bitrate, H.264 High profile, max 90s duration). '' @
     ''Please re-encode the source video to a lower bitrate before posting. '' @
     ''(Original error: '') @ e @ '')''"
    unfolding reel_guidance_def by simp
  then show ?thesis unfolding sublist_def by blast
qed

text \<open>
  Lower-casing and the search for a word: the word is found in the lower-cased text when
  the text has it in some spelling, each letter small or capital.
\<close>

lemma to_lower_letters:
  "(to_lower c = CHR ''c'') = (c = CHR ''c'' \<or> c = CHR ''C'')"
  "(to_lower c = CHR ''a'') = (c = CHR ''a'' \<or> c = CHR ''A'')"
  "(to_lower c = CHR ''r'') = (c = CHR ''r'' \<or> c = CHR ''R'')"
  "(to_lower c = CHR ''o'') = (c = CHR ''o'' \<or> c = CHR ''O'')"
  "(to_lower c = CHR ''u'') = (c = CHR ''u'' \<or> c = CHR ''U'')"
  "(to_lower c = CHR ''s'') = (c = CHR ''s'' \<or> c = CHR ''S'')"
  "(to_lower c = CHR ''e'') = (c = CHR ''e'' \<or> c = CHR ''E'')"
  "(to_lower c = CHR ''l'') = (c = CHR ''l'' \<or> c = CHR ''L'')"
  by (auto simp: to_lower_def split: if_splits)

lemma sublist_map_iff:
  "sublist ys (map f xs) = (\<exists>w. sublist w xs \<and> map f w = ys)"
proof
  assume "sublist ys (map f xs)"
  then obtain ps ss where "map f xs = ps @ ys @ ss" unfolding sublist_def by blast
  then obtain us vs where x: "xs = us @ vs" and "ys @ ss = map f vs"
    unfolding map_eq_append_conv by blast
  then obtain w t where v: "vs = w @ t" and y: "ys = map f w"
    unfolding append_eq_map_conv by blast
  from x v have "sublist w xs" unfolding sublist_def by blast
  with y show "\<exists>w. sublist w xs \<and> map f w = ys" by blast
next
  assume "\<exists>w. sublist w xs \<and> map f w = ys"
  then obtain w ps ss where "xs = ps @ w @ ss" and "map f w = ys" unfolding sublist_def by blast
  then have "map f xs = map f ps @ ys @ map f ss" by simp
  then show "sublist ys (map f xs)" unfolding sublist_def by blast
qed

lemma carousel_spelling:
  "(map to_lower w = ''carousel'') =
     list_all2 (\<lambda>c p. c = fst p \<or> c = snd p) w (zip ''carousel'' ''CAROUSEL'')"
  by (auto simp: map_eq_Cons_conv list_all2_Cons2 to_lower_letters)

lemma is_carousel_spelled:
  "is_carousel e =
     (sublist ''2207089'' e \<or>
      (\<exists>w. sublist w e \<and> list_all2 (\<lambda>c p. c = fst p \<or> c = snd p) w (zip ''carousel'' ''CAROUSEL'')))"
  unfolding is_carousel_def toLowerCase_def sublist_map_iff carousel_spelling by (rule refl)

lemma reel_guidance_text:
  "reel_guidance e =
     ''Instagram rejected the video as a Reel. The video likely exceeds Instagram Reels '' @
     ''requirements (max 5 Mbps bitrate, H.264 High profile, max 90s duration). '' @
     ''Please re-encode the source video to a lower bitrate before posting. '' @
     ''(Original error: '' @ e @ '')''"
  by (simp add: reel_guidance_def)

lemma reel_guidance_longer: "reel_guidance e \<noteq> e"
proof
  assume "reel_guidance e = e"
  then have "length (reel_guidance e) = length e" by simp
  then show False by (simp add: reel_guidance_def)
qed

lemma ig_leg_deletes_nothing: "CallDeleteVideo x \<notin> set (snd (ig_leg env u caption))"
proof -
  obtain rest where r: "snd (ig_leg env u caption) = CallCreateReel u # rest"
    and l: "list_all is_loop_event rest"
    using ig_leg_trace [of env u caption] by blast
  from l have "CallDeleteVideo x \<notin> set rest" by (auto simp: list_all_iff)
  with r show ?thesis by simp
qed

section \<open>The video flow: claims\<close>

text \<open>
  Claim C5. In every run of the video flow, whatever the collaborators return, the
  registrations on the endpoint and the releases are the same list, of one file at
  most, and no file the run registered is in the registry when the run ends; a run that
  registers nothing leaves the module's state as it was. When download, conversion and
  registration succeed, the run registers the one file, runs the first-destination leg
  (with its catch block), releases the file right after the leg, whether the leg
  returned or threw, and only then goes on; the registry at the end is the registry at
  the start without the file.
\<close>

theorem served_file_released:
  "registrations (snd (fst (handleVideo env params caption s))) =
     releases (snd (fst (handleVideo env params caption s))) \<and>
   length (registrations (snd (fst (handleVideo env params caption s)))) \<le> 1 \<and>
   (g \<in> set (registrations (snd (fst (handleVideo env params caption s)))) \<longrightarrow>
      activeVideos (snd (handleVideo env params caption s)) g = None) \<and>
   (registrations (snd (fst (handleVideo env params caption s))) = [] \<longrightarrow>
      snd (handleVideo env params caption s) = s) \<and>
   (downloadMedia env (mediaUrl params) = Inr vb \<and> convertVideo env vb = Inr cb \<and>
    startTempVideoServer (randomUUID env) cb (getInstanceBaseUrl env) s = (Inr (u, f), s1) \<longrightarrow>
      registrations (snd (fst (handleVideo env params caption s))) = [f] \<and>
      releases (snd (fst (handleVideo env params caption s))) = [f] \<and>
      activeVideos s1 f = Some cb \<and>
      (\<exists>post. snd (fst (handleVideo env params caption s)) =
         [CallDownload (mediaUrl params), CallConvertVideo, Register f, StartUploadVideo] @
         snd (try_catch (ig_leg env u caption) (on_ig_failure env (uploadFbVideoFromBuffer env cb caption))) @
         [Close f] @ post) \<and>
      activeVideos (snd (handleVideo env params caption s)) = (activeVideos s)(f := None))"
proof -
  let ?tr = "snd (fst (handleVideo env params caption s))"
  let ?s' = "snd (handleVideo env params caption s)"
  have started: "registrations ?tr = [f] \<and> releases ?tr = [f] \<and> activeVideos s1 f = Some cb \<and>
      (\<exists>post. ?tr =
         [CallDownload (mediaUrl params), CallConvertVideo, Register f, StartUploadVideo] @
         snd (try_catch (ig_leg env u caption) (on_ig_failure env (uploadFbVideoFromBuffer env cb caption))) @
         [Close f] @ post) \<and>
      activeVideos ?s' = (activeVideos s)(f := None)"
    if a: "downloadMedia env (mediaUrl params) = Inr vb" "convertVideo env vb = Inr cb"
      "startTempVideoServer (randomUUID env) cb (getInstanceBaseUrl env) s = (Inr (u, f), s1)"
    for vb cb u f s1
  proof -
    obtain post where p: "?tr =
           [CallDownload (mediaUrl params), CallConvertVideo, Register f, StartUploadVideo] @
           snd (try_catch (ig_leg env u caption) (on_ig_failure env (uploadFbVideoFromBuffer env cb caption))) @
           [Close f] @ post" "registrations post = []" "releases post = []"
      using handleVideo_started_trace [OF a, of caption] by blast
    have r: "registrations ?tr = [f]" "releases ?tr = [f]"
      unfolding p(1) using p(2,3) by (simp_all add: guarded_leg_clean)
    have s': "?s' = close_server f s1" unfolding handleVideo_started [OF a] by simp
    have av: "activeVideos ?s' = (activeVideos s)(f := None)"
      unfolding s' by (rule close_after_start [OF a(3)])
    have "activeVideos s1 f = Some cb" using start_success(3) [OF a(3)] by simp
    with r av p(1) show ?thesis by blast
  qed
  have general: "registrations ?tr = releases ?tr \<and> length (registrations ?tr) \<le> 1 \<and>
      (g \<in> set (registrations ?tr) \<longrightarrow> activeVideos ?s' g = None) \<and>
      (registrations ?tr = [] \<longrightarrow> ?s' = s)"
  proof (cases "\<exists>vb cb u f s1. downloadMedia env (mediaUrl params) = Inr vb \<and> convertVideo env vb = Inr cb \<and>
      startTempVideoServer (randomUUID env) cb (getInstanceBaseUrl env) s = (Inr (u, f), s1)")
    case True
    then obtain vb cb u f s1 where a: "downloadMedia env (mediaUrl params) = Inr vb"
      "convertVideo env vb = Inr cb"
      "startTempVideoServer (randomUUID env) cb (getInstanceBaseUrl env) s = (Inr (u, f), s1)"
      by blast
    from started [OF a] show ?thesis by auto
  next
    case False
    from handleVideo_not_started [OF False, of caption] show ?thesis by simp
  qed
  from general started show ?thesis by blast
qed


theorem served_file_released_witness:
  "registrations (snd (fst (handleVideo quiet_env sample_params ''hi'' (host_state [0])))) = [''u.mp4''] \<and>
   releases (snd (fst (handleVideo quiet_env sample_params ''hi'' (host_state [0])))) = [''u.mp4''] \<and>
   activeVideos (snd (handleVideo quiet_env sample_params ''hi'' (host_state [0]))) ''u.mp4'' = None \<and>
   registrations (snd (fst (handleVideo (quiet_env\<lparr>createIgReelContainer := (\<lambda>u c. Inl ''boom'')\<rparr>)
      sample_params ''hi'' (host_state [0])))) = [''u.mp4''] \<and>
   releases (snd (fst (handleVideo (quiet_env\<lparr>createIgReelContainer := (\<lambda>u c. Inl ''boom'')\<rparr>)
      sample_params ''hi'' (host_state [0])))) = [''u.mp4''] \<and>
   activeVideos (snd (handleVideo (quiet_env\<lparr>createIgReelContainer := (\<lambda>u c. Inl ''boom'')\<rparr>)
      sample_params ''hi'' (host_state [0]))) ''u.mp4'' = None \<and>
   registrations (snd (fst (handleVideo (quiet_env\<lparr>downloadMedia := (\<lambda>u. Inl ''offline'')\<rparr>)
      sample_params ''hi'' (host_state [0])))) = [] \<and>
   snd (handleVideo (quiet_env\<lparr>downloadMedia := (\<lambda>u. Inl ''offline'')\<rparr>)
      sample_params ''hi'' (host_state [0])) = host_state [0]"
proof -
  let ?fail = "quiet_env\<lparr>createIgReelContainer := (\<lambda>u c. Inl ''boom'')\<rparr>"
  let ?off = "quiet_env\<lparr>downloadMedia := (\<lambda>u. Inl ''offline'')\<rparr>"
  let ?s1 = "snd (startTempVideoServer ''u'' [6, 7, 8] ''https://n8n.example/'' (host_state [0]))"
  have h1: "downloadMedia quiet_env (mediaUrl sample_params) = Inr [1, 2, 3] \<and>
      convertVideo quiet_env [1, 2, 3] = Inr [6, 7, 8] \<and>
      startTempVideoServer (randomUUID quiet_env) [6, 7, 8] (getInstanceBaseUrl quiet_env) (host_state [0]) =
        (Inr (''https://n8n.example/tmp-video/u.mp4'', ''u.mp4''), ?s1)"
    using start_on_host by (simp add: quiet_env_def)
  have h2: "downloadMedia ?fail (mediaUrl sample_params) = Inr [1, 2, 3] \<and>
      convertVideo ?fail [1, 2, 3] = Inr [6, 7, 8] \<and>
      startTempVideoServer (randomUUID ?fail) [6, 7, 8] (getInstanceBaseUrl ?fail) (host_state [0]) =
        (Inr (''https://n8n.example/tmp-video/u.mp4'', ''u.mp4''), ?s1)"
    using start_on_host by (simp add: quiet_env_def)
  note t1 = served_file_released [where env = quiet_env and params = sample_params and caption = "''hi''"
      and s = "host_state [0]" and vb = "[1, 2, 3]" and cb = "[6, 7, 8]"
      and u = "''https://n8n.example/tmp-video/u.mp4''" and f = "''u.mp4''" and ?s1.0 = ?s1
      and g = "''u.mp4''"]
  note t2 = served_file_released [where env = ?fail and params = sample_params and caption = "''hi''"
      and s = "host_state [0]" and vb = "[1, 2, 3]" and cb = "[6, 7, 8]"
      and u = "''https://n8n.example/tmp-video/u.mp4''" and f = "''u.mp4''" and ?s1.0 = ?s1
      and g = "''u.mp4''"]
  note t3 = served_file_released [where env = ?off and params = sample_params and caption = "''hi''"
      and s = "host_state [0]"]
  from t1 h1
  have a: "registrations (snd (fst (handleVideo quiet_env sample_params ''hi'' (host_state [0])))) = [''u.mp4'']"
    and b: "releases (snd (fst (handleVideo quiet_env sample_params ''hi'' (host_state [0])))) = [''u.mp4'']"
    by blast+
  from t1 a
  have c: "activeVideos (snd (handleVideo quiet_env sample_params ''hi'' (host_state [0]))) ''u.mp4'' = None"
    by simp
  from t2 h2
  have d: "registrations (snd (fst (handleVideo ?fail sample_params ''hi'' (host_state [0])))) = [''u.mp4'']"
    and e: "releases (snd (fst (handleVideo ?fail sample_params ''hi'' (host_state [0])))) = [''u.mp4'']"
    by blast+
  from t2 d
  have f: "activeVideos (snd (handleVideo ?fail sample_params ''hi'' (host_state [0]))) ''u.mp4'' = None"
    by simp
  have g: "registrations (snd (fst (handleVideo ?off sample_params ''hi'' (host_state [0])))) = []"
    by (simp add: handleVideo_def)
  with t3 have h: "snd (handleVideo ?off sample_params ''hi'' (host_state [0])) = host_state [0]"
    by blast
  from a b c d e f g h show ?thesis by blast
qed

text \<open>
  Claim C1. Let download, conversion and registration succeed, and let the
  first-destination leg throw \<open>e\<close>: the creation of the reel container threw it, or the
  polling did, or the publish did. Then the run awaits the upload started before the
  leg; if the upload gave an id, one delete call for that id follows, and if it failed,
  none: the leg itself makes no delete call, so the delete calls of the whole run are that
  one call or none. Whatever the wait or the delete call returned (the catch block never
  throws), the run releases the served file and throws \<open>e\<close>, or, when \<open>e\<close> has the code
  2207089 or the word carousel, each of its letters small or capital, the guidance:
  \<open>Instagram rejected the video as a Reel\<close>, the likely cause (the requirements: max 5
  Mbps bitrate, H.264 High profile, max 90s duration), the advice to re-encode the source
  video to a lower bitrate, and \<open>e\<close> quoted as the original error; this is never \<open>e\<close>
  itself. Here an upload id exists when the awaited upload returns: what it returns is
  its id, which the catch block hands to the delete call as it is, without a test. The
  model has no clock, and the code does not look at one.
\<close>

theorem video_compensation:
  "(downloadMedia env (mediaUrl params) = Inr vb \<and> convertVideo env vb = Inr cb \<and>
    startTempVideoServer (randomUUID env) cb (getInstanceBaseUrl env) s = (Inr (u, f), s1) \<and>
    fst (ig_leg env u caption) = Inl e \<longrightarrow>
      fst (fst (handleVideo env params caption s)) =
        Inl (if is_carousel e then reel_guidance e else e) \<and>
      snd (fst (handleVideo env params caption s)) =
        [CallDownload (mediaUrl params), CallConvertVideo, Register f, StartUploadVideo] @
        snd (ig_leg env u caption) @ [AwaitUploadVideo] @
        (case uploadFbVideoFromBuffer env cb caption of Inl x \<Rightarrow> [] | Inr v \<Rightarrow> [CallDeleteVideo v]) @
        [Close f] \<and>
      delete_calls (snd (fst (handleVideo env params caption s))) =
        (case uploadFbVideoFromBuffer env cb caption of Inl x \<Rightarrow> [] | Inr v \<Rightarrow> [v])) \<and>
   (fst (ig_leg env u caption) = Inl e) =
     (createIgReelContainer env u caption = Inl e \<or>
      (\<exists>c. createIgReelContainer env u caption = Inr c \<and>
         (fst (pollIgContainer (getIgContainerStatus env c) c) = Inl e \<or>
          (fst (pollIgContainer (getIgContainerStatus env c) c) = Inr () \<and>
           fst (publishIgContainerWithRetry (publishIgContainer env c) c) = Inl e)))) \<and>
   (\<forall>x. CallDeleteVideo x \<notin> set (snd (ig_leg env u caption))) \<and>
   fst (cleanup_fb_video env p) = Inr () \<and>
   is_carousel e = (sublist ''2207089'' e \<or> sublist ''carousel'' (toLowerCase e)) \<and>
   is_carousel e =
     (sublist ''2207089'' e \<or>
      (\<exists>w. sublist w e \<and> list_all2 (\<lambda>c p. c = fst p \<or> c = snd p) w (zip ''carousel'' ''CAROUSEL''))) \<and>
   reel_guidance e =
     ''Instagram rejected the video as a Reel. The video likely exceeds Instagram Reels '' @
     ''requirements (max 5 Mbps bitrate, H.264 High profile, max 90s duration). '' @
     ''Please re-encode the source video to a lower bitrate before posting. '' @
     ''(Original error: '' @ e @ '')'' \<and>
   reel_guidance e \<noteq> e \<and>
   sublist e (reel_guidance e)"
proof -
  have main: "fst (fst (handleVideo env params caption s)) =
        Inl (if is_carousel e then reel_guidance e else e) \<and>
      snd (fst (handleVideo env params caption s)) =
        [CallDownload (mediaUrl params), CallConvertVideo, Register f, StartUploadVideo] @
        snd (ig_leg env u caption) @ [AwaitUploadVideo] @
        (case uploadFbVideoFromBuffer env cb caption of Inl x \<Rightarrow> [] | Inr v \<Rightarrow> [CallDeleteVideo v]) @
        [Close f] \<and>
      delete_calls (snd (fst (handleVideo env params caption s))) =
        (case uploadFbVideoFromBuffer env cb caption of Inl x \<Rightarrow> [] | Inr v \<Rightarrow> [v])"
    if a: "downloadMedia env (mediaUrl params) = Inr vb" "convertVideo env vb = Inr cb"
      "startTempVideoServer (randomUUID env) cb (getInstanceBaseUrl env) s = (Inr (u, f), s1)"
      and l: "fst (ig_leg env u caption) = Inl e"
  proof -
    let ?p = "uploadFbVideoFromBuffer env cb caption"
    have g: "try_catch (ig_leg env u caption) (on_ig_failure env ?p) =
        (Inl (if is_carousel e then reel_guidance e else e),
         snd (ig_leg env u caption) @ AwaitUploadVideo #
           (case ?p of Inl x \<Rightarrow> [] | Inr v \<Rightarrow> [CallDeleteVideo v]))"
      unfolding guarded_leg l by simp
    have hv: "fst (handleVideo env params caption s) =
        (Inl (if is_carousel e then reel_guidance e else e),
         [CallDownload (mediaUrl params), CallConvertVideo, Register f, StartUploadVideo] @
         snd (ig_leg env u caption) @ [AwaitUploadVideo] @
         (case ?p of Inl x \<Rightarrow> [] | Inr v \<Rightarrow> [CallDeleteVideo v]) @ [Close f])"
      unfolding handleVideo_started [OF a] g by (simp add: bind_io_def)
    obtain rest where r: "snd (ig_leg env u caption) = CallCreateReel u # rest" "list_all is_loop_event rest"
      using ig_leg_trace [of env u caption] by blast
    have d: "delete_calls (snd (fst (handleVideo env params caption s))) =
        (case ?p of Inl x \<Rightarrow> [] | Inr v \<Rightarrow> [v])"
      unfolding hv using r by (simp split: sum.splits)
    from hv d show ?thesis by simp
  qed
  then have m: "downloadMedia env (mediaUrl params) = Inr vb \<and> convertVideo env vb = Inr cb \<and>
    startTempVideoServer (randomUUID env) cb (getInstanceBaseUrl env) s = (Inr (u, f), s1) \<and>
    fst (ig_leg env u caption) = Inl e \<longrightarrow>
      fst (fst (handleVideo env params caption s)) =
        Inl (if is_carousel e then reel_guidance e else e) \<and>
      snd (fst (handleVideo env params caption s)) =
        [CallDownload (mediaUrl params), CallConvertVideo, Register f, StartUploadVideo] @
        snd (ig_leg env u caption) @ [AwaitUploadVideo] @
        (case uploadFbVideoFromBuffer env cb caption of Inl x \<Rightarrow> [] | Inr v \<Rightarrow> [CallDeleteVideo v]) @
        [Close f] \<and>
      delete_calls (snd (fst (handleVideo env params caption s))) =
        (case uploadFbVideoFromBuffer env cb caption of Inl x \<Rightarrow> [] | Inr v \<Rightarrow> [v])"
    by blast
  have nd: "\<forall>x. CallDeleteVideo x \<notin> set (snd (ig_leg env u caption))"
    using ig_leg_deletes_nothing [of _ env u caption] by blast
  have ic: "is_carousel e = (sublist ''2207089'' e \<or> sublist ''carousel'' (toLowerCase e))"
    by (simp add: is_carousel_def)
  from m ig_leg_fails_iff [of env u caption e] nd cleanup_never_throws [of env p] ic
    is_carousel_spelled [of e] reel_guidance_text [of e] reel_guidance_longer [of e]
    reel_guidance_quotes [of e]
  show ?thesis by (intro conjI)
qed

theorem video_compensation_witness:
  "fst (fst (handleVideo
       (quiet_env\<lparr>createIgReelContainer := (\<lambda>u c. Inl ''Media is treated as a CaRoUsEl post''),
                  deleteFbVideo := (\<lambda>v. Inl ''delete failed'')\<rparr>)
       sample_params ''hi'' (host_state [0]))) =
     Inl (''Instagram rejected the video as a Reel. The video likely exceeds Instagram Reels '' @
          ''requirements (max 5 Mbps bitrate, H.264 High profile, max 90s duration). '' @
          ''Please re-encode the source video to a lower bitrate before posting. '' @
          ''(Original error: Media is treated as a CaRoUsEl post)'') \<and>
   snd (fst (handleVideo
       (quiet_env\<lparr>createIgReelContainer := (\<lambda>u c. Inl ''Media is treated as a CaRoUsEl post''),
                  deleteFbVideo := (\<lambda>v. Inl ''delete failed'')\<rparr>)
       sample_params ''hi'' (host_state [0]))) =
     [CallDownload ''https://x/a.webp'', CallConvertVideo, Register ''u.mp4'', StartUploadVideo,
      CallCreateReel ''https://n8n.example/tmp-video/u.mp4'', AwaitUploadVideo, CallDeleteVideo ''v1'', Close ''u.mp4''] \<and>
   delete_calls (snd (fst (handleVideo
       (quiet_env\<lparr>createIgReelContainer := (\<lambda>u c. Inl ''Media is treated as a CaRoUsEl post''),
                  deleteFbVideo := (\<lambda>v. Inl ''delete failed'')\<rparr>)
       sample_params ''hi'' (host_state [0])))) = [''v1''] \<and>
   fst (fst (handleVideo
       (quiet_env\<lparr>createIgReelContainer := (\<lambda>u c. Inl ''NOT A CAROUSEL ITEM'')\<rparr>)
       sample_params ''hi'' (host_state [0]))) =
     Inl (''Instagram rejected the video as a Reel. The video likely exceeds Instagram Reels '' @
          ''requirements (max 5 Mbps bitrate, H.264 High profile, max 90s duration). '' @
          ''Please re-encode the source video to a lower bitrate before posting. '' @
          ''(Original error: NOT A CAROUSEL ITEM)'') \<and>
   fst (fst (handleVideo
       (quiet_env\<lparr>createIgReelContainer := (\<lambda>u c. Inl ''boom''),
                  uploadFbVideoFromBuffer := (\<lambda>b c. Inl ''upload failed'')\<rparr>)
       sample_params ''hi'' (host_state [0]))) = Inl ''boom'' \<and>
   snd (fst (handleVideo
       (quiet_env\<lparr>createIgReelContainer := (\<lambda>u c. Inl ''boom''),
                  uploadFbVideoFromBuffer := (\<lambda>b c. Inl ''upload failed'')\<rparr>)
       sample_params ''hi'' (host_state [0]))) =
     [CallDownload ''https://x/a.webp'', CallConvertVideo, Register ''u.mp4'', StartUploadVideo,
      CallCreateReel ''https://n8n.example/tmp-video/u.mp4'', AwaitUploadVideo, Close ''u.mp4''] \<and>
   delete_calls (snd (fst (handleVideo
       (quiet_env\<lparr>createIgReelContainer := (\<lambda>u c. Inl ''boom''),
                  uploadFbVideoFromBuffer := (\<lambda>b c. Inl ''upload failed'')\<rparr>)
       sample_params ''hi'' (host_state [0])))) = [] \<and>
   fst (fst (handleVideo
       (quiet_env\<lparr>getIgContainerStatus := (\<lambda>c n. Inr \<lparr>status_code = ERROR, status = None\<rparr>)\<rparr>)
       sample_params ''hi'' (host_state [0]))) =
     Inl (''Instagram Reel processing failed: ERROR. Ensure the video URL is publicly accessible and the video meets '' @
          ''Instagram Reels requirements (MP4 H.264, max 5 Mbps bitrate, max 90s, 9:16 aspect ratio recommended).'') \<and>
   snd (fst (handleVideo
       (quiet_env\<lparr>getIgContainerStatus := (\<lambda>c n. Inr \<lparr>status_code = ERROR, status = None\<rparr>)\<rparr>)
       sample_params ''hi'' (host_state [0]))) =
     [CallDownload ''https://x/a.webp'', CallConvertVideo, Register ''u.mp4'', StartUploadVideo,
      CallCreateReel ''https://n8n.example/tmp-video/u.mp4'', Sleep 10000, CallStatus ''r1'',
      AwaitUploadVideo, CallDeleteVideo ''v1'', Close ''u.mp4''] \<and>
   fst (fst (handleVideo
       (quiet_env\<lparr>publishIgContainer := (\<lambda>c n. Inr carousel_rejection)\<rparr>)
       sample_params ''hi'' (host_state [0]))) =
     Inl (''Instagram rejected the video as a Reel. The video likely exceeds Instagram Reels '' @
          ''requirements (max 5 Mbps bitrate, H.264 High profile, max 90s duration). '' @
          ''Please re-encode the source video to a lower bitrate before posting. '' @
          ''(Original error: Instagram publish failed (HTTP 400, code 100, subcode 2207089): Unsupported media)'') \<and>
   snd (fst (handleVideo
       (quiet_env\<lparr>publishIgContainer := (\<lambda>c n. Inr carousel_rejection)\<rparr>)
       sample_params ''hi'' (host_state [0]))) =
     [CallDownload ''https://x/a.webp'', CallConvertVideo, Register ''u.mp4'', StartUploadVideo,
      CallCreateReel ''https://n8n.example/tmp-video/u.mp4'', Sleep 10000, CallStatus ''r1'',
      CallPublish ''r1'', AwaitUploadVideo, CallDeleteVideo ''v1'', Close ''u.mp4''] \<and>
   delete_calls (snd (fst (handleVideo
       (quiet_env\<lparr>publishIgContainer := (\<lambda>c n. Inr carousel_rejection)\<rparr>)
       sample_params ''hi'' (host_state [0])))) = [''v1'']"
proof -
  let ?car = "quiet_env\<lparr>createIgReelContainer := (\<lambda>u c. Inl ''Media is treated as a CaRoUsEl post''),
                  deleteFbVideo := (\<lambda>v. Inl ''delete failed'')\<rparr>"
  let ?caps = "quiet_env\<lparr>createIgReelContainer := (\<lambda>u c. Inl ''NOT A CAROUSEL ITEM'')\<rparr>"
  let ?noid = "quiet_env\<lparr>createIgReelContainer := (\<lambda>u c. Inl ''boom''),
                  uploadFbVideoFromBuffer := (\<lambda>b c. Inl ''upload failed'')\<rparr>"
  let ?poll = "quiet_env\<lparr>getIgContainerStatus := (\<lambda>c n. Inr \<lparr>status_code = ERROR, status = None\<rparr>)\<rparr>"
  let ?pub = "quiet_env\<lparr>publishIgContainer := (\<lambda>c n. Inr carousel_rejection)\<rparr>"
  let ?s1 = "snd (startTempVideoServer ''u'' [6, 7, 8] ''https://n8n.example/'' (host_state [0]))"
  let ?u = "''https://n8n.example/tmp-video/u.mp4''"
  let ?e1 = "''Media is treated as a CaRoUsEl post''"
  let ?e5 = "''NOT A CAROUSEL ITEM''"
  let ?e3 = "processing_failed \<lparr>status_code = ERROR, status = None\<rparr>"
  let ?e4 = "''Instagram publish failed (HTTP 400, code 100, subcode 2207089): Unsupported media''"
  have pl: "poll_loop (\<lambda>n. Inr \<lparr>status_code = ERROR, status = None\<rparr>) ''r1'' 0 =
      (Inl ?e3, [Sleep 10000, CallStatus ''r1''])"
    by (subst poll_loop.simps) (simp add: maxPolls_def pollInterval_def)
  have pf: "poll_loop (\<lambda>n. Inr \<lparr>status_code = FINISHED, status = None\<rparr>) ''r1'' 0 =
      (Inr (), [Sleep 10000, CallStatus ''r1''])"
    by (subst poll_loop.simps) (simp add: maxPolls_def pollInterval_def)
  have pb: "publish_loop (\<lambda>n. Inr carousel_rejection) ''r1'' 0 =
      (Inl (formatIgApiError carousel_rejection), [CallPublish ''r1''])"
    by (subst publish_loop.simps) (simp add: success_id_def carousel_rejection_def)
  have fe: "formatIgApiError carousel_rejection = ?e4"
    by (simp add: formatIgApiError_def num_part_def str_or_def carousel_rejection_def show_int_def
        digit_char_def)
  have leg1: "ig_leg ?car ?u ''hi'' = (Inl ?e1, [CallCreateReel ?u])"
    by (simp add: ig_leg_def)
  have leg5: "ig_leg ?caps ?u ''hi'' = (Inl ?e5, [CallCreateReel ?u])"
    by (simp add: ig_leg_def)
  have leg2: "ig_leg ?noid ?u ''hi'' = (Inl ''boom'', [CallCreateReel ?u])"
    by (simp add: ig_leg_def)
  have leg3: "ig_leg ?poll ?u ''hi'' = (Inl ?e3, [CallCreateReel ?u, Sleep 10000, CallStatus ''r1''])"
    by (simp add: ig_leg_def quiet_env_def pollIgContainer_def pl)
  have leg4: "ig_leg ?pub ?u ''hi'' =
      (Inl ?e4, [CallCreateReel ?u, Sleep 10000, CallStatus ''r1'', CallPublish ''r1''])"
    by (simp add: ig_leg_def quiet_env_def pollIgContainer_def pf publishIgContainerWithRetry_def pb fe)
  have h1: "downloadMedia ?car (mediaUrl sample_params) = Inr [1, 2, 3] \<and>
      convertVideo ?car [1, 2, 3] = Inr [6, 7, 8] \<and>
      startTempVideoServer (randomUUID ?car) [6, 7, 8] (getInstanceBaseUrl ?car) (host_state [0]) =
        (Inr (?u, ''u.mp4''), ?s1) \<and>
      fst (ig_leg ?car ?u ''hi'') = Inl ?e1"
    using start_on_host leg1 by (simp add: quiet_env_def)
  have h5: "downloadMedia ?caps (mediaUrl sample_params) = Inr [1, 2, 3] \<and>
      convertVideo ?caps [1, 2, 3] = Inr [6, 7, 8] \<and>
      startTempVideoServer (randomUUID ?caps) [6, 7, 8] (getInstanceBaseUrl ?caps) (host_state [0]) =
        (Inr (?u, ''u.mp4''), ?s1) \<and>
      fst (ig_leg ?caps ?u ''hi'') = Inl ?e5"
    using start_on_host leg5 by (simp add: quiet_env_def)
  have h2: "downloadMedia ?noid (mediaUrl sample_params) = Inr [1, 2, 3] \<and>
      convertVideo ?noid [1, 2, 3] = Inr [6, 7, 8] \<and>
      startTempVideoServer (randomUUID ?noid) [6, 7, 8] (getInstanceBaseUrl ?noid) (host_state [0]) =
        (Inr (?u, ''u.mp4''), ?s1) \<and>
      fst (ig_leg ?noid ?u ''hi'') = Inl ''boom''"
    using start_on_host leg2 by (simp add: quiet_env_def)
  have h3: "downloadMedia ?poll (mediaUrl sample_params) = Inr [1, 2, 3] \<and>
      convertVideo ?poll [1, 2, 3] = Inr [6, 7, 8] \<and>
      startTempVideoServer (randomUUID ?poll) [6, 7, 8] (getInstanceBaseUrl ?poll) (host_state [0]) =
        (Inr (?u, ''u.mp4''), ?s1) \<and>
      fst (ig_leg ?poll ?u ''hi'') = Inl ?e3"
    using start_on_host leg3 by (simp add: quiet_env_def)
  have h4: "downloadMedia ?pub (mediaUrl sample_params) = Inr [1, 2, 3] \<and>
      convertVideo ?pub [1, 2, 3] = Inr [6, 7, 8] \<and>
      startTempVideoServer (randomUUID ?pub) [6, 7, 8] (getInstanceBaseUrl ?pub) (host_state [0]) =
        (Inr (?u, ''u.mp4''), ?s1) \<and>
      fst (ig_leg ?pub ?u ''hi'') = Inl ?e4"
    using start_on_host leg4 by (simp add: quiet_env_def)
  have up: "uploadFbVideoFromBuffer ?car [6, 7, 8] ''hi'' = Inr ''v1''"
    "uploadFbVideoFromBuffer ?noid [6, 7, 8] ''hi'' = Inl ''upload failed''"
    "uploadFbVideoFromBuffer ?poll [6, 7, 8] ''hi'' = Inr ''v1''"
    "uploadFbVideoFromBuffer ?pub [6, 7, 8] ''hi'' = Inr ''v1''"
    by (simp_all add: quiet_env_def)
  note t1 = video_compensation [where env = ?car and params = sample_params and caption = "''hi''"
      and s = "host_state [0]" and vb = "[1, 2, 3]" and cb = "[6, 7, 8]" and u = ?u and f = "''u.mp4''"
      and ?s1.0 = ?s1 and e = ?e1]
  note t5 = video_compensation [where env = ?caps and params = sample_params and caption = "''hi''"
      and s = "host_state [0]" and vb = "[1, 2, 3]" and cb = "[6, 7, 8]" and u = ?u and f = "''u.mp4''"
      and ?s1.0 = ?s1 and e = ?e5]
  note t2 = video_compensation [where env = ?noid and params = sample_params and caption = "''hi''"
      and s = "host_state [0]" and vb = "[1, 2, 3]" and cb = "[6, 7, 8]" and u = ?u and f = "''u.mp4''"
      and ?s1.0 = ?s1 and e = "''boom''"]
  note t3 = video_compensation [where env = ?poll and params = sample_params and caption = "''hi''"
      and s = "host_state [0]" and vb = "[1, 2, 3]" and cb = "[6, 7, 8]" and u = ?u and f = "''u.mp4''"
      and ?s1.0 = ?s1 and e = ?e3]
  note t4 = video_compensation [where env = ?pub and params = sample_params and caption = "''hi''"
      and s = "host_state [0]" and vb = "[1, 2, 3]" and cb = "[6, 7, 8]" and u = ?u and f = "''u.mp4''"
      and ?s1.0 = ?s1 and e = ?e4]
  note m1 = t1 [THEN conjunct1, THEN mp, OF h1]
  note m5 = t5 [THEN conjunct1, THEN mp, OF h5]
  note m2 = t2 [THEN conjunct1, THEN mp, OF h2]
  note m3 = t3 [THEN conjunct1, THEN mp, OF h3]
  note m4 = t4 [THEN conjunct1, THEN mp, OF h4]
  have "(\<exists>w. sublist w ?e1 \<and> list_all2 (\<lambda>c p. c = fst p \<or> c = snd p) w (zip ''carousel'' ''CAROUSEL''))"
    by (rule exI [of _ "''CaRoUsEl''"]) (simp add: sublist_code(3) prefix_code)
  with t1 [THEN conjunct2, THEN conjunct2, THEN conjunct2, THEN conjunct2, THEN conjunct2, THEN conjunct1]
  have c1: "is_carousel ?e1" by blast
  have "(\<exists>w. sublist w ?e5 \<and> list_all2 (\<lambda>c p. c = fst p \<or> c = snd p) w (zip ''carousel'' ''CAROUSEL''))"
    by (rule exI [of _ "''CAROUSEL''"]) (simp add: sublist_code(3) prefix_code)
  with t5 [THEN conjunct2, THEN conjunct2, THEN conjunct2, THEN conjunct2, THEN conjunct2, THEN conjunct1]
  have c5: "is_carousel ?e5" by blast
  have "sublist ''2207089'' ?e4" by (simp add: sublist_code(3) prefix_code)
  with t4 [THEN conjunct2, THEN conjunct2, THEN conjunct2, THEN conjunct2, THEN conjunct2, THEN conjunct1]
  have c4: "is_carousel ?e4" by blast
  have "\<not> (sublist ''2207089'' ''boom'' \<or> sublist ''carousel'' (toLowerCase ''boom''))"
    by (simp add: toLowerCase_def to_lower_def sublist_code(3) prefix_code)
  with t2 [THEN conjunct2, THEN conjunct2, THEN conjunct2, THEN conjunct2, THEN conjunct1]
  have c2: "\<not> is_carousel ''boom''" by blast
  from t3 [THEN conjunct2, THEN conjunct2, THEN conjunct2, THEN conjunct2, THEN conjunct1]
  have c3: "\<not> is_carousel ?e3"
    by (simp add: toLowerCase_def to_lower_def processing_failed_def str_or_def
        sublist_code(3) prefix_code)
  note g1 = t1 [THEN conjunct2, THEN conjunct2, THEN conjunct2, THEN conjunct2, THEN conjunct2, THEN conjunct2, THEN conjunct1]
  note g5 = t5 [THEN conjunct2, THEN conjunct2, THEN conjunct2, THEN conjunct2, THEN conjunct2, THEN conjunct2, THEN conjunct1]
  note g4 = t4 [THEN conjunct2, THEN conjunct2, THEN conjunct2, THEN conjunct2, THEN conjunct2, THEN conjunct2, THEN conjunct1]
  from m1 [THEN conjunct1] c1 g1
  have a1: "fst (fst (handleVideo ?car sample_params ''hi'' (host_state [0]))) =
     Inl (''Instagram rejected the video as a Reel. The video likely exceeds Instagram Reels '' @
          ''requirements (max 5 Mbps bitrate, H.264 High profile, max 90s duration). '' @
          ''Please re-encode the source video to a lower bitrate before posting. '' @
          ''(Original error: Media is treated as a CaRoUsEl post)'')"
    by simp
  from m1 [THEN conjunct2, THEN conjunct1]
  have a2: "snd (fst (handleVideo ?car sample_params ''hi'' (host_state [0]))) =
     [CallDownload ''https://x/a.webp'', CallConvertVideo, Register ''u.mp4'', StartUploadVideo,
      CallCreateReel ''https://n8n.example/tmp-video/u.mp4'', AwaitUploadVideo, CallDeleteVideo ''v1'', Close ''u.mp4'']"
    unfolding up leg1 by (simp add: sample_params_def)
  from m1 [THEN conjunct2, THEN conjunct2]
  have a3: "delete_calls (snd (fst (handleVideo ?car sample_params ''hi'' (host_state [0])))) = [''v1'']"
    unfolding up by simp
  from m5 [THEN conjunct1] c5 g5
  have a5: "fst (fst (handleVideo ?caps sample_params ''hi'' (host_state [0]))) =
     Inl (''Instagram rejected the video as a Reel. The video likely exceeds Instagram Reels '' @
          ''requirements (max 5 Mbps bitrate, H.264 High profile, max 90s duration). '' @
          ''Please re-encode the source video to a lower bitrate before posting. '' @
          ''(Original error: NOT A CAROUSEL ITEM)'')"
    by simp
  from m2 [THEN conjunct1] c2
  have b1: "fst (fst (handleVideo ?noid sample_params ''hi'' (host_state [0]))) = Inl ''boom''"
    by simp
  from m2 [THEN conjunct2, THEN conjunct1]
  have b2: "snd (fst (handleVideo ?noid sample_params ''hi'' (host_state [0]))) =
     [CallDownload ''https://x/a.webp'', CallConvertVideo, Register ''u.mp4'', StartUploadVideo,
      CallCreateReel ''https://n8n.example/tmp-video/u.mp4'', AwaitUploadVideo, Close ''u.mp4'']"
    unfolding up leg2 by (simp add: sample_params_def)
  from m2 [THEN conjunct2, THEN conjunct2]
  have b3: "delete_calls (snd (fst (handleVideo ?noid sample_params ''hi'' (host_state [0])))) = []"
    unfolding up by simp
  from m3 [THEN conjunct1] c3
  have d1: "fst (fst (handleVideo ?poll sample_params ''hi'' (host_state [0]))) =
     Inl (''Instagram Reel processing failed: ERROR. Ensure the video URL is publicly accessible and the video meets '' @
          ''Instagram Reels requirements (MP4 H.264, max 5 Mbps bitrate, max 90s, 9:16 aspect ratio recommended).'')"
    by (simp add: processing_failed_def str_or_def)
  from m3 [THEN conjunct2, THEN conjunct1]
  have d2: "snd (fst (handleVideo ?poll sample_params ''hi'' (host_state [0]))) =
     [CallDownload ''https://x/a.webp'', CallConvertVideo, Register ''u.mp4'', StartUploadVideo,
      CallCreateReel ''https://n8n.example/tmp-video/u.mp4'', Sleep 10000, CallStatus ''r1'',
      AwaitUploadVideo, CallDeleteVideo ''v1'', Close ''u.mp4'']"
    unfolding up leg3 by (simp add: sample_params_def)
  from m4 [THEN conjunct1] c4 g4
  have e1: "fst (fst (handleVideo ?pub sample_params ''hi'' (host_state [0]))) =
     Inl (''Instagram rejected the video as a Reel. The video likely exceeds Instagram Reels '' @
          ''requirements (max 5 Mbps bitrate, H.264 High profile, max 90s duration). '' @
          ''Please re-encode the source video to a lower bitrate before posting. '' @
          ''(Original error: Instagram publish failed (HTTP 400, code 100, subcode 2207089): Unsupported media)'')"
    by simp
  from m4 [THEN conjunct2, THEN conjunct1]
  have e2: "snd (fst (handleVideo ?pub sample_params ''hi'' (host_state [0]))) =
     [CallDownload ''https://x/a.webp'', CallConvertVideo, Register ''u.mp4'', StartUploadVideo,
      CallCreateReel ''https://n8n.example/tmp-video/u.mp4'', Sleep 10000, CallStatus ''r1'',
      CallPublish ''r1'', AwaitUploadVideo, CallDeleteVideo ''v1'', Close ''u.mp4'']"
    unfolding up leg4 by (simp add: sample_params_def)
  from m4 [THEN conjunct2, THEN conjunct2]
  have e3: "delete_calls (snd (fst (handleVideo ?pub sample_params ''hi'' (host_state [0])))) = [''v1'']"
    unfolding up by simp
  from a1 a2 a3 a5 b1 b2 b3 d1 d2 e1 e2 e3 show ?thesis by (intro conjI)
qed

end
